theory Spec2Isabelle
  imports Main "HOL-Library.Word"
begin

unbundle bit_operations_syntax

section \<open>The L2CAP audit service of hcid (hcid/dbus-test.c)\<close>

text \<open>
  The file implements two D-Bus methods, \<open>AuditRemoteDevice\<close> and
  \<open>CancelAuditRemoteDevice\<close>, and four callbacks that the main loop and the name-listener
  service invoke: \<open>l2raw_connect_complete\<close>, \<open>l2raw_data_callback\<close>,
  \<open>l2raw_input_timer\<close> and \<open>audit_requestor_exited\<close>. All of them work on the global list
  \<open>audits\<close> of heap-allocated \<open>struct audit\<close> objects.

  The embedding keeps the heap explicit: a \<open>struct audit *\<close> is an address, the heap maps the
  addresses of live objects to their contents, and \<open>audits\<close> is a list of addresses, so that
  \<open>slist_remove\<close> (by pointer) and \<open>audit_free\<close> stay two different operations. A function
  that dereferences an address with no live object has no defined behaviour in C; the
  embedding returns \<open>None\<close> there.
\<close>

subsection \<open>Machine types and byte order\<close>

type_synonym byte = "8 word"
type_synonym ptr = nat
type_synonym chan = nat
type_synonym guint = nat
type_synonym bdaddr_t = "48 word"

text \<open>\<open>btohs\<close>, \<open>btohl\<close>: Bluetooth wire order is little-endian; the functions are applied
  to the bytes as they lie in the buffer.\<close>

definition btohs :: "byte \<Rightarrow> byte \<Rightarrow> 16 word" where
  "btohs b0 b1 = ucast b0 OR push_bit 8 (ucast b1)"

definition btohl :: "byte \<Rightarrow> byte \<Rightarrow> byte \<Rightarrow> byte \<Rightarrow> 32 word" where
  "btohl b0 b1 b2 b3 =
     ucast b0 OR push_bit 8 (ucast b1) OR push_bit 16 (ucast b2) OR push_bit 24 (ucast b3)"

definition htobs :: "16 word \<Rightarrow> byte list" where
  "htobs v = [ucast v, ucast (drop_bit 8 v)]"

text \<open>Modelled from the spec: \<open>bacmp\<close> is declared in bluetooth/bluetooth.h, which is not
  part of the sources. It is \<open>memcmp\<close> on the six stored bytes of the two addresses; the
  first stored byte is the least significant byte of the address. For two addresses that
  differ the value is the difference of the first two bytes that differ (C fixes only its
  sign). The callers in this file test the result against zero.\<close>

definition ba_bytes :: "bdaddr_t \<Rightarrow> byte list" where
  "ba_bytes a = map (\<lambda>i. ucast (drop_bit (8 * i) a)) [0..<6]"

fun memcmp :: "byte list \<Rightarrow> byte list \<Rightarrow> int" where
  "memcmp (x # xs) (y # ys) = (if x = y then memcmp xs ys else uint x - uint y)"
| "memcmp xs ys = 0"

definition bacmp :: "bdaddr_t \<Rightarrow> bdaddr_t \<Rightarrow> int" where
  "bacmp a b = memcmp (ba_bytes a) (ba_bytes b)"

text \<open>Modelled from the spec: the constants of the headers the file includes
  (bluetooth/l2cap.h, glib.h, limits.h), which are not part of the sources: the sizes of
  the packed L2CAP signalling structures (command header: code, ident, 16-bit length;
  info request: 16-bit type; info response: 16-bit type, 16-bit result, then data), the
  info-request command code and the poll condition bits.\<close>

definition L2CAP_CMD_HDR_SIZE :: nat where "L2CAP_CMD_HDR_SIZE = 4"
definition L2CAP_INFO_REQ_SIZE :: nat where "L2CAP_INFO_REQ_SIZE = 2"
definition L2CAP_INFO_RSP_SIZE :: nat where "L2CAP_INFO_RSP_SIZE = 4"
definition L2CAP_INFO_REQ :: byte where "L2CAP_INFO_REQ = 0x0a"
definition PATH_MAX :: nat where "PATH_MAX = 4096"

type_synonym GIOCondition = "32 word"

definition G_IO_IN :: GIOCondition where "G_IO_IN = 1"
definition G_IO_OUT :: GIOCondition where "G_IO_OUT = 4"
definition G_IO_ERR :: GIOCondition where "G_IO_ERR = 8"
definition G_IO_HUP :: GIOCondition where "G_IO_HUP = 16"
definition G_IO_NVAL :: GIOCondition where "G_IO_NVAL = 32"

subsection \<open>struct audit\<close>

datatype audit_state = AUDIT_STATE_MTU | AUDIT_STATE_FEATURES

text \<open>The fields of \<open>struct audit\<close>. \<open>io\<close> is a pointer (\<open>None\<close> is \<open>NULL\<close>); \<open>io_id\<close> and
  \<open>timeout\<close> are source ids, 0 when unset. The field \<open>conn\<close> is left out: the daemon has one
  D-Bus connection, and the file only takes and drops a reference to it.\<close>

record audit =
  addr :: bdaddr_t
  adapter_path :: string
  requestor :: string
  io :: "chan option"
  io_id :: guint
  timeout :: guint
  state :: audit_state
  got_mtu :: bool
  got_mask :: bool
  mtu :: "16 word"
  mask :: "32 word"

subsection \<open>The world around the file\<close>

text \<open>What the code writes to the outside: log lines (with their format strings), the
  packets it hands to \<open>send\<close>, and the call of \<open>pending_remote_name_cancel\<close>.\<close>

datatype effect =
    Debug string
  | Error string
  | Send int "byte list"
  | Pending_remote_name_cancel

datatype giofunc = CB_connect_complete | CB_data_callback

text \<open>Modelled from the spec: the main loop, the timeout service and the name-listener
  service are external collaborators (sections 4.4, 5 and 6 of the specification) whose
  code is not in the sources. They are modelled as ledgers that count what the file
  acquires and releases, one entry per acquisition:
  a channel counts the calls of \<open>g_io_channel_close\<close> and \<open>g_io_channel_unref\<close> on it;
  an I/O watch and a timeout count how often they were released (a callback that
  returns \<open>FALSE\<close> releases its source, \<open>g_timeout_remove\<close> releases a timeout);
  the listeners are the pairs of name and user data registered with \<open>name_listener_add\<close>.\<close>

record giochannel =
  ch_fd :: int
  ch_closes :: nat
  ch_unrefs :: nat

record iowatch =
  w_chan :: chan
  w_func :: giofunc
  w_data :: ptr
  w_removed :: nat

record gtimeout =
  t_data :: ptr
  t_removed :: nat

record world =
  heap :: "ptr \<rightharpoonup> audit"
  audits :: "ptr list"
  channels :: "chan \<rightharpoonup> giochannel"
  watches :: "guint \<rightharpoonup> iowatch"
  timers :: "guint \<rightharpoonup> gtimeout"
  listeners :: "(string \<times> ptr) list"
  trace :: "effect list"

definition init_world :: world where
  "init_world = \<lparr>heap = Map.empty, audits = [], channels = Map.empty, watches = Map.empty,
     timers = Map.empty, listeners = [], trace = []\<rparr>"

definition emit :: "effect \<Rightarrow> world \<Rightarrow> world" where
  "emit e w = w\<lparr>trace := trace w @ [e]\<rparr>"

definition g_io_channel_unix_new :: "chan \<Rightarrow> int \<Rightarrow> world \<Rightarrow> world" where
  "g_io_channel_unix_new ch sk w =
     w\<lparr>channels := (channels w)(ch \<mapsto> \<lparr>ch_fd = sk, ch_closes = 0, ch_unrefs = 0\<rparr>)\<rparr>"

definition g_io_add_watch :: "guint \<Rightarrow> chan \<Rightarrow> giofunc \<Rightarrow> ptr \<Rightarrow> world \<Rightarrow> world" where
  "g_io_add_watch wid ch f p w =
     w\<lparr>watches := (watches w)(wid \<mapsto> \<lparr>w_chan = ch, w_func = f, w_data = p, w_removed = 0\<rparr>)\<rparr>"

definition g_io_channel_close :: "chan \<Rightarrow> world \<Rightarrow> world" where
  "g_io_channel_close ch w =
     (case channels w ch of
        None \<Rightarrow> w
      | Some c \<Rightarrow> w\<lparr>channels := (channels w)(ch \<mapsto> c\<lparr>ch_closes := Suc (ch_closes c)\<rparr>)\<rparr>)"

definition g_io_channel_unref :: "chan \<Rightarrow> world \<Rightarrow> world" where
  "g_io_channel_unref ch w =
     (case channels w ch of
        None \<Rightarrow> w
      | Some c \<Rightarrow> w\<lparr>channels := (channels w)(ch \<mapsto> c\<lparr>ch_unrefs := Suc (ch_unrefs c)\<rparr>)\<rparr>)"

definition g_timeout_add :: "guint \<Rightarrow> ptr \<Rightarrow> world \<Rightarrow> world" where
  "g_timeout_add tid p w = w\<lparr>timers := (timers w)(tid \<mapsto> \<lparr>t_data = p, t_removed = 0\<rparr>)\<rparr>"

definition g_timeout_remove :: "guint \<Rightarrow> world \<Rightarrow> world" where
  "g_timeout_remove tid w =
     (case timers w tid of
        None \<Rightarrow> w
      | Some t \<Rightarrow> w\<lparr>timers := (timers w)(tid \<mapsto> t\<lparr>t_removed := Suc (t_removed t)\<rparr>)\<rparr>)"

text \<open>The main loop destroys an I/O watch whose callback returned \<open>FALSE\<close>.\<close>

definition watch_released :: "guint \<Rightarrow> world \<Rightarrow> world" where
  "watch_released wid w =
     (case watches w wid of
        None \<Rightarrow> w
      | Some wt \<Rightarrow> w\<lparr>watches := (watches w)(wid \<mapsto> wt\<lparr>w_removed := Suc (w_removed wt)\<rparr>)\<rparr>)"

definition name_listener_add :: "string \<Rightarrow> ptr \<Rightarrow> world \<Rightarrow> world" where
  "name_listener_add name p w = w\<lparr>listeners := listeners w @ [(name, p)]\<rparr>"

definition name_listener_remove :: "string \<Rightarrow> ptr \<Rightarrow> world \<Rightarrow> world" where
  "name_listener_remove name p w = w\<lparr>listeners := remove1 (name, p) (listeners w)\<rparr>"

text \<open>\<open>slist_append\<close> and \<open>slist_remove\<close> on the global \<open>audits\<close>; the latter removes the
  first node whose data pointer is the given one.\<close>

definition slist_append :: "ptr \<Rightarrow> world \<Rightarrow> world" where
  "slist_append p w = w\<lparr>audits := audits w @ [p]\<rparr>"

definition slist_remove :: "ptr \<Rightarrow> world \<Rightarrow> world" where
  "slist_remove p w = w\<lparr>audits := remove1 p (audits w)\<rparr>"

text \<open>Assignment to the fields of a live object.\<close>

definition store :: "ptr \<Rightarrow> audit \<Rightarrow> world \<Rightarrow> world" where
  "store p a w = w\<lparr>heap := (heap w)(p \<mapsto> a)\<rparr>"

subsection \<open>Messages and what the environment answers\<close>

text \<open>A D-Bus method call as the handlers read it: sender, object path, and the one string
  argument (\<open>None\<close> when \<open>dbus_message_get_args\<close> sets the error).\<close>

record dbus_message =
  msg_sender :: string
  msg_path :: string
  msg_address :: "string option"

text \<open>The fields of \<open>struct hci_dbus_data\<close> that \<open>audit_remote_device\<close> reads. \<open>bonding\<close>
  is a pointer tested against \<open>NULL\<close>; \<open>pin_reqs\<close> is searched with \<open>pin_req_cmp\<close>, which
  compares a pending request's address with the given one.\<close>

record hci_dbus_data =
  disc_active :: bool
  pdisc_active :: bool
  pinq_idle :: bool
  bonding :: bool
  pin_reqs :: "bdaddr_t list"

datatype reply =
    Error_invalid_arguments
  | Error_discover_in_progress
  | Error_bonding_in_progress
  | Error_connection_attempt_failed
  | Error_not_in_progress
  | Error_not_authorized
  | Method_return
  | DBUS_HANDLER_RESULT_NEED_MEMORY

text \<open>What the allocator and the libraries answer during \<open>audit_remote_device\<close>.\<close>

record start_env =
  reply_alloc :: bool
  malloc_audit :: "ptr option"
  strdup_ok :: bool
  l2raw_connect :: int
  new_channel :: chan
  new_watch :: guint

text \<open>What the socket and the main loop answer during an I/O callback. \<open>recv_result\<close> is
  \<open>None\<close> when \<open>recv\<close> returns a negative value, else the bytes of the datagram.\<close>

record io_env =
  getsockopt_rc :: int
  so_error :: int
  send_rc :: int
  recv_result :: "byte list option"
  new_timeout :: guint
  new_io_watch :: guint

subsection \<open>audit_new, audit_free, audit_requestor_exited\<close>

definition audit_new :: "start_env \<Rightarrow> dbus_message \<Rightarrow> bdaddr_t \<Rightarrow> world \<Rightarrow> ptr option \<times> world" where
  "audit_new env msg a w =
     (case malloc_audit env of
        None \<Rightarrow> (None, w)
      | Some p \<Rightarrow>
          if \<not> strdup_ok env then (None, w)
          else (Some p,
                store p \<lparr>addr = a,
                         adapter_path = take (PATH_MAX - 1) (msg_path msg),
                         requestor = msg_sender msg,
                         io = None, io_id = 0, timeout = 0,
                         state = AUDIT_STATE_MTU,
                         got_mtu = False, got_mask = False, mtu = 0, mask = 0\<rparr> w))"

definition audit_free :: "ptr \<Rightarrow> world \<Rightarrow> world" where
  "audit_free p w = w\<lparr>heap := (heap w)(p := None)\<rparr>"

definition audit_requestor_exited :: "string \<Rightarrow> ptr \<Rightarrow> world \<Rightarrow> world option" where
  "audit_requestor_exited name p w =
     (case heap w p of
        None \<Rightarrow> None
      | Some a \<Rightarrow>
          let w1 = emit (Debug ''AuditRemoteDevice requestor %s exited'') w;
              w2 = slist_remove p w1;
              w3 = (case io a of None \<Rightarrow> w2 | Some ch \<Rightarrow> g_io_channel_close ch w2);
              w4 = (if timeout a \<noteq> 0 then g_timeout_remove (timeout a) w3 else w3)
          in Some (audit_free p w4))"

subsection \<open>audit_addr_cmp, audit_in_progress\<close>

definition audit_addr_cmp :: "audit \<Rightarrow> bdaddr_t \<Rightarrow> int" where
  "audit_addr_cmp a b = bacmp (addr a) b"

text \<open>\<open>slist_find (audits, &dba, audit_addr_cmp)\<close>: the first node whose data compares equal.\<close>

fun slist_find_audit :: "(ptr \<rightharpoonup> audit) \<Rightarrow> ptr list \<Rightarrow> bdaddr_t \<Rightarrow> ptr option option" where
  "slist_find_audit h [] b = Some None"
| "slist_find_audit h (l # ls) b =
     (case h l of
        None \<Rightarrow> None
      | Some a \<Rightarrow> if audit_addr_cmp a b = 0 then Some (Some l) else slist_find_audit h ls b)"

fun audit_in_progress_loop :: "(ptr \<rightharpoonup> audit) \<Rightarrow> ptr list \<Rightarrow> bool option" where
  "audit_in_progress_loop h [] = Some False"
| "audit_in_progress_loop h (l # ls) =
     (case h l of
        None \<Rightarrow> None
      | Some a \<Rightarrow> if io a \<noteq> None then Some True else audit_in_progress_loop h ls)"

definition audit_in_progress :: "world \<Rightarrow> bool option" where
  "audit_in_progress w = audit_in_progress_loop (heap w) (audits w)"

subsection \<open>l2raw_input_timer\<close>

text \<open>The callback returns \<open>FALSE\<close>; the result pairs the return value with the new world.
  \<open>g_io_channel_close\<close> on \<open>NULL\<close> does nothing.\<close>

definition l2raw_input_timer :: "ptr \<Rightarrow> world \<Rightarrow> (bool \<times> world) option" where
  "l2raw_input_timer p w =
     (case heap w p of
        None \<Rightarrow> None
      | Some a \<Rightarrow>
          let w1 = emit (Error ''l2raw_input_timer: Timed out while waiting for input'') w;
              w2 = (case io a of None \<Rightarrow> w1 | Some ch \<Rightarrow> g_io_channel_close ch w1);
              w3 = slist_remove p w2;
              w4 = name_listener_remove (requestor a) p w3
          in Some (False, audit_free p w4))"

subsection \<open>Decoding the info responses\<close>

text \<open>\<open>rsp\<close> points at offset \<open>L2CAP_CMD_HDR_SIZE\<close> of the 48-byte buffer; the response
  structure is the 16-bit type, the 16-bit result and the data bytes. The functions
  below take the bytes from that offset on.\<close>

definition rsp_result :: "byte list \<Rightarrow> 16 word" where
  "rsp_result rsp = btohs (rsp ! 2) (rsp ! 3)"

definition rsp_data :: "byte list \<Rightarrow> byte list" where
  "rsp_data rsp = drop 4 rsp"

definition handle_mtu_response :: "audit \<Rightarrow> byte list \<Rightarrow> audit \<times> effect list" where
  "handle_mtu_response a rsp =
     (if rsp_result rsp = 0x0000 then
        (a\<lparr>mtu := btohs (rsp_data rsp ! 0) (rsp_data rsp ! 1), got_mtu := True\<rparr>,
         [Debug ''Connectionless MTU size is %d''])
      else if rsp_result rsp = 0x0001 then
        (a, [Debug ''Connectionless MTU is not supported''])
      else (a, []))"

definition handle_features_response :: "audit \<Rightarrow> byte list \<Rightarrow> audit \<times> effect list" where
  "handle_features_response a rsp =
     (if rsp_result rsp = 0x0000 then
        (let m = btohl (rsp_data rsp ! 0) (rsp_data rsp ! 1) (rsp_data rsp ! 2) (rsp_data rsp ! 3)
         in (a\<lparr>mask := m, got_mask := True\<rparr>,
             [Debug ''Extended feature mask is 0x%04x'']
             @ (if m AND 0x01 \<noteq> 0 then [Debug ''  Flow control mode''] else [])
             @ (if m AND 0x02 \<noteq> 0 then [Debug ''  Retransmission mode''] else [])
             @ (if m AND 0x04 \<noteq> 0 then [Debug ''  Bi-directional QoS''] else [])))
      else if rsp_result rsp = 0x0001 then
        (a, [Debug ''Extended feature mask is not supported''])
      else (a, []))"

text \<open>The buffer after \<open>memset (buf, 0, sizeof (buf))\<close> and a successful
  \<open>recv (sk, buf, L2CAP_CMD_HDR_SIZE + L2CAP_INFO_RSP_SIZE + 2, 0)\<close> of the datagram \<open>bs\<close>:
  at most ten bytes are copied, the rest of the 48 bytes stays zero.\<close>

definition recv_buf :: "byte list \<Rightarrow> byte list" where
  "recv_buf bs =
     take 48 (take (L2CAP_CMD_HDR_SIZE + L2CAP_INFO_RSP_SIZE + 2) bs @ replicate 48 0)"

text \<open>The info request the callbacks build in the zeroed buffer, and the
  \<open>L2CAP_CMD_HDR_SIZE + L2CAP_INFO_REQ_SIZE\<close> bytes of it that are sent.\<close>

definition info_req :: "16 word \<Rightarrow> byte list" where
  "info_req ty =
     take (L2CAP_CMD_HDR_SIZE + L2CAP_INFO_REQ_SIZE)
       ([L2CAP_INFO_REQ, 42] @ htobs 2 @ htobs ty @ replicate 42 0)"

subsection \<open>l2raw_data_callback\<close>

definition emits :: "effect list \<Rightarrow> world \<Rightarrow> world" where
  "emits es w = w\<lparr>trace := trace w @ es\<rparr>"

text \<open>The block after the label \<open>failed\<close> of \<open>l2raw_data_callback\<close>, which the
  feature-response case also runs into after its \<open>break\<close>.\<close>

definition l2raw_data_callback_failed :: "chan \<Rightarrow> ptr \<Rightarrow> audit \<Rightarrow> world \<Rightarrow> bool \<times> world" where
  "l2raw_data_callback_failed io_ch p a w =
     (let w1 = g_io_channel_close io_ch w;
          w2 = g_io_channel_unref io_ch w1;
          w3 = slist_remove p w2;
          w4 = name_listener_remove (requestor a) p w3
      in (False, audit_free p w4))"

text \<open>Lines 200 to 203: a pending timeout is removed and the field cleared.\<close>

definition clear_timeout :: "ptr \<Rightarrow> audit \<Rightarrow> world \<Rightarrow> audit \<times> world" where
  "clear_timeout p a w =
     (if timeout a \<noteq> 0
      then (a\<lparr>timeout := 0\<rparr>, store p (a\<lparr>timeout := 0\<rparr>) (g_timeout_remove (timeout a) w))
      else (a, w))"

text \<open>The case \<open>AUDIT_STATE_MTU\<close> of the switch on \<open>audit->state\<close>.\<close>

definition data_state_mtu ::
    "io_env \<Rightarrow> chan \<Rightarrow> int \<Rightarrow> ptr \<Rightarrow> audit \<Rightarrow> byte list \<Rightarrow> world \<Rightarrow> bool \<times> world" where
  "data_state_mtu env io_ch sk p a rsp w =
     (let a1 = fst (handle_mtu_response a rsp);
          w1 = emits (snd (handle_mtu_response a rsp)) (store p a1 w);
          w2 = emit (Send sk (info_req 0x0002)) w1
      in if send_rc env < 0
         then l2raw_data_callback_failed io_ch p a1 (emit (Error ''Can't send info request:'') w2)
         else
           (let a2 = a1\<lparr>timeout := new_timeout env\<rparr>;
                w3 = store p a2 (g_timeout_add (new_timeout env) p w2);
                a3 = a2\<lparr>state := AUDIT_STATE_FEATURES\<rparr>
            in (True, store p a3 w3)))"

text \<open>The case \<open>AUDIT_STATE_FEATURES\<close>.\<close>

definition data_state_features ::
    "chan \<Rightarrow> ptr \<Rightarrow> audit \<Rightarrow> byte list \<Rightarrow> world \<Rightarrow> bool \<times> world" where
  "data_state_features io_ch p a rsp w =
     (let a1 = fst (handle_features_response a rsp);
          w1 = emits (snd (handle_features_response a rsp)) (store p a1 w)
      in l2raw_data_callback_failed io_ch p a1 w1)"

definition l2raw_data_callback ::
    "io_env \<Rightarrow> chan \<Rightarrow> GIOCondition \<Rightarrow> ptr \<Rightarrow> world \<Rightarrow> (bool \<times> world) option" where
  "l2raw_data_callback env io_ch cond p w =
     (if cond AND G_IO_NVAL \<noteq> 0 then Some (False, g_io_channel_unref io_ch w)
      else
        (case heap w p of
           None \<Rightarrow> None
         | Some a0 \<Rightarrow>
             (case clear_timeout p a0 w of
                (a, w1) \<Rightarrow>
                  if cond AND (G_IO_ERR OR G_IO_HUP) \<noteq> 0
                  then Some (l2raw_data_callback_failed io_ch p a w1)
                  else
                    (case channels w1 io_ch of
                       None \<Rightarrow> None
                     | Some c \<Rightarrow>
                         (case recv_result env of
                            None \<Rightarrow>
                              Some (l2raw_data_callback_failed io_ch p a
                                      (emit (Error ''Can't receive info response: %s (%d)'') w1))
                          | Some bs \<Rightarrow>
                              (case state a of
                                 AUDIT_STATE_MTU \<Rightarrow>
                                   Some (data_state_mtu env io_ch (ch_fd c) p a
                                           (drop L2CAP_CMD_HDR_SIZE (recv_buf bs)) w1)
                               | AUDIT_STATE_FEATURES \<Rightarrow>
                                   Some (data_state_features io_ch p a
                                           (drop L2CAP_CMD_HDR_SIZE (recv_buf bs)) w1)))))))"

subsection \<open>l2raw_connect_complete\<close>

definition l2raw_connect_complete_failed :: "chan \<Rightarrow> ptr \<Rightarrow> audit \<Rightarrow> world \<Rightarrow> bool \<times> world" where
  "l2raw_connect_complete_failed io_ch p a w =
     (let w1 = g_io_channel_close io_ch w;
          w2 = g_io_channel_unref io_ch w1;
          w3 = slist_remove p w2;
          w4 = name_listener_remove (requestor a) p w3
      in (False, audit_free p w4))"

definition l2raw_connect_complete ::
    "io_env \<Rightarrow> chan \<Rightarrow> GIOCondition \<Rightarrow> ptr \<Rightarrow> world \<Rightarrow> (bool \<times> world) option" where
  "l2raw_connect_complete env io_ch cond p w =
     (if cond AND G_IO_NVAL \<noteq> 0 then Some (False, g_io_channel_unref io_ch w)
      else
        (case heap w p of
           None \<Rightarrow> None
         | Some a \<Rightarrow>
             if cond AND (G_IO_ERR OR G_IO_HUP) \<noteq> 0
             then Some (l2raw_connect_complete_failed io_ch p a
                          (emit (Error ''Error on raw l2cap socket'') w))
             else
               (case channels w io_ch of
                  None \<Rightarrow> None
                | Some c \<Rightarrow>
                    if getsockopt_rc env < 0
                    then Some (l2raw_connect_complete_failed io_ch p a
                                 (emit (Error ''Can't get socket error: %s (%d)'') w))
                    else if so_error env \<noteq> 0
                    then Some (l2raw_connect_complete_failed io_ch p a
                                 (emit (Error ''l2raw_connect failed: %s (%d)'') w))
                    else
                      (let w1 = emit (Debug ''AuditRemoteDevice: connected'') w;
                           w2 = emit (Send (ch_fd c) (info_req 0x0001)) w1
                       in if send_rc env < 0
                          then Some (l2raw_connect_complete_failed io_ch p a
                                       (emit (Error ''Can't send info request: %s (%d)'') w2))
                          else
                            (case io a of
                               None \<Rightarrow> None
                             | Some ach \<Rightarrow>
                                 (let a1 = a\<lparr>timeout := new_timeout env\<rparr>;
                                      w3 = store p a1 (g_timeout_add (new_timeout env) p w2);
                                      a2 = a1\<lparr>io_id := new_io_watch env\<rparr>;
                                      w4 = store p a2
                                             (g_io_add_watch (new_io_watch env) ach
                                                CB_data_callback p w3)
                                  in Some (False, w4)))))))"

subsection \<open>The D-Bus methods\<close>

text \<open>\<open>check_address\<close> and \<open>str2ba\<close> (address validation and parsing) are outside the file;
  the methods take them as parameters.\<close>

definition audit_remote_device ::
    "(string \<Rightarrow> int) \<Rightarrow> (string \<Rightarrow> bdaddr_t) \<Rightarrow> dbus_message \<Rightarrow> hci_dbus_data \<Rightarrow> start_env
       \<Rightarrow> world \<Rightarrow> (reply \<times> world) option" where
  "audit_remote_device check_address str2ba msg dbus_data env w =
     (case msg_address msg of
        None \<Rightarrow>
          Some (Error_invalid_arguments, emit (Error ''Can't extract message arguments:%s'') w)
      | Some address \<Rightarrow>
          if check_address address < 0 then Some (Error_invalid_arguments, w)
          else
            (let dba = str2ba address in
             if disc_active dbus_data \<or> (pdisc_active dbus_data \<and> \<not> pinq_idle dbus_data)
             then Some (Error_discover_in_progress, w)
             else
               (let w0 = emit Pending_remote_name_cancel w in
                if bonding dbus_data then Some (Error_bonding_in_progress, w0)
                else if dba \<in> set (pin_reqs dbus_data) then Some (Error_bonding_in_progress, w0)
                else if \<not> reply_alloc env then Some (DBUS_HANDLER_RESULT_NEED_MEMORY, w0)
                else
                  (case audit_new env msg dba w0 of
                     (None, w1) \<Rightarrow> Some (DBUS_HANDLER_RESULT_NEED_MEMORY, w1)
                   | (Some p, w1) \<Rightarrow>
                       (case audit_in_progress w1 of
                          None \<Rightarrow> None
                        | Some True \<Rightarrow>
                            Some (Method_return,
                                  slist_append p (name_listener_add (msg_sender msg) p w1))
                        | Some False \<Rightarrow>
                            if l2raw_connect env < 0
                            then Some (Error_connection_attempt_failed, audit_free p w1)
                            else
                              (case heap w1 p of
                                 None \<Rightarrow> None
                               | Some a \<Rightarrow>
                                   (let a1 = a\<lparr>io := Some (new_channel env)\<rparr>;
                                        w2 = store p a1
                                               (g_io_channel_unix_new (new_channel env)
                                                  (l2raw_connect env) w1);
                                        a2 = a1\<lparr>io_id := new_watch env\<rparr>;
                                        w3 = store p a2
                                               (g_io_add_watch (new_watch env) (new_channel env)
                                                  CB_connect_complete p w2)
                                    in Some (Method_return,
                                             slist_append p
                                               (name_listener_add (msg_sender msg) p w3)))))))))"

definition cancel_audit_remote_device ::
    "(string \<Rightarrow> int) \<Rightarrow> (string \<Rightarrow> bdaddr_t) \<Rightarrow> dbus_message \<Rightarrow> bool
       \<Rightarrow> world \<Rightarrow> (reply \<times> world) option" where
  "cancel_audit_remote_device check_address str2ba msg reply_ok w =
     (case msg_address msg of
        None \<Rightarrow>
          Some (Error_invalid_arguments, emit (Error ''Can't extract message arguments:%s'') w)
      | Some address \<Rightarrow>
          if check_address address < 0 then Some (Error_invalid_arguments, w)
          else
            (case slist_find_audit (heap w) (audits w) (str2ba address) of
               None \<Rightarrow> None
             | Some None \<Rightarrow> Some (Error_not_in_progress, w)
             | Some (Some p) \<Rightarrow>
                 (case heap w p of
                    None \<Rightarrow> None
                  | Some a \<Rightarrow>
                      if requestor a \<noteq> msg_sender msg then Some (Error_not_authorized, w)
                      else
                        (let w1 = (case io a of None \<Rightarrow> w | Some ch \<Rightarrow> g_io_channel_close ch w);
                             w2 = (if timeout a \<noteq> 0 then g_timeout_remove (timeout a) w1 else w1);
                             w3 = slist_remove p w2;
                             w4 = name_listener_remove (requestor a) p w3;
                             w5 = audit_free p w4
                         in if \<not> reply_ok then Some (DBUS_HANDLER_RESULT_NEED_MEMORY, w5)
                            else Some (Method_return, w5)))))"

subsection \<open>Events\<close>

text \<open>Modelled from the spec: section 5 describes a single-threaded loop that delivers one
  callback at a time. An event is one such delivery: a method call, an I/O watch that
  became ready, a timeout that expired, or the exit of a name with a listener. Each carries
  what the environment answers during the call. The delivery rules are those of the main
  loop: only a source that is still registered is dispatched; a callback that returns
  \<open>FALSE\<close> releases its source; handles handed out (object addresses, channels, source
  ids) are not those of live objects, and a timeout id is not 0; the name-listener service
  drops a listener once it has called it. A registered watch can be dispatched with any
  condition, also when its channel has been closed: a socket descriptor is a number that
  the next \<open>l2raw_connect\<close> may get again, and the poll reports by number. The callback
  then runs with the user data the watch was registered with, whatever lies at that
  address now.\<close>

datatype event =
    AuditRemoteDevice dbus_message hci_dbus_data start_env
  | CancelAuditRemoteDevice dbus_message bool
  | Io_ready guint GIOCondition io_env
  | Timeout_expired guint
  | Requestor_exited string ptr

definition start_env_fresh :: "start_env \<Rightarrow> world \<Rightarrow> bool" where
  "start_env_fresh env w \<longleftrightarrow>
     (case malloc_audit env of None \<Rightarrow> True | Some p \<Rightarrow> heap w p = None)
     \<and> channels w (new_channel env) = None
     \<and> watches w (new_watch env) = None"

definition io_env_fresh :: "io_env \<Rightarrow> world \<Rightarrow> bool" where
  "io_env_fresh env w \<longleftrightarrow>
     timers w (new_timeout env) = None \<and> new_timeout env \<noteq> 0
     \<and> watches w (new_io_watch env) = None"

definition timeout_released :: "guint \<Rightarrow> world \<Rightarrow> world" where
  "timeout_released tid w =
     (case timers w tid of
        None \<Rightarrow> w
      | Some t \<Rightarrow> w\<lparr>timers := (timers w)(tid \<mapsto> t\<lparr>t_removed := Suc (t_removed t)\<rparr>)\<rparr>)"

definition listener_consumed :: "string \<Rightarrow> ptr \<Rightarrow> world \<Rightarrow> world" where
  "listener_consumed name p w = w\<lparr>listeners := remove1 (name, p) (listeners w)\<rparr>"

definition run_callback :: "giofunc \<Rightarrow> io_env \<Rightarrow> chan \<Rightarrow> GIOCondition \<Rightarrow> ptr \<Rightarrow> world
    \<Rightarrow> (bool \<times> world) option" where
  "run_callback f env ch cond p w =
     (case f of
        CB_connect_complete \<Rightarrow> l2raw_connect_complete env ch cond p w
      | CB_data_callback \<Rightarrow> l2raw_data_callback env ch cond p w)"

definition io_dispatch :: "guint \<Rightarrow> GIOCondition \<Rightarrow> io_env \<Rightarrow> world \<Rightarrow> world option" where
  "io_dispatch wid cond env w =
     (case watches w wid of
        None \<Rightarrow> None
      | Some wt \<Rightarrow>
          if w_removed wt \<noteq> 0 then None
          else if \<not> io_env_fresh env w then None
          else
            (case run_callback (w_func wt) env (w_chan wt) cond (w_data wt) w of
               None \<Rightarrow> None
             | Some (keep, w') \<Rightarrow> Some (if keep then w' else watch_released wid w')))"

definition timeout_dispatch :: "guint \<Rightarrow> world \<Rightarrow> world option" where
  "timeout_dispatch tid w =
     (case timers w tid of
        None \<Rightarrow> None
      | Some t \<Rightarrow>
          if t_removed t \<noteq> 0 then None
          else
            (case l2raw_input_timer (t_data t) w of
               None \<Rightarrow> None
             | Some (keep, w') \<Rightarrow> Some (if keep then w' else timeout_released tid w')))"

definition name_dispatch :: "string \<Rightarrow> ptr \<Rightarrow> world \<Rightarrow> world option" where
  "name_dispatch name p w =
     (if (name, p) \<in> set (listeners w)
      then (case audit_requestor_exited name p w of
              None \<Rightarrow> None
            | Some w' \<Rightarrow> Some (listener_consumed name p w'))
      else None)"

fun step :: "(string \<Rightarrow> int) \<Rightarrow> (string \<Rightarrow> bdaddr_t) \<Rightarrow> world \<Rightarrow> event \<Rightarrow> world option" where
  "step ca s2b w (AuditRemoteDevice msg dbus_data env) =
     (if start_env_fresh env w
      then map_option snd (audit_remote_device ca s2b msg dbus_data env w)
      else None)"
| "step ca s2b w (CancelAuditRemoteDevice msg reply_ok) =
     map_option snd (cancel_audit_remote_device ca s2b msg reply_ok w)"
| "step ca s2b w (Io_ready wid cond env) = io_dispatch wid cond env w"
| "step ca s2b w (Timeout_expired tid) = timeout_dispatch tid w"
| "step ca s2b w (Requestor_exited name p) = name_dispatch name p w"

fun run :: "(string \<Rightarrow> int) \<Rightarrow> (string \<Rightarrow> bdaddr_t) \<Rightarrow> world \<Rightarrow> event list \<Rightarrow> world option" where
  "run ca s2b w [] = Some w"
| "run ca s2b w (e # es) =
     (case step ca s2b w e of None \<Rightarrow> None | Some w' \<Rightarrow> run ca s2b w' es)"

section \<open>Notions used in the statements\<close>

text \<open>Two worlds agree on everything but the trace: the heap, the registry and the
  ledgers of channels, watches, timeouts and listeners.\<close>

definition same_registry :: "world \<Rightarrow> world \<Rightarrow> bool" where
  "same_registry w w' \<longleftrightarrow>
     heap w' = heap w \<and> audits w' = audits w \<and> channels w' = channels w
     \<and> watches w' = watches w \<and> timers w' = timers w \<and> listeners w' = listeners w"

text \<open>The test of line 346: a discovery is active, or a periodic discovery whose inquiry is
  not idle.\<close>

definition discovering :: "hci_dbus_data \<Rightarrow> bool" where
  "discovering d \<longleftrightarrow> disc_active d \<or> (pdisc_active d \<and> \<not> pinq_idle d)"

text \<open>The target addresses of the registered records, in registry order.\<close>

definition registered_addrs :: "world \<Rightarrow> bdaddr_t option list" where
  "registered_addrs w = map (\<lambda>p. map_option addr (heap w p)) (audits w)"

subsection \<open>Concrete inputs\<close>

definition ex_check_address :: "string \<Rightarrow> int" where
  "ex_check_address s = (if length s = 17 then 0 else - 1)"

definition ex_str2ba :: "string \<Rightarrow> bdaddr_t" where
  "ex_str2ba s = (if s = ''00:11:22:33:44:55'' then 0x001122334455 else 0)"

definition ex_msg :: dbus_message where
  "ex_msg = \<lparr>msg_sender = '':1.7'', msg_path = ''/org/bluez/hci0'',
     msg_address = Some ''00:11:22:33:44:55''\<rparr>"

definition ex_msg_other :: dbus_message where
  "ex_msg_other = \<lparr>msg_sender = '':1.9'', msg_path = ''/org/bluez/hci0'',
     msg_address = Some ''00:11:22:33:44:55''\<rparr>"

definition ex_msg_bad :: dbus_message where
  "ex_msg_bad = \<lparr>msg_sender = '':1.7'', msg_path = ''/org/bluez/hci0'',
     msg_address = Some ''bogus''\<rparr>"

definition ex_idle :: hci_dbus_data where
  "ex_idle = \<lparr>disc_active = False, pdisc_active = False, pinq_idle = True, bonding = False,
     pin_reqs = []\<rparr>"

definition ex_env1 :: start_env where
  "ex_env1 = \<lparr>reply_alloc = True, malloc_audit = Some 100, strdup_ok = True, l2raw_connect = 5,
     new_channel = 200, new_watch = 1\<rparr>"

definition ex_env2 :: start_env where
  "ex_env2 = \<lparr>reply_alloc = True, malloc_audit = Some 101, strdup_ok = True, l2raw_connect = 6,
     new_channel = 201, new_watch = 3\<rparr>"

definition ex_io_env :: io_env where
  "ex_io_env = \<lparr>getsockopt_rc = 0, so_error = 0, send_rc = 6, recv_result = None,
     new_timeout = 7, new_io_watch = 2\<rparr>"

text \<open>An MTU response with result code 0x0001 (not supported).\<close>

definition ex_io_env_mtu :: io_env where
  "ex_io_env_mtu = \<lparr>getsockopt_rc = 0, so_error = 0, send_rc = 6,
     recv_result = Some [0x0b, 42, 4, 0, 1, 0, 1, 0], new_timeout = 8, new_io_watch = 4\<rparr>"

definition ex_audit :: audit where
  "ex_audit = \<lparr>addr = 0x001122334455, adapter_path = ''/org/bluez/hci0'', requestor = '':1.7'',
     io = Some 200, io_id = 2, timeout = 7, state = AUDIT_STATE_MTU,
     got_mtu = False, got_mask = False, mtu = 0, mask = 0\<rparr>"

definition ex_audit0 :: audit where
  "ex_audit0 = \<lparr>addr = 0x001122334455, adapter_path = ''/org/bluez/hci0'', requestor = '':1.7'',
     io = Some 200, io_id = 1, timeout = 0, state = AUDIT_STATE_MTU,
     got_mtu = False, got_mask = False, mtu = 0, mask = 0\<rparr>"

definition ex_queued :: audit where
  "ex_queued = \<lparr>addr = 0x001122334455, adapter_path = ''/org/bluez/hci0'', requestor = '':1.9'',
     io = None, io_id = 0, timeout = 0, state = AUDIT_STATE_MTU,
     got_mtu = False, got_mask = False, mtu = 0, mask = 0\<rparr>"

text \<open>The events of a small session: a first start, a second start by another client for
  the same address, the completion of the connect, the expiry of the response timeout, and
  the \<open>G_IO_NVAL\<close> report of the data watch; and the worlds they lead to.\<close>

definition ex_start1 :: event where
  "ex_start1 = AuditRemoteDevice ex_msg ex_idle ex_env1"

definition ex_start2 :: event where
  "ex_start2 = AuditRemoteDevice ex_msg_other ex_idle ex_env2"

definition ex_connected :: event where
  "ex_connected = Io_ready 1 G_IO_OUT ex_io_env"

definition ex_timeout :: event where
  "ex_timeout = Timeout_expired 7"

definition ex_io_env_late :: io_env where
  "ex_io_env_late = \<lparr>getsockopt_rc = 0, so_error = 0, send_rc = 6, recv_result = None,
     new_timeout = 9, new_io_watch = 5\<rparr>"

definition ex_nval :: event where
  "ex_nval = Io_ready 2 G_IO_NVAL ex_io_env_late"

definition ex_hangup :: event where
  "ex_hangup = Io_ready 2 G_IO_HUP ex_io_env_late"

text \<open>After the first start: one probe, connecting.\<close>

definition ex_w1 :: world where
  "ex_w1 = \<lparr>heap = [100 \<mapsto> ex_audit0], audits = [100],
     channels = [200 \<mapsto> \<lparr>ch_fd = 5, ch_closes = 0, ch_unrefs = 0\<rparr>],
     watches = [1 \<mapsto> \<lparr>w_chan = 200, w_func = CB_connect_complete, w_data = 100,
                      w_removed = 0\<rparr>],
     timers = Map.empty,
     listeners = [('':1.7'', 100)], trace = [Pending_remote_name_cancel]\<rparr>"

text \<open>After both starts: the second probe is registered without a socket.\<close>

definition ex_w2 :: world where
  "ex_w2 = \<lparr>heap = [100 \<mapsto> ex_audit0, 101 \<mapsto> ex_queued], audits = [100, 101],
     channels = [200 \<mapsto> \<lparr>ch_fd = 5, ch_closes = 0, ch_unrefs = 0\<rparr>],
     watches = [1 \<mapsto> \<lparr>w_chan = 200, w_func = CB_connect_complete, w_data = 100,
                      w_removed = 0\<rparr>],
     timers = Map.empty,
     listeners = [('':1.7'', 100), ('':1.9'', 101)],
     trace = [Pending_remote_name_cancel, Pending_remote_name_cancel]\<rparr>"

text \<open>After the first start and the completed connect: one probe that waits for the MTU
  response.\<close>

definition ex_world :: world where
  "ex_world = \<lparr>heap = [100 \<mapsto> ex_audit], audits = [100],
     channels = [200 \<mapsto> \<lparr>ch_fd = 5, ch_closes = 0, ch_unrefs = 0\<rparr>],
     watches = [2 \<mapsto> \<lparr>w_chan = 200, w_func = CB_data_callback, w_data = 100, w_removed = 0\<rparr>,
                1 \<mapsto> \<lparr>w_chan = 200, w_func = CB_connect_complete, w_data = 100,
                      w_removed = 1\<rparr>],
     timers = [7 \<mapsto> \<lparr>t_data = 100, t_removed = 0\<rparr>],
     listeners = [('':1.7'', 100)],
     trace = [Pending_remote_name_cancel, Debug ''AuditRemoteDevice: connected'',
              Send 5 [0x0a, 42, 2, 0, 1, 0]]\<rparr>"

text \<open>After the timeout has expired in that world: the record is gone, the channel is
  closed, and the data watch is still registered.\<close>

definition ex_w_expired :: world where
  "ex_w_expired = \<lparr>heap = Map.empty, audits = [],
     channels = [200 \<mapsto> \<lparr>ch_fd = 5, ch_closes = 1, ch_unrefs = 0\<rparr>],
     watches = [2 \<mapsto> \<lparr>w_chan = 200, w_func = CB_data_callback, w_data = 100, w_removed = 0\<rparr>,
                1 \<mapsto> \<lparr>w_chan = 200, w_func = CB_connect_complete, w_data = 100,
                      w_removed = 1\<rparr>],
     timers = [7 \<mapsto> \<lparr>t_data = 100, t_removed = 1\<rparr>],
     listeners = [],
     trace = [Pending_remote_name_cancel, Debug ''AuditRemoteDevice: connected'',
              Send 5 [0x0a, 42, 2, 0, 1, 0],
              Error ''l2raw_input_timer: Timed out while waiting for input'']\<rparr>"


text \<open>After the data watch has reported \<open>G_IO_NVAL\<close> in that world: the channel reference
  is dropped and the watch released.\<close>

definition ex_w_released :: world where
  "ex_w_released = \<lparr>heap = Map.empty, audits = [],
     channels = [200 \<mapsto> \<lparr>ch_fd = 5, ch_closes = 1, ch_unrefs = 1\<rparr>],
     watches = [1 \<mapsto> \<lparr>w_chan = 200, w_func = CB_connect_complete, w_data = 100,
                      w_removed = 1\<rparr>,
                2 \<mapsto> \<lparr>w_chan = 200, w_func = CB_data_callback, w_data = 100, w_removed = 1\<rparr>],
     timers = [7 \<mapsto> \<lparr>t_data = 100, t_removed = 1\<rparr>],
     listeners = [],
     trace = [Pending_remote_name_cancel, Debug ''AuditRemoteDevice: connected'',
              Send 5 [0x0a, 42, 2, 0, 1, 0],
              Error ''l2raw_input_timer: Timed out while waiting for input'']\<rparr>"

text \<open>After a hangup on the socket while the probe waits for the MTU response: everything is
  released in the callback.\<close>

definition ex_w_hungup :: world where
  "ex_w_hungup = \<lparr>heap = Map.empty, audits = [],
     channels = [200 \<mapsto> \<lparr>ch_fd = 5, ch_closes = 1, ch_unrefs = 1\<rparr>],
     watches = [1 \<mapsto> \<lparr>w_chan = 200, w_func = CB_connect_complete, w_data = 100,
                      w_removed = 1\<rparr>,
                2 \<mapsto> \<lparr>w_chan = 200, w_func = CB_data_callback, w_data = 100, w_removed = 1\<rparr>],
     timers = [7 \<mapsto> \<lparr>t_data = 100, t_removed = 1\<rparr>],
     listeners = [],
     trace = [Pending_remote_name_cancel, Debug ''AuditRemoteDevice: connected'',
              Send 5 [0x0a, 42, 2, 0, 1, 0]]\<rparr>"

text \<open>After both starts and the exit of the first requestor: the connecting probe is gone,
  the queued one remains as it was.\<close>

definition ex_exit1 :: event where
  "ex_exit1 = Requestor_exited '':1.7'' 100"

definition ex_w2_exited :: world where
  "ex_w2_exited = \<lparr>heap = [101 \<mapsto> ex_queued], audits = [101],
     channels = [200 \<mapsto> \<lparr>ch_fd = 5, ch_closes = 1, ch_unrefs = 0\<rparr>],
     watches = [1 \<mapsto> \<lparr>w_chan = 200, w_func = CB_connect_complete, w_data = 100,
                      w_removed = 0\<rparr>],
     timers = Map.empty,
     listeners = [('':1.9'', 101)],
     trace = [Pending_remote_name_cancel, Pending_remote_name_cancel,
              Debug ''AuditRemoteDevice requestor %s exited'']\<rparr>"

text \<open>A session in which a watch outlives its record: after the timeout of the first probe
  its data watch 2 is still registered, with the freed address 100 as user data. The next
  connect gets descriptor 5 again, and the next record is allocated at address 100.\<close>

definition ex_env3 :: start_env where
  "ex_env3 = \<lparr>reply_alloc = True, malloc_audit = Some 101, strdup_ok = True, l2raw_connect = 5,
     new_channel = 201, new_watch = 3\<rparr>"

definition ex_env4 :: start_env where
  "ex_env4 = \<lparr>reply_alloc = True, malloc_audit = Some 100, strdup_ok = True, l2raw_connect = 6,
     new_channel = 202, new_watch = 4\<rparr>"

definition ex_start3 :: event where
  "ex_start3 = AuditRemoteDevice ex_msg ex_idle ex_env3"

definition ex_start4 :: event where
  "ex_start4 = AuditRemoteDevice ex_msg_other ex_idle ex_env4"

definition ex_stale_hup :: event where
  "ex_stale_hup = Io_ready 2 G_IO_HUP ex_io_env_late"

definition ex_audit1 :: audit where
  "ex_audit1 = \<lparr>addr = 0x001122334455, adapter_path = ''/org/bluez/hci0'', requestor = '':1.7'',
     io = Some 201, io_id = 3, timeout = 0, state = AUDIT_STATE_MTU,
     got_mtu = False, got_mask = False, mtu = 0, mask = 0\<rparr>"

definition ex_w3 :: world where
  "ex_w3 = \<lparr>heap = [101 \<mapsto> ex_audit1], audits = [101],
     channels = [200 \<mapsto> \<lparr>ch_fd = 5, ch_closes = 1, ch_unrefs = 0\<rparr>,
                 201 \<mapsto> \<lparr>ch_fd = 5, ch_closes = 0, ch_unrefs = 0\<rparr>],
     watches = [2 \<mapsto> \<lparr>w_chan = 200, w_func = CB_data_callback, w_data = 100, w_removed = 0\<rparr>,
                1 \<mapsto> \<lparr>w_chan = 200, w_func = CB_connect_complete, w_data = 100,
                      w_removed = 1\<rparr>,
                3 \<mapsto> \<lparr>w_chan = 201, w_func = CB_connect_complete, w_data = 101,
                      w_removed = 0\<rparr>],
     timers = [7 \<mapsto> \<lparr>t_data = 100, t_removed = 1\<rparr>],
     listeners = [('':1.7'', 101)],
     trace = [Pending_remote_name_cancel, Debug ''AuditRemoteDevice: connected'',
              Send 5 [0x0a, 42, 2, 0, 1, 0],
              Error ''l2raw_input_timer: Timed out while waiting for input'',
              Pending_remote_name_cancel]\<rparr>"

definition ex_w4 :: world where
  "ex_w4 = \<lparr>heap = [101 \<mapsto> ex_audit1, 100 \<mapsto> ex_queued], audits = [101, 100],
     channels = [200 \<mapsto> \<lparr>ch_fd = 5, ch_closes = 1, ch_unrefs = 0\<rparr>,
                 201 \<mapsto> \<lparr>ch_fd = 5, ch_closes = 0, ch_unrefs = 0\<rparr>],
     watches = [2 \<mapsto> \<lparr>w_chan = 200, w_func = CB_data_callback, w_data = 100, w_removed = 0\<rparr>,
                1 \<mapsto> \<lparr>w_chan = 200, w_func = CB_connect_complete, w_data = 100,
                      w_removed = 1\<rparr>,
                3 \<mapsto> \<lparr>w_chan = 201, w_func = CB_connect_complete, w_data = 101,
                      w_removed = 0\<rparr>],
     timers = [7 \<mapsto> \<lparr>t_data = 100, t_removed = 1\<rparr>],
     listeners = [('':1.7'', 101), ('':1.9'', 100)],
     trace = [Pending_remote_name_cancel, Debug ''AuditRemoteDevice: connected'',
              Send 5 [0x0a, 42, 2, 0, 1, 0],
              Error ''l2raw_input_timer: Timed out while waiting for input'',
              Pending_remote_name_cancel, Pending_remote_name_cancel]\<rparr>"

definition ex_w_stale :: world where
  "ex_w_stale = \<lparr>heap = [101 \<mapsto> ex_audit1], audits = [101],
     channels = [201 \<mapsto> \<lparr>ch_fd = 5, ch_closes = 0, ch_unrefs = 0\<rparr>,
                 200 \<mapsto> \<lparr>ch_fd = 5, ch_closes = 2, ch_unrefs = 1\<rparr>],
     watches = [1 \<mapsto> \<lparr>w_chan = 200, w_func = CB_connect_complete, w_data = 100,
                      w_removed = 1\<rparr>,
                3 \<mapsto> \<lparr>w_chan = 201, w_func = CB_connect_complete, w_data = 101,
                      w_removed = 0\<rparr>,
                2 \<mapsto> \<lparr>w_chan = 200, w_func = CB_data_callback, w_data = 100, w_removed = 1\<rparr>],
     timers = [7 \<mapsto> \<lparr>t_data = 100, t_removed = 1\<rparr>],
     listeners = [('':1.7'', 101)],
     trace = [Pending_remote_name_cancel, Debug ''AuditRemoteDevice: connected'',
              Send 5 [0x0a, 42, 2, 0, 1, 0],
              Error ''l2raw_input_timer: Timed out while waiting for input'',
              Pending_remote_name_cancel, Pending_remote_name_cancel]\<rparr>"

subsection \<open>The effects of an event\<close>

text \<open>Every event changes the heap, the registry and the ledgers in one of a few ways; the
  relations below name them. \<open>started_rel p a\<close>: a new record \<open>a\<close> at \<open>p\<close> is registered, with
  a fresh channel and connect watch if it got a socket, which needs that no live record
  holds a channel. \<open>teardown_rel direct p a\<close>: the record is freed, taken out of the registry
  and its listener removed, its timeout released and its channel closed; when \<open>direct\<close> (the
  teardown runs in an I/O callback), the channel reference is dropped and the watch released
  as well, otherwise both remain. \<open>nval_rel wid\<close>: the watch \<open>wid\<close> of a closed channel
  drops the channel reference and is released. \<open>connected_rel p a\<close>: the connect watch is
  replaced by a data watch and a timeout is started. \<open>mtu_rel p a\<close>: the pending timeout is
  released, a new one started, and the record moves to the feature state.\<close>

definition started_rel :: "ptr \<Rightarrow> audit \<Rightarrow> world \<Rightarrow> world \<Rightarrow> bool" where
  "started_rel p a w w' \<longleftrightarrow>
     heap w p = None \<and> timeout a = 0
     \<and> heap w' = (heap w)(p \<mapsto> a) \<and> audits w' = audits w @ [p]
     \<and> listeners w' = listeners w @ [(requestor a, p)] \<and> timers w' = timers w
     \<and> (case io a of
          None \<Rightarrow> channels w' = channels w \<and> watches w' = watches w
        | Some ch \<Rightarrow>
            (\<forall>q b. heap w q = Some b \<longrightarrow> io b = None)
            \<and> channels w ch = None \<and> watches w (io_id a) = None
            \<and> (\<exists>fd. channels w' = (channels w)(ch \<mapsto> \<lparr>ch_fd = fd, ch_closes = 0, ch_unrefs = 0\<rparr>))
            \<and> watches w' = (watches w)(io_id a \<mapsto>
                 \<lparr>w_chan = ch, w_func = CB_connect_complete, w_data = p, w_removed = 0\<rparr>))"

definition teardown_rel :: "bool \<Rightarrow> ptr \<Rightarrow> audit \<Rightarrow> world \<Rightarrow> world \<Rightarrow> bool" where
  "teardown_rel direct p a w w' \<longleftrightarrow>
     heap w p = Some a \<and> (direct \<longrightarrow> io a \<noteq> None)
     \<and> heap w' = (heap w)(p := None) \<and> audits w' = remove1 p (audits w)
     \<and> listeners w' = remove1 (requestor a, p) (listeners w)
     \<and> timers w' = (if timeout a = 0 then timers w else timers (timeout_released (timeout a) w))
     \<and> channels w' = (case io a of
                        None \<Rightarrow> channels w
                      | Some ch \<Rightarrow>
                          if direct then channels (g_io_channel_unref ch (g_io_channel_close ch w))
                          else channels (g_io_channel_close ch w))
     \<and> watches w' = (if direct then watches (watch_released (io_id a) w) else watches w)"

definition nval_rel :: "guint \<Rightarrow> world \<Rightarrow> world \<Rightarrow> bool" where
  "nval_rel wid w w' \<longleftrightarrow>
     (\<exists>wt c. watches w wid = Some wt \<and> w_removed wt = 0
        \<and> channels w (w_chan wt) = Some c \<and> ch_closes c \<noteq> 0
        \<and> channels w' = channels (g_io_channel_unref (w_chan wt) w)
        \<and> watches w' = watches (watch_released wid w))
     \<and> heap w' = heap w \<and> audits w' = audits w \<and> timers w' = timers w
     \<and> listeners w' = listeners w"

definition connected_rel :: "ptr \<Rightarrow> audit \<Rightarrow> world \<Rightarrow> world \<Rightarrow> bool" where
  "connected_rel p a w w' \<longleftrightarrow>
     heap w p = Some a
     \<and> (\<exists>ch wt tid wid'.
          io a = Some ch \<and> watches w (io_id a) = Some wt \<and> w_func wt = CB_connect_complete
          \<and> w_removed wt = 0
          \<and> timers w tid = None \<and> tid \<noteq> 0 \<and> watches w wid' = None
          \<and> heap w' = (heap w)(p \<mapsto> a\<lparr>timeout := tid, io_id := wid'\<rparr>)
          \<and> timers w' = (timers w)(tid \<mapsto> \<lparr>t_data = p, t_removed = 0\<rparr>)
          \<and> watches w' = ((watches w)(wid' \<mapsto>
                \<lparr>w_chan = ch, w_func = CB_data_callback, w_data = p, w_removed = 0\<rparr>))
                (io_id a \<mapsto> wt\<lparr>w_removed := Suc 0\<rparr>))
     \<and> audits w' = audits w \<and> channels w' = channels w \<and> listeners w' = listeners w"

definition mtu_rel :: "ptr \<Rightarrow> audit \<Rightarrow> world \<Rightarrow> world \<Rightarrow> bool" where
  "mtu_rel p a w w' \<longleftrightarrow>
     heap w p = Some a \<and> state a = AUDIT_STATE_MTU \<and> timeout a \<noteq> 0 \<and> io a \<noteq> None
     \<and> (\<exists>a' tid.
          timers w tid = None \<and> tid \<noteq> 0
          \<and> io a' = io a \<and> io_id a' = io_id a \<and> requestor a' = requestor a \<and> addr a' = addr a
          \<and> timeout a' = tid \<and> state a' = AUDIT_STATE_FEATURES
          \<and> heap w' = (heap w)(p \<mapsto> a')
          \<and> timers w' = (timers (timeout_released (timeout a) w))
                         (tid \<mapsto> \<lparr>t_data = p, t_removed = 0\<rparr>))
     \<and> audits w' = audits w \<and> channels w' = channels w \<and> watches w' = watches w
     \<and> listeners w' = listeners w"

text \<open>What an event can do to the heap and the registry, whatever the state of the ledgers:
  nothing; register a new record, with a channel only if no live record has one; free a
  live record and take it out of the registry; or change fields other than \<open>io\<close> of a live
  record.\<close>

definition registry_rel :: "world \<Rightarrow> world \<Rightarrow> bool" where
  "registry_rel w w' \<longleftrightarrow>
     (heap w' = heap w \<and> audits w' = audits w)
     \<or> (\<exists>p a. heap w p = None \<and> heap w' = (heap w)(p \<mapsto> a) \<and> audits w' = audits w @ [p]
           \<and> (io a \<noteq> None \<longrightarrow> (\<forall>q b. heap w q = Some b \<longrightarrow> io b = None)))
     \<or> (\<exists>p a. heap w p = Some a \<and> heap w' = (heap w)(p := None)
           \<and> audits w' = remove1 p (audits w))
     \<or> (\<exists>p a a'. heap w p = Some a \<and> io a' = io a \<and> heap w' = (heap w)(p \<mapsto> a')
           \<and> audits w' = audits w)"

subsection \<open>Invariants\<close>

text \<open>\<open>inv_registry\<close>: the registry has no duplicates and holds exactly the live records.
  \<open>inv_single\<close>: at most one live record holds a channel.
  \<open>inv_audit\<close>: a record without channel has no timeout; the timeout of a record is an
  active timeout for this record; the channel of a record is open and not unreferenced, and
  the record's \<open>io_id\<close> is an active watch on it for this record, which is the data callback
  exactly when the record has a timeout.
  \<open>inv_watch\<close>: a watch is released at most once; the channel of an active watch has not
  been unreferenced, and if it is open the watch belongs to the live record that holds the
  channel; a channel has at most one active watch.
  \<open>inv_timer\<close>: no timeout has id 0; a timeout is released at most once; an active
  timeout is the timeout of a live record.
  \<open>inv_channel\<close>: a channel is closed at most once and unreferenced at most once, and only
  after it was closed; an open channel is held by a live record; a closed channel not yet
  unreferenced has an active watch.
  \<open>inv_listener\<close>: the listeners are those of the registered records, in registry order,
  each under the requestor of its record.
  The first two hold in every reachable world; the others are about the ledgers and hold
  in the worlds reached by runs with \<open>nval_run\<close>.\<close>

definition inv_registry :: "world \<Rightarrow> bool" where
  "inv_registry w \<longleftrightarrow> distinct (audits w) \<and> dom (heap w) = set (audits w)"

definition inv_single :: "world \<Rightarrow> bool" where
  "inv_single w \<longleftrightarrow>
     (\<forall>p q a b. heap w p = Some a \<and> heap w q = Some b \<and> io a \<noteq> None \<and> io b \<noteq> None \<longrightarrow> p = q)"

definition inv_audit :: "world \<Rightarrow> bool" where
  "inv_audit w \<longleftrightarrow>
     (\<forall>p a. heap w p = Some a \<longrightarrow>
        (io a = None \<longrightarrow> timeout a = 0)
      \<and> (timeout a \<noteq> 0 \<longrightarrow>
           (\<exists>t. timers w (timeout a) = Some t \<and> t_data t = p \<and> t_removed t = 0))
      \<and> (\<forall>ch. io a = Some ch \<longrightarrow>
           (\<exists>c. channels w ch = Some c \<and> ch_closes c = 0 \<and> ch_unrefs c = 0)
         \<and> (\<exists>wt. watches w (io_id a) = Some wt \<and> w_chan wt = ch \<and> w_data wt = p
                \<and> w_removed wt = 0 \<and> (w_func wt = CB_data_callback \<longleftrightarrow> timeout a \<noteq> 0))))"

definition inv_watch :: "world \<Rightarrow> bool" where
  "inv_watch w \<longleftrightarrow>
     (\<forall>wid wt. watches w wid = Some wt \<longrightarrow> w_removed wt \<le> 1
        \<and> (w_removed wt = 0 \<longrightarrow>
            (\<exists>c. channels w (w_chan wt) = Some c \<and> ch_unrefs c = 0
               \<and> (ch_closes c = 0 \<longrightarrow>
                    (\<exists>a. heap w (w_data wt) = Some a \<and> io a = Some (w_chan wt)
                        \<and> io_id a = wid)))))
     \<and> (\<forall>wid wid' wt wt'. watches w wid = Some wt \<and> watches w wid' = Some wt'
          \<and> w_removed wt = 0 \<and> w_removed wt' = 0 \<and> w_chan wt = w_chan wt' \<longrightarrow> wid = wid')"

definition inv_timer :: "world \<Rightarrow> bool" where
  "inv_timer w \<longleftrightarrow>
     timers w 0 = None
     \<and> (\<forall>tid t. timers w tid = Some t \<longrightarrow> t_removed t \<le> 1
          \<and> (t_removed t = 0 \<longrightarrow> (\<exists>a. heap w (t_data t) = Some a \<and> timeout a = tid)))"

definition inv_channel :: "world \<Rightarrow> bool" where
  "inv_channel w \<longleftrightarrow>
     (\<forall>ch c. channels w ch = Some c \<longrightarrow>
        ch_closes c \<le> 1 \<and> ch_unrefs c \<le> ch_closes c
      \<and> (ch_closes c = 0 \<longrightarrow> (\<exists>p a. heap w p = Some a \<and> io a = Some ch))
      \<and> (ch_closes c = 1 \<and> ch_unrefs c = 0 \<longrightarrow>
           (\<exists>wid wt. watches w wid = Some wt \<and> w_removed wt = 0 \<and> w_chan wt = ch)))"

definition inv_listener :: "world \<Rightarrow> bool" where
  "inv_listener w \<longleftrightarrow>
     map snd (listeners w) = audits w
     \<and> (\<forall>n p. (n, p) \<in> set (listeners w) \<longrightarrow> (\<exists>a. heap w p = Some a \<and> requestor a = n))"

definition world_inv :: "world \<Rightarrow> bool" where
  "world_inv w \<longleftrightarrow> inv_registry w \<and> inv_single w \<and> inv_audit w \<and> inv_watch w \<and> inv_timer w
     \<and> inv_channel w \<and> inv_listener w"

subsection \<open>States of a record and releases\<close>

text \<open>The record at \<open>p\<close> is live and holds a channel.\<close>

definition holds_connection :: "world \<Rightarrow> ptr \<Rightarrow> bool" where
  "holds_connection w p = (case heap w p of None \<Rightarrow> False | Some a \<Rightarrow> io a \<noteq> None)"

text \<open>What a record waits for. The structure has no field for it: a record without
  channel is queued; a record with a channel waits for what the callback of its watch
  handles, and in the data callback the field \<open>state\<close> tells the two responses apart.\<close>

datatype wait_state = Queued | AwaitingConnect | AwaitingMtuInfo | AwaitingFeatureInfo

definition wait_state :: "world \<Rightarrow> audit \<Rightarrow> wait_state option" where
  "wait_state w a =
     (case io a of
        None \<Rightarrow> Some Queued
      | Some ch \<Rightarrow>
          (case watches w (io_id a) of
             None \<Rightarrow> None
           | Some wt \<Rightarrow>
               (case w_func wt of
                  CB_connect_complete \<Rightarrow> Some AwaitingConnect
                | CB_data_callback \<Rightarrow>
                    (case state a of
                       AUDIT_STATE_MTU \<Rightarrow> Some AwaitingMtuInfo
                     | AUDIT_STATE_FEATURES \<Rightarrow> Some AwaitingFeatureInfo))))"

text \<open>The field \<open>timeout\<close> of the record names a timeout that is still registered for it.\<close>

definition timer_active :: "world \<Rightarrow> ptr \<Rightarrow> audit \<Rightarrow> bool" where
  "timer_active w p a \<longleftrightarrow>
     (case timers w (timeout a) of
        None \<Rightarrow> False
      | Some t \<Rightarrow> timeout a \<noteq> 0 \<and> t_data t = p \<and> t_removed t = 0)"

text \<open>How often a channel was closed and unreferenced, and how often a watch and a timeout
  were released.\<close>

definition channel_counts :: "world \<Rightarrow> chan \<Rightarrow> (nat \<times> nat) option" where
  "channel_counts w ch = map_option (\<lambda>c. (ch_closes c, ch_unrefs c)) (channels w ch)"

definition watch_count :: "world \<Rightarrow> guint \<Rightarrow> nat option" where
  "watch_count w wid = map_option w_removed (watches w wid)"

definition timeout_count :: "world \<Rightarrow> guint \<Rightarrow> nat option" where
  "timeout_count w tid = map_option t_removed (timers w tid)"

text \<open>The record \<open>a\<close>, which was at \<open>p\<close>, has been torn down in \<open>w\<close>: it is freed, not in
  the registry, has no listener, its channel (if it had one) has been closed once, and its
  timeout (if it had one) has been released once.\<close>

definition torn_down :: "ptr \<Rightarrow> audit \<Rightarrow> world \<Rightarrow> bool" where
  "torn_down p a w \<longleftrightarrow>
     heap w p = None \<and> p \<notin> set (audits w) \<and> p \<notin> snd ` set (listeners w)
     \<and> (case io a of None \<Rightarrow> True | Some ch \<Rightarrow> map_option fst (channel_counts w ch) = Some 1)
     \<and> (timeout a = 0 \<or> timeout_count w (timeout a) = Some 1)"

fun cancel_or_exit :: "event \<Rightarrow> bool" where
  "cancel_or_exit (CancelAuditRemoteDevice msg reply_ok) = True"
| "cancel_or_exit (Requestor_exited name p) = True"
| "cancel_or_exit e = False"

fun io_event :: "event \<Rightarrow> bool" where
  "io_event (Io_ready wid cond env) = True"
| "io_event e = False"


text \<open>The poll reports \<open>G_IO_NVAL\<close> for a descriptor that is not open. As long as the
  descriptor of a closed channel is not handed out again while a watch of that channel is
  still registered, a watch is therefore dispatched with \<open>G_IO_NVAL\<close> exactly when its
  channel has been closed. \<open>nval_exact w e\<close> says this of one event, \<open>nval_run\<close> of every
  event of a run. It is a property of the environment, not of the code; the theorems that
  need it assume it.\<close>

fun nval_exact :: "world \<Rightarrow> event \<Rightarrow> bool" where
  "nval_exact w (Io_ready wid cond env) =
     (case watches w wid of
        None \<Rightarrow> True
      | Some wt \<Rightarrow>
          (case channels w (w_chan wt) of
             None \<Rightarrow> True
           | Some c \<Rightarrow> (cond AND G_IO_NVAL \<noteq> 0) = (ch_closes c \<noteq> 0)))"
| "nval_exact w e = True"

fun nval_run :: "(string \<Rightarrow> int) \<Rightarrow> (string \<Rightarrow> bdaddr_t) \<Rightarrow> world \<Rightarrow> event list \<Rightarrow> bool" where
  "nval_run ca s2b w [] = True"
| "nval_run ca s2b w (e # es) =
     (nval_exact w e
      \<and> (case step ca s2b w e of None \<Rightarrow> True | Some w' \<Rightarrow> nval_run ca s2b w' es))"

text \<open>The events that end the record \<open>a\<close> at \<open>p\<close>: the expiry of its timeout; a cancel for
  its address by its requestor, when it is the record that \<open>slist_find\<close> returns; the exit of
  its requestor; and the dispatch of its watch with a condition other than \<open>G_IO_NVAL\<close>
  when the callback runs into its block \<open>failed\<close>: in the connect callback on an error or
  hangup, a failed \<open>getsockopt\<close>, a pending socket error or a failed \<open>send\<close>; in the data
  callback on an error or hangup, a failed \<open>recv\<close>, a failed \<open>send\<close> of the feature
  request, and after every feature response (the completion of the exchange).\<close>

fun terminal :: "(string \<Rightarrow> int) \<Rightarrow> (string \<Rightarrow> bdaddr_t) \<Rightarrow> world \<Rightarrow> ptr \<Rightarrow> audit \<Rightarrow> event \<Rightarrow> bool"
  where
  "terminal ca s2b w p a (AuditRemoteDevice msg dbus_data env) = False"
| "terminal ca s2b w p a (CancelAuditRemoteDevice msg reply_ok) =
     (case msg_address msg of
        None \<Rightarrow> False
      | Some s \<Rightarrow>
          0 \<le> ca s \<and> slist_find_audit (heap w) (audits w) (s2b s) = Some (Some p)
          \<and> requestor a = msg_sender msg)"
| "terminal ca s2b w p a (Io_ready wid cond env) =
     (io a \<noteq> None \<and> wid = io_id a \<and> io_env_fresh env w \<and> cond AND G_IO_NVAL = 0
      \<and> (case watches w wid of
           None \<Rightarrow> False
         | Some wt \<Rightarrow>
             (case w_func wt of
                CB_connect_complete \<Rightarrow>
                  cond AND (G_IO_ERR OR G_IO_HUP) \<noteq> 0 \<or> getsockopt_rc env < 0
                  \<or> so_error env \<noteq> 0 \<or> send_rc env < 0
              | CB_data_callback \<Rightarrow>
                  cond AND (G_IO_ERR OR G_IO_HUP) \<noteq> 0 \<or> recv_result env = None
                  \<or> state a = AUDIT_STATE_FEATURES \<or> send_rc env < 0)))"
| "terminal ca s2b w p a (Timeout_expired tid) = (tid \<noteq> 0 \<and> tid = timeout a)"
| "terminal ca s2b w p a (Requestor_exited name q) = (q = p \<and> name = requestor a)"

text \<open>The events that the main loop and the bus can deliver in a world: a method call with
  fresh handles, a ready watch that is still registered, a registered timeout, the exit of
  a name that has a listener.\<close>

fun deliverable :: "world \<Rightarrow> event \<Rightarrow> bool" where
  "deliverable w (AuditRemoteDevice msg dbus_data env) = start_env_fresh env w"
| "deliverable w (CancelAuditRemoteDevice msg reply_ok) = True"
| "deliverable w (Io_ready wid cond env) =
     (case watches w wid of
        None \<Rightarrow> False
      | Some wt \<Rightarrow> w_removed wt = 0 \<and> io_env_fresh env w)"
| "deliverable w (Timeout_expired tid) =
     (case timers w tid of None \<Rightarrow> False | Some t \<Rightarrow> t_removed t = 0)"
| "deliverable w (Requestor_exited name p) = ((name, p) \<in> set (listeners w))"

section \<open>Properties\<close>

lemmas ex_defs = ex_check_address_def ex_str2ba_def ex_msg_def ex_msg_other_def ex_msg_bad_def
  ex_idle_def ex_env1_def ex_env2_def ex_io_env_def ex_io_env_late_def ex_world_def ex_audit_def
  ex_audit0_def ex_queued_def ex_w1_def ex_w2_def ex_w_expired_def ex_start1_def ex_start2_def
  ex_connected_def ex_timeout_def ex_nval_def ex_hangup_def ex_w_released_def ex_w_hungup_def
  ex_exit1_def ex_w2_exited_def ex_env3_def ex_env4_def ex_start3_def ex_start4_def
  ex_stale_hup_def ex_audit1_def ex_w3_def ex_w4_def ex_w_stale_def init_world_def

subsection \<open>Decoding\<close>

lemma btohs_zero [simp]: "btohs 0 0 = 0"
  by (simp add: btohs_def)

lemma btohl_zero [simp]: "btohl 0 0 0 0 = 0"
  by (simp add: btohl_def)

lemma length_recv_buf: "length (recv_buf bs) = 48"
  by (simp add: recv_buf_def)

lemma recv_buf_zero: "i < 48 \<Longrightarrow> min (length bs) 10 \<le> i \<Longrightarrow> recv_buf bs ! i = 0"
  by (auto simp add: recv_buf_def nth_append L2CAP_CMD_HDR_SIZE_def L2CAP_INFO_RSP_SIZE_def)

lemma rsp_short: "length bs \<le> 6 \<Longrightarrow> rsp_result (drop L2CAP_CMD_HDR_SIZE (recv_buf bs)) = 0"
  by (simp add: rsp_result_def L2CAP_CMD_HDR_SIZE_def length_recv_buf recv_buf_zero)

lemma rsp_data_short:
  "length bs \<le> 6 \<Longrightarrow> i < 40 \<Longrightarrow> rsp_data (drop L2CAP_CMD_HDR_SIZE (recv_buf bs)) ! i = 0"
  by (simp add: rsp_data_def L2CAP_CMD_HDR_SIZE_def length_recv_buf recv_buf_zero)

lemma info_req_bytes:
  "info_req 0x0001 = [0x0a, 42, 2, 0, 1, 0]" "info_req 0x0002 = [0x0a, 42, 2, 0, 2, 0]"
  by (simp_all add: info_req_def htobs_def L2CAP_INFO_REQ_def L2CAP_CMD_HDR_SIZE_def
        L2CAP_INFO_REQ_SIZE_def)

lemmas ex_rsp_defs = rsp_result_def recv_buf_def L2CAP_CMD_HDR_SIZE_def L2CAP_INFO_RSP_SIZE_def
  btohs_def

text \<open>C7, as the spec states it: a result code other than 0x0000 and 0x0001 is reported as
  an unexpected result. The code does not: on the response with result code 0x0002 both
  handlers return the record as it was and log nothing.\<close>

theorem C7_unexpected_result_counterexample:
  "handle_mtu_response ex_audit
     (drop L2CAP_CMD_HDR_SIZE (recv_buf [0x0b, 42, 6, 0, 1, 0, 2, 0, 0xF4, 1])) = (ex_audit, [])
   \<and> handle_features_response ex_audit
     (drop L2CAP_CMD_HDR_SIZE (recv_buf [0x0b, 42, 8, 0, 2, 0, 2, 0, 3, 0])) = (ex_audit, [])"
  by (simp add: handle_mtu_response_def handle_features_response_def ex_rsp_defs)

text \<open>C8, as the spec states it: a buffer shorter than header plus result code decodes as
  truncated and no payload is read that was not received. The code has no such outcome:
  after a \<open>recv\<close> of an empty datagram the MTU handler records an MTU, and after a \<open>recv\<close>
  of five bytes the feature handler records a mask.\<close>

theorem C8_truncated_counterexample:
  "got_mtu (fst (handle_mtu_response ex_audit (drop L2CAP_CMD_HDR_SIZE (recv_buf []))))
   \<and> got_mask (fst (handle_features_response ex_audit
        (drop L2CAP_CMD_HDR_SIZE (recv_buf [0x0b, 42, 8, 0, 2]))))"
  by (simp add: handle_mtu_response_def handle_features_response_def rsp_short Let_def)

subsection \<open>The MTU response\<close>

lemma clear_timeout_frame:
  "clear_timeout p a w = (a', w') \<Longrightarrow>
     a' = a\<lparr>timeout := 0\<rparr> \<and> channels w' = channels w \<and> audits w' = audits w
     \<and> trace w' = trace w \<and> listeners w' = listeners w \<and> watches w' = watches w"
  by (auto simp: clear_timeout_def store_def g_timeout_remove_def split: if_splits option.splits)

text \<open>C9: when the MTU response carries result code 0x0001, the callback leaves \<open>got_mtu\<close>
  and \<open>mtu\<close> as they were (every field but \<open>timeout\<close> and \<open>state\<close> is unchanged), hands the
  feature-mask request to \<open>send\<close>, and, the send having succeeded, registers a new timeout,
  moves to \<open>AUDIT_STATE_FEATURES\<close> and keeps its watch (it returns \<open>TRUE\<close>).\<close>

theorem C9_mtu_not_supported_proceeds:
  assumes "heap w p = Some a" and "state a = AUDIT_STATE_MTU"
    and "cond AND G_IO_NVAL = 0" and "cond AND (G_IO_ERR OR G_IO_HUP) = 0"
    and "channels w io_ch = Some c" and "recv_result env = Some bs"
    and "rsp_result (drop L2CAP_CMD_HDR_SIZE (recv_buf bs)) = 0x0001"
    and "0 \<le> send_rc env"
  shows "\<exists>w'. l2raw_data_callback env io_ch cond p w = Some (True, w')
     \<and> heap w' p = Some (a\<lparr>timeout := new_timeout env, state := AUDIT_STATE_FEATURES\<rparr>)
     \<and> timers w' (new_timeout env) = Some \<lparr>t_data = p, t_removed = 0\<rparr>
     \<and> trace w' = trace w @ [Debug ''Connectionless MTU is not supported'',
                              Send (ch_fd c) [0x0a, 42, 2, 0, 2, 0]]
     \<and> audits w' = audits w"
proof -
  obtain a1 w1 where ct: "clear_timeout p a w = (a1, w1)" by (cases "clear_timeout p a w")
  from clear_timeout_frame [OF ct] have f: "a1 = a\<lparr>timeout := 0\<rparr>" "channels w1 = channels w"
    "audits w1 = audits w" "trace w1 = trace w" by simp_all
  have h: "handle_mtu_response a1 (drop L2CAP_CMD_HDR_SIZE (recv_buf bs))
      = (a1, [Debug ''Connectionless MTU is not supported''])"
    using assms(7) by (simp add: handle_mtu_response_def)
  show ?thesis
    using assms ct f h
    by (simp add: l2raw_data_callback_def data_state_mtu_def Let_def store_def emit_def emits_def
          g_timeout_add_def info_req_bytes)
qed

theorem C9_mtu_not_supported_proceeds_witness:
  "heap ex_world 100 = Some ex_audit \<and> state ex_audit = AUDIT_STATE_MTU
   \<and> G_IO_IN AND G_IO_NVAL = 0 \<and> G_IO_IN AND (G_IO_ERR OR G_IO_HUP) = 0
   \<and> channels ex_world 200 = Some \<lparr>ch_fd = 5, ch_closes = 0, ch_unrefs = 0\<rparr>
   \<and> recv_result ex_io_env_mtu = Some [0x0b, 42, 4, 0, 1, 0, 1, 0]
   \<and> rsp_result (drop L2CAP_CMD_HDR_SIZE (recv_buf [0x0b, 42, 4, 0, 1, 0, 1, 0])) = 0x0001
   \<and> 0 \<le> send_rc ex_io_env_mtu
   \<and> (\<exists>w'. l2raw_data_callback ex_io_env_mtu 200 G_IO_IN 100 ex_world = Some (True, w')
        \<and> heap w' 100 = Some (ex_audit\<lparr>timeout := 8, state := AUDIT_STATE_FEATURES\<rparr>)
        \<and> timers w' 8 = Some \<lparr>t_data = 100, t_removed = 0\<rparr>
        \<and> trace w' = [Pending_remote_name_cancel, Debug ''AuditRemoteDevice: connected'',
                       Send 5 [0x0a, 42, 2, 0, 1, 0],
                       Debug ''Connectionless MTU is not supported'',
                       Send 5 [0x0a, 42, 2, 0, 2, 0]]
        \<and> audits w' = [100])"
proof -
  have h: "heap ex_world 100 = Some ex_audit" "state ex_audit = AUDIT_STATE_MTU"
    "G_IO_IN AND G_IO_NVAL = 0" "G_IO_IN AND (G_IO_ERR OR G_IO_HUP) = 0"
    "channels ex_world 200 = Some \<lparr>ch_fd = 5, ch_closes = 0, ch_unrefs = 0\<rparr>"
    "recv_result ex_io_env_mtu = Some [0x0b, 42, 4, 0, 1, 0, 1, 0]"
    "rsp_result (drop L2CAP_CMD_HDR_SIZE (recv_buf [0x0b, 42, 4, 0, 1, 0, 1, 0])) = 0x0001"
    "0 \<le> send_rc ex_io_env_mtu"
    by (simp_all add: ex_defs ex_io_env_mtu_def G_IO_IN_def G_IO_NVAL_def
          G_IO_ERR_def G_IO_HUP_def ex_rsp_defs)
  show ?thesis
    using h C9_mtu_not_supported_proceeds [OF h]
    by (simp add: ex_defs ex_io_env_mtu_def)
qed

subsection \<open>AuditRemoteDevice\<close>

lemma same_registry_emit [simp]: "same_registry w (emit e w)" "same_registry w w"
  by (simp_all add: same_registry_def emit_def)

lemma in_progress_fresh:
  "audit_in_progress_loop h ls = Some b \<Longrightarrow> h p = None \<Longrightarrow>
     audit_in_progress_loop (h(p \<mapsto> a)) ls = Some b"
  by (induction ls) (auto split: option.splits if_splits)

lemma heap_alloc_free: "h p = None \<Longrightarrow> h(p := None) = h"
  by (rule ext) simp

lemmas prim_defs = emit_def emits_def store_def audit_free_def slist_append_def slist_remove_def
  name_listener_add_def name_listener_remove_def listener_consumed_def g_io_channel_unix_new_def
  g_io_add_watch_def g_io_channel_close_def g_io_channel_unref_def g_timeout_add_def
  g_timeout_remove_def timeout_released_def watch_released_def

text \<open>C5: \<open>audit_remote_device\<close> answers a malformed address (or a call whose argument cannot
  be extracted) with the invalid-arguments error; a well-formed address during a discovery
  with the discover-in-progress error; then, during a bonding or with a pending PIN request
  for the address, with the bonding-in-progress error; and, when all admission checks and
  allocations have passed, no registered probe holds a channel and \<open>l2raw_connect\<close> fails,
  with the connection-attempt-failed error. In each case the heap, the registry and all
  ledgers are as before.\<close>

theorem C5_admission_errors:
  "(msg_address msg = None \<or> (\<exists>s. msg_address msg = Some s \<and> ca s < 0) \<longrightarrow>
      (\<exists>w'. audit_remote_device ca s2b msg d env w = Some (Error_invalid_arguments, w')
            \<and> same_registry w w'))
   \<and> (\<forall>s. msg_address msg = Some s \<and> 0 \<le> ca s \<longrightarrow>
        (discovering d \<longrightarrow>
           audit_remote_device ca s2b msg d env w = Some (Error_discover_in_progress, w))
      \<and> (\<not> discovering d \<and> (bonding d \<or> s2b s \<in> set (pin_reqs d)) \<longrightarrow>
           (\<exists>w'. audit_remote_device ca s2b msg d env w = Some (Error_bonding_in_progress, w')
                 \<and> same_registry w w'))
      \<and> (\<not> discovering d \<and> \<not> bonding d \<and> s2b s \<notin> set (pin_reqs d) \<and> reply_alloc env
          \<and> malloc_audit env = Some p \<and> heap w p = None \<and> strdup_ok env
          \<and> audit_in_progress w = Some False \<and> l2raw_connect env < 0 \<longrightarrow>
           (\<exists>w'. audit_remote_device ca s2b msg d env w = Some (Error_connection_attempt_failed, w')
                 \<and> same_registry w w')))"
proof (intro conjI impI allI)
  assume "msg_address msg = None \<or> (\<exists>s. msg_address msg = Some s \<and> ca s < 0)"
  then show "\<exists>w'. audit_remote_device ca s2b msg d env w = Some (Error_invalid_arguments, w')
            \<and> same_registry w w'"
    by (auto simp: audit_remote_device_def)
next
  fix s assume "msg_address msg = Some s \<and> 0 \<le> ca s" "discovering d"
  then show "audit_remote_device ca s2b msg d env w = Some (Error_discover_in_progress, w)"
    by (auto simp: audit_remote_device_def discovering_def)
next
  fix s assume "msg_address msg = Some s \<and> 0 \<le> ca s"
    "\<not> discovering d \<and> (bonding d \<or> s2b s \<in> set (pin_reqs d))"
  then show "\<exists>w'. audit_remote_device ca s2b msg d env w = Some (Error_bonding_in_progress, w')
                 \<and> same_registry w w'"
    by (auto simp: audit_remote_device_def discovering_def Let_def)
next
  fix s assume a: "msg_address msg = Some s \<and> 0 \<le> ca s"
    and b: "\<not> discovering d \<and> \<not> bonding d \<and> s2b s \<notin> set (pin_reqs d) \<and> reply_alloc env
          \<and> malloc_audit env = Some p \<and> heap w p = None \<and> strdup_ok env
          \<and> audit_in_progress w = Some False \<and> l2raw_connect env < 0"
  have ip: "audit_in_progress_loop ((heap w)(p \<mapsto> x)) (audits w) = Some False" for x
    using b in_progress_fresh [of "heap w" "audits w" False p x]
    by (simp add: audit_in_progress_def)
  show "\<exists>w'. audit_remote_device ca s2b msg d env w = Some (Error_connection_attempt_failed, w')
                 \<and> same_registry w w'"
    using a b ip
    by (simp add: audit_remote_device_def discovering_def Let_def audit_new_def store_def emit_def
          audit_in_progress_def audit_free_def same_registry_def heap_alloc_free)
qed

theorem C5_admission_errors_witness:
  "(\<exists>w'. audit_remote_device ex_check_address ex_str2ba ex_msg_bad ex_idle ex_env1 init_world
          = Some (Error_invalid_arguments, w') \<and> same_registry init_world w')
   \<and> audit_remote_device ex_check_address ex_str2ba ex_msg (ex_idle\<lparr>disc_active := True\<rparr>)
        ex_env1 init_world = Some (Error_discover_in_progress, init_world)
   \<and> (\<exists>w'. audit_remote_device ex_check_address ex_str2ba ex_msg
          (ex_idle\<lparr>pin_reqs := [0x001122334455]\<rparr>) ex_env1 init_world
          = Some (Error_bonding_in_progress, w') \<and> same_registry init_world w')
   \<and> (\<exists>w'. audit_remote_device ex_check_address ex_str2ba ex_msg ex_idle
          (ex_env1\<lparr>l2raw_connect := - 1\<rparr>) init_world
          = Some (Error_connection_attempt_failed, w') \<and> same_registry init_world w')"
  using C5_admission_errors [of ex_msg_bad ex_check_address ex_str2ba ex_idle ex_env1 init_world 100]
    C5_admission_errors [of ex_msg ex_check_address ex_str2ba "ex_idle\<lparr>disc_active := True\<rparr>"
      ex_env1 init_world 100]
    C5_admission_errors [of ex_msg ex_check_address ex_str2ba
      "ex_idle\<lparr>pin_reqs := [0x001122334455]\<rparr>" ex_env1 init_world 100]
    C5_admission_errors [of ex_msg ex_check_address ex_str2ba ex_idle
      "ex_env1\<lparr>l2raw_connect := - 1\<rparr>" init_world 100]
  by (simp add: ex_defs discovering_def audit_in_progress_def)

text \<open>C2, as the spec states it: a start for an address that already has a record fails
  with a duplicate-target error, and the registry never holds two records for one address.
  The code has no such check: the second of two starts for 00:11:22:33:44:55 is answered
  with the method return, and the registry then holds two records for that address.\<close>

theorem C2_duplicate_counterexample:
  "map_option fst
     (audit_remote_device ex_check_address ex_str2ba ex_msg ex_idle ex_env2
        (the (run ex_check_address ex_str2ba init_world [AuditRemoteDevice ex_msg ex_idle ex_env1])))
     = Some Method_return
   \<and> map_option registered_addrs
       (run ex_check_address ex_str2ba init_world
          [AuditRemoteDevice ex_msg ex_idle ex_env1, AuditRemoteDevice ex_msg ex_idle ex_env2])
     = Some [Some 0x001122334455, Some 0x001122334455]"
  by (simp add: ex_defs registered_addrs_def audit_remote_device_def start_env_fresh_def
        audit_new_def audit_in_progress_def prim_defs PATH_MAX_def)

text \<open>C2, amended: \<open>audit_remote_device\<close> does not look the target address up in the
  registry. Every call that passes the admission checks (well-formed address, no discovery,
  no bonding, no pending PIN request), whose allocations succeed and whose connection
  attempt, if one is made, succeeds, is answered with the method return and appends a new
  record for the address to the registry, whatever records the registry holds; so the
  registry can hold several records for one address.\<close>

theorem C2_start_appends_record:
  assumes "msg_address msg = Some s" and "0 \<le> ca s" and "\<not> discovering d"
    and "\<not> bonding d" and "s2b s \<notin> set (pin_reqs d)"
    and "reply_alloc env" and "malloc_audit env = Some p" and "strdup_ok env"
    and "heap w p = None"
    and "audit_in_progress w = Some g" and "g \<or> 0 \<le> l2raw_connect env"
  shows "\<exists>w'. audit_remote_device ca s2b msg d env w = Some (Method_return, w')
     \<and> audits w' = audits w @ [p]
     \<and> (\<exists>a. heap w' p = Some a \<and> addr a = s2b s \<and> requestor a = msg_sender msg)"
proof -
  have ip: "audit_in_progress_loop ((heap w)(p \<mapsto> x)) (audits w) = Some g" for x
    using assms(9,10) in_progress_fresh [of "heap w" "audits w" g p x]
    by (simp add: audit_in_progress_def)
  show ?thesis
  proof (cases g)
    case True
    then show ?thesis
      using assms ip
      by (simp add: audit_remote_device_def discovering_def Let_def audit_new_def
            audit_in_progress_def prim_defs)
  next
    case False
    then show ?thesis
      using assms ip
      by (simp add: audit_remote_device_def discovering_def Let_def audit_new_def
            audit_in_progress_def prim_defs)
  qed
qed

theorem C2_start_appends_record_witness:
  "registered_addrs ex_world = [Some (ex_str2ba ''00:11:22:33:44:55'')]
   \<and> audit_in_progress ex_world = Some True
   \<and> (\<exists>w'. audit_remote_device ex_check_address ex_str2ba ex_msg ex_idle ex_env2 ex_world
          = Some (Method_return, w')
        \<and> audits w' = [100, 101]
        \<and> (\<exists>a. heap w' 101 = Some a \<and> addr a = ex_str2ba ''00:11:22:33:44:55''
               \<and> requestor a = '':1.7''))"
proof -
  have h: "msg_address ex_msg = Some ''00:11:22:33:44:55''"
    "0 \<le> ex_check_address ''00:11:22:33:44:55''" "\<not> discovering ex_idle" "\<not> bonding ex_idle"
    "ex_str2ba ''00:11:22:33:44:55'' \<notin> set (pin_reqs ex_idle)"
    "reply_alloc ex_env2" "malloc_audit ex_env2 = Some 101" "strdup_ok ex_env2"
    "heap ex_world 101 = None" "audit_in_progress ex_world = Some True"
    "True \<or> 0 \<le> l2raw_connect ex_env2"
    by (simp_all add: ex_defs discovering_def audit_in_progress_def)
  have r: "registered_addrs ex_world = [Some (ex_str2ba ''00:11:22:33:44:55'')]"
    by (simp add: ex_defs registered_addrs_def)
  show ?thesis
    using r h(10) C2_start_appends_record [where ca = ex_check_address and s2b = ex_str2ba, OF h]
    by (simp add: ex_defs)
qed

subsection \<open>CancelAuditRemoteDevice\<close>

lemma memcmp_zero: "length xs = length ys \<Longrightarrow> memcmp xs ys = 0 \<longleftrightarrow> xs = ys"
proof (induction xs ys rule: memcmp.induct)
  case (1 x xs y ys)
  show ?case
  proof (cases "x = y")
    case True
    then show ?thesis using 1 by simp
  next
    case False
    then have "uint x \<noteq> uint y" by (simp add: word_uint_eq_iff)
    then show ?thesis using False by simp
  qed
qed auto

lemma ba_bytes_inj: "ba_bytes a = ba_bytes b \<Longrightarrow> a = b"
proof (rule bit_word_eqI)
  fix n assume eq: "ba_bytes a = ba_bytes b" and n: "n < LENGTH(48)"
  then have i: "n div 8 < 6" by simp
  from eq have "ba_bytes a ! (n div 8) = ba_bytes b ! (n div 8)" by simp
  then have "(ucast (drop_bit (8 * (n div 8)) a) :: byte) = ucast (drop_bit (8 * (n div 8)) b)"
    using i by (simp add: ba_bytes_def del: upt_Suc)
  then have "bit (ucast (drop_bit (8 * (n div 8)) a) :: byte) (n mod 8)
      = bit (ucast (drop_bit (8 * (n div 8)) b) :: byte) (n mod 8)" by simp
  then show "bit a n = bit b n"
    by (simp add: bit_ucast_iff bit_drop_bit_eq)
qed

lemma bacmp_zero [simp]: "bacmp a b = 0 \<longleftrightarrow> a = b"
  using memcmp_zero [of "ba_bytes a" "ba_bytes b"] ba_bytes_inj [of a b]
  by (auto simp: bacmp_def ba_bytes_def)

lemma slist_find_first:
  "(\<forall>q\<in>set pre. \<exists>b. h q = Some b \<and> addr b \<noteq> dba) \<Longrightarrow> h p = Some a \<Longrightarrow> addr a = dba \<Longrightarrow>
     slist_find_audit h (pre @ p # post) dba = Some (Some p)"
  by (induction pre) (auto simp: audit_addr_cmp_def)

lemma slist_find_none:
  "(\<forall>q\<in>set ls. \<exists>b. h q = Some b \<and> addr b \<noteq> dba) \<Longrightarrow> slist_find_audit h ls dba = Some None"
  by (induction ls) (auto simp: audit_addr_cmp_def)

text \<open>C6: for a well-formed address, \<open>cancel_audit_remote_device\<close> answers with the
  not-in-progress error when no registered record has the address; with the not-authorized
  error, the world unchanged, when the first registered record with the address has another
  requestor than the sender; and otherwise tears that record down: it closes the channel
  if there is one, removes the timeout if there is one, takes the record out of the
  registry, removes its listener and frees it, and answers with the method return (with
  \<open>DBUS_HANDLER_RESULT_NEED_MEMORY\<close> if the reply cannot be allocated).\<close>

theorem C6_cancel:
  "msg_address msg = Some s \<and> 0 \<le> ca s \<longrightarrow>
     ((\<forall>q\<in>set (audits w). \<exists>b. heap w q = Some b \<and> addr b \<noteq> s2b s) \<longrightarrow>
        cancel_audit_remote_device ca s2b msg reply_ok w = Some (Error_not_in_progress, w))
   \<and> (\<forall>pre p post a.
        audits w = pre @ p # post \<and> (\<forall>q\<in>set pre. \<exists>b. heap w q = Some b \<and> addr b \<noteq> s2b s)
        \<and> heap w p = Some a \<and> addr a = s2b s \<longrightarrow>
          (requestor a \<noteq> msg_sender msg \<longrightarrow>
             cancel_audit_remote_device ca s2b msg reply_ok w = Some (Error_not_authorized, w))
        \<and> (requestor a = msg_sender msg \<longrightarrow>
             (\<exists>w'. cancel_audit_remote_device ca s2b msg reply_ok w
                     = Some (if reply_ok then Method_return else DBUS_HANDLER_RESULT_NEED_MEMORY, w')
                  \<and> audits w' = remove1 p (audits w)
                  \<and> heap w' = (heap w)(p := None)
                  \<and> listeners w' = remove1 (requestor a, p) (listeners w)
                  \<and> channels w' = (case io a of None \<Rightarrow> channels w
                                    | Some ch \<Rightarrow> channels (g_io_channel_close ch w))
                  \<and> timers w' = (if timeout a \<noteq> 0 then timers (g_timeout_remove (timeout a) w)
                                  else timers w)
                  \<and> watches w' = watches w \<and> trace w' = trace w)))"
proof (intro conjI impI allI)
  assume "msg_address msg = Some s \<and> 0 \<le> ca s"
    "\<forall>q\<in>set (audits w). \<exists>b. heap w q = Some b \<and> addr b \<noteq> s2b s"
  then show "cancel_audit_remote_device ca s2b msg reply_ok w = Some (Error_not_in_progress, w)"
    by (simp add: cancel_audit_remote_device_def slist_find_none)
next
  fix pre p post a
  assume a: "msg_address msg = Some s \<and> 0 \<le> ca s"
    and b: "audits w = pre @ p # post \<and> (\<forall>q\<in>set pre. \<exists>b. heap w q = Some b \<and> addr b \<noteq> s2b s)
        \<and> heap w p = Some a \<and> addr a = s2b s"
    and c: "requestor a \<noteq> msg_sender msg"
  have "slist_find_audit (heap w) (audits w) (s2b s) = Some (Some p)"
    using b slist_find_first [of pre "heap w" "s2b s" p a post] by simp
  then show "cancel_audit_remote_device ca s2b msg reply_ok w = Some (Error_not_authorized, w)"
    using a b c by (simp add: cancel_audit_remote_device_def)
next
  fix pre p post a
  assume a: "msg_address msg = Some s \<and> 0 \<le> ca s"
    and b: "audits w = pre @ p # post \<and> (\<forall>q\<in>set pre. \<exists>b. heap w q = Some b \<and> addr b \<noteq> s2b s)
        \<and> heap w p = Some a \<and> addr a = s2b s"
    and c: "requestor a = msg_sender msg"
  have f: "slist_find_audit (heap w) (audits w) (s2b s) = Some (Some p)"
    using b slist_find_first [of pre "heap w" "s2b s" p a post] by simp
  show "\<exists>w'. cancel_audit_remote_device ca s2b msg reply_ok w
                     = Some (if reply_ok then Method_return else DBUS_HANDLER_RESULT_NEED_MEMORY, w')
                  \<and> audits w' = remove1 p (audits w)
                  \<and> heap w' = (heap w)(p := None)
                  \<and> listeners w' = remove1 (requestor a, p) (listeners w)
                  \<and> channels w' = (case io a of None \<Rightarrow> channels w
                                    | Some ch \<Rightarrow> channels (g_io_channel_close ch w))
                  \<and> timers w' = (if timeout a \<noteq> 0 then timers (g_timeout_remove (timeout a) w)
                                  else timers w)
                  \<and> watches w' = watches w \<and> trace w' = trace w"
    using a b c f
    by (auto simp: cancel_audit_remote_device_def Let_def slist_remove_def name_listener_remove_def
          audit_free_def g_io_channel_close_def g_timeout_remove_def split: option.splits)
qed

theorem C6_cancel_witness:
  "cancel_audit_remote_device ex_check_address ex_str2ba ex_msg True init_world
     = Some (Error_not_in_progress, init_world)
   \<and> cancel_audit_remote_device ex_check_address ex_str2ba ex_msg_other True ex_world
     = Some (Error_not_authorized, ex_world)
   \<and> (\<exists>w'. cancel_audit_remote_device ex_check_address ex_str2ba ex_msg True ex_world
          = Some (Method_return, w')
        \<and> audits w' = [] \<and> heap w' 100 = None \<and> listeners w' = []
        \<and> channels w' 200 = Some \<lparr>ch_fd = 5, ch_closes = 1, ch_unrefs = 0\<rparr>
        \<and> timers w' 7 = Some \<lparr>t_data = 100, t_removed = 1\<rparr>)"
proof -
  have a: "msg_address ex_msg = Some ''00:11:22:33:44:55'' \<and> 0 \<le> ex_check_address ''00:11:22:33:44:55''"
    "msg_address ex_msg_other = Some ''00:11:22:33:44:55''
       \<and> 0 \<le> ex_check_address ''00:11:22:33:44:55''"
    by (simp_all add: ex_defs)
  have e: "\<forall>q\<in>set (audits init_world). \<exists>b. heap init_world q = Some b
       \<and> addr b \<noteq> ex_str2ba ''00:11:22:33:44:55''"
    by (simp add: ex_defs)
  have f: "audits ex_world = [] @ 100 # []
      \<and> (\<forall>q\<in>set []. \<exists>b. heap ex_world q = Some b \<and> addr b \<noteq> ex_str2ba ''00:11:22:33:44:55'')
      \<and> heap ex_world 100 = Some ex_audit \<and> addr ex_audit = ex_str2ba ''00:11:22:33:44:55''"
    by (simp add: ex_defs)
  have n: "requestor ex_audit \<noteq> msg_sender ex_msg_other" "requestor ex_audit = msg_sender ex_msg"
    by (simp_all add: ex_defs)
  note t1 = C6_cancel [of ex_msg "''00:11:22:33:44:55''" ex_check_address init_world ex_str2ba True]
  note t2 = C6_cancel [of ex_msg_other "''00:11:22:33:44:55''" ex_check_address ex_world ex_str2ba True]
  note t3 = C6_cancel [of ex_msg "''00:11:22:33:44:55''" ex_check_address ex_world ex_str2ba True]
  have 1: "cancel_audit_remote_device ex_check_address ex_str2ba ex_msg True init_world
     = Some (Error_not_in_progress, init_world)"
    using t1 a(1) e by blast
  have 2: "cancel_audit_remote_device ex_check_address ex_str2ba ex_msg_other True ex_world
     = Some (Error_not_authorized, ex_world)"
    using t2 a(2) f n(1) by blast
  have 3: "\<exists>w'. cancel_audit_remote_device ex_check_address ex_str2ba ex_msg True ex_world
                     = Some (if True then Method_return else DBUS_HANDLER_RESULT_NEED_MEMORY, w')
                  \<and> audits w' = remove1 100 (audits ex_world)
                  \<and> heap w' = (heap ex_world)(100 := None)
                  \<and> listeners w' = remove1 (requestor ex_audit, 100) (listeners ex_world)
                  \<and> channels w' = (case io ex_audit of None \<Rightarrow> channels ex_world
                                    | Some ch \<Rightarrow> channels (g_io_channel_close ch ex_world))
                  \<and> timers w' = (if timeout ex_audit \<noteq> 0
                                  then timers (g_timeout_remove (timeout ex_audit) ex_world)
                                  else timers ex_world)
                  \<and> watches w' = watches ex_world \<and> trace w' = trace ex_world"
    using t3 a(1) f n(2) by blast
  from 3 have "\<exists>w'. cancel_audit_remote_device ex_check_address ex_str2ba ex_msg True ex_world
          = Some (Method_return, w')
        \<and> audits w' = [] \<and> heap w' 100 = None \<and> listeners w' = []
        \<and> channels w' 200 = Some \<lparr>ch_fd = 5, ch_closes = 1, ch_unrefs = 0\<rparr>
        \<and> timers w' 7 = Some \<lparr>t_data = 100, t_removed = 1\<rparr>"
    by (auto simp: ex_defs g_io_channel_close_def g_timeout_remove_def)
  with 1 2 show ?thesis by blast
qed

subsection \<open>The example session\<close>

lemmas run_defs = audit_remote_device_def start_env_fresh_def audit_new_def audit_in_progress_def
  io_dispatch_def run_callback_def l2raw_connect_complete_def l2raw_data_callback_def
  io_env_fresh_def timeout_dispatch_def l2raw_input_timer_def name_dispatch_def
  audit_requestor_exited_def cancel_audit_remote_device_def clear_timeout_def
  l2raw_connect_complete_failed_def l2raw_data_callback_failed_def data_state_mtu_def
  data_state_features_def G_IO_IN_def G_IO_OUT_def G_IO_ERR_def G_IO_HUP_def G_IO_NVAL_def
  PATH_MAX_def Let_def

lemma ex_run1: "run ex_check_address ex_str2ba init_world [ex_start1] = Some ex_w1"
  by (simp add: ex_defs run_defs prim_defs)

lemma ex_run2: "run ex_check_address ex_str2ba init_world [ex_start1, ex_start2] = Some ex_w2"
  by (simp add: ex_defs run_defs prim_defs)

lemma ex_run3: "run ex_check_address ex_str2ba init_world [ex_start1, ex_connected] = Some ex_world"
  by (simp add: ex_defs run_defs prim_defs info_req_bytes)

lemma ex_step_expired: "step ex_check_address ex_str2ba ex_world ex_timeout = Some ex_w_expired"
  by (simp add: ex_defs run_defs prim_defs)


lemma ex_step_released: "step ex_check_address ex_str2ba ex_w_expired ex_nval = Some ex_w_released"
  by (simp add: ex_defs run_defs prim_defs)

lemma ex_step_hungup: "step ex_check_address ex_str2ba ex_world ex_hangup = Some ex_w_hungup"
  by (simp add: ex_defs run_defs prim_defs)

lemma ex_step_exited: "step ex_check_address ex_str2ba ex_w2 ex_exit1 = Some ex_w2_exited"
  by (simp add: ex_defs run_defs prim_defs)

lemma run_append:
  "run ca s2b w (es @ es') = (case run ca s2b w es of None \<Rightarrow> None | Some w1 \<Rightarrow> run ca s2b w1 es')"
  by (induction es arbitrary: w) (auto split: option.splits)

lemma run_single: "run ca s2b w [e] = step ca s2b w e"
  by (simp split: option.splits)

lemma ex_step_start3: "step ex_check_address ex_str2ba ex_w_expired ex_start3 = Some ex_w3"
  by (simp add: ex_defs run_defs prim_defs)

lemma ex_step_start4: "step ex_check_address ex_str2ba ex_w3 ex_start4 = Some ex_w4"
  by (simp add: ex_defs run_defs prim_defs)

lemma ex_step_stale: "step ex_check_address ex_str2ba ex_w4 ex_stale_hup = Some ex_w_stale"
  by (simp add: ex_defs run_defs prim_defs numeral_2_eq_2 [symmetric])

lemma ex_run4:
  "run ex_check_address ex_str2ba init_world
     [ex_start1, ex_connected, ex_timeout, ex_start3, ex_start4] = Some ex_w4"
proof -
  have "run ex_check_address ex_str2ba init_world
     ([ex_start1, ex_connected] @ [ex_timeout] @ [ex_start3] @ [ex_start4]) = Some ex_w4"
    by (simp only: run_append ex_run3 option.case run_single ex_step_expired ex_step_start3
          ex_step_start4)
  then show ?thesis by (simp only: append.simps)
qed

lemma ex_nval_run3: "nval_run ex_check_address ex_str2ba init_world [ex_start1, ex_connected]"
  by (simp add: ex_defs run_defs prim_defs info_req_bytes)

subsection \<open>The invariants along a run\<close>

text \<open>All seven invariants hold in the empty world and are kept by every event that
  satisfies \<open>nval_exact\<close>; so they hold in every world reached by a run with \<open>nval_run\<close>.\<close>

lemma inv_init: "world_inv init_world"
  by (simp add: world_inv_def inv_registry_def inv_single_def inv_audit_def inv_watch_def inv_timer_def
        inv_channel_def inv_listener_def init_world_def)

lemma same_registry_inv_eq:
  assumes "same_registry w w'"
  shows "world_inv w' = world_inv w"
proof -
  have e: "heap w' = heap w" "audits w' = audits w" "channels w' = channels w"
    "watches w' = watches w" "timers w' = timers w" "listeners w' = listeners w"
    using assms by (simp_all add: same_registry_def)
  show ?thesis
    by (simp add: world_inv_def inv_registry_def inv_single_def inv_audit_def inv_watch_def
          inv_timer_def inv_channel_def inv_listener_def e)
qed

lemma registry_distinct: "inv_registry w \<Longrightarrow> distinct (audits w)"
  by (simp add: inv_registry_def)

lemma registry_live: "inv_registry w \<Longrightarrow> heap w p = Some a \<Longrightarrow> p \<in> set (audits w)"
  by (auto simp: inv_registry_def)

lemma registry_mem: "inv_registry w \<Longrightarrow> p \<in> set (audits w) \<Longrightarrow> \<exists>a. heap w p = Some a"
  by (auto simp: inv_registry_def)

lemma registry_fresh: "inv_registry w \<Longrightarrow> heap w p = None \<Longrightarrow> p \<notin> set (audits w)"
  by (auto simp: inv_registry_def)

lemma single_unique:
  "inv_single w \<Longrightarrow> heap w p = Some a \<Longrightarrow> heap w q = Some b \<Longrightarrow> io a = Some ch
     \<Longrightarrow> io b = Some ch' \<Longrightarrow> p = q"
  unfolding inv_single_def by blast

lemma audit_queued: "inv_audit w \<Longrightarrow> heap w p = Some a \<Longrightarrow> io a = None \<Longrightarrow> timeout a = 0"
  unfolding inv_audit_def by blast

lemma audit_timer:
  "inv_audit w \<Longrightarrow> heap w p = Some a \<Longrightarrow> timeout a \<noteq> 0
     \<Longrightarrow> \<exists>t. timers w (timeout a) = Some t \<and> t_data t = p \<and> t_removed t = 0"
  unfolding inv_audit_def by blast

lemma audit_chan:
  "inv_audit w \<Longrightarrow> heap w p = Some a \<Longrightarrow> io a = Some ch
     \<Longrightarrow> \<exists>c. channels w ch = Some c \<and> ch_closes c = 0 \<and> ch_unrefs c = 0"
  unfolding inv_audit_def by blast

lemma audit_watch:
  "inv_audit w \<Longrightarrow> heap w p = Some a \<Longrightarrow> io a = Some ch
     \<Longrightarrow> \<exists>wt. watches w (io_id a) = Some wt \<and> w_chan wt = ch \<and> w_data wt = p
            \<and> w_removed wt = 0 \<and> (w_func wt = CB_data_callback \<longleftrightarrow> timeout a \<noteq> 0)"
  unfolding inv_audit_def by blast

lemma watch_le: "inv_watch w \<Longrightarrow> watches w wid = Some wt \<Longrightarrow> w_removed wt \<le> 1"
  unfolding inv_watch_def by blast

lemma watch_active:
  "inv_watch w \<Longrightarrow> watches w wid = Some wt \<Longrightarrow> w_removed wt = 0
     \<Longrightarrow> \<exists>c. channels w (w_chan wt) = Some c \<and> ch_unrefs c = 0
            \<and> (ch_closes c = 0 \<longrightarrow>
                 (\<exists>a. heap w (w_data wt) = Some a \<and> io a = Some (w_chan wt) \<and> io_id a = wid))"
  unfolding inv_watch_def by blast

lemma watch_unique:
  "inv_watch w \<Longrightarrow> watches w wid = Some wt \<Longrightarrow> watches w wid' = Some wt'
     \<Longrightarrow> w_removed wt = 0 \<Longrightarrow> w_removed wt' = 0 \<Longrightarrow> w_chan wt = w_chan wt' \<Longrightarrow> wid = wid'"
  unfolding inv_watch_def by blast

lemma timer_zero: "inv_timer w \<Longrightarrow> timers w 0 = None"
  unfolding inv_timer_def by blast

lemma timer_le: "inv_timer w \<Longrightarrow> timers w tid = Some t \<Longrightarrow> t_removed t \<le> 1"
  unfolding inv_timer_def by blast

lemma timer_active:
  "inv_timer w \<Longrightarrow> timers w tid = Some t \<Longrightarrow> t_removed t = 0
     \<Longrightarrow> \<exists>a. heap w (t_data t) = Some a \<and> timeout a = tid"
  unfolding inv_timer_def by blast

lemma channel_le:
  "inv_channel w \<Longrightarrow> channels w ch = Some c \<Longrightarrow> ch_closes c \<le> 1 \<and> ch_unrefs c \<le> ch_closes c"
  unfolding inv_channel_def by blast

lemma channel_open:
  "inv_channel w \<Longrightarrow> channels w ch = Some c \<Longrightarrow> ch_closes c = 0
     \<Longrightarrow> \<exists>p a. heap w p = Some a \<and> io a = Some ch"
  unfolding inv_channel_def by blast

lemma channel_closed:
  "inv_channel w \<Longrightarrow> channels w ch = Some c \<Longrightarrow> ch_closes c = 1 \<Longrightarrow> ch_unrefs c = 0
     \<Longrightarrow> \<exists>wid wt. watches w wid = Some wt \<and> w_removed wt = 0 \<and> w_chan wt = ch"
  unfolding inv_channel_def by blast

lemma listener_map: "inv_listener w \<Longrightarrow> map snd (listeners w) = audits w"
  unfolding inv_listener_def by blast

lemma listener_live:
  "inv_listener w \<Longrightarrow> (n, p) \<in> set (listeners w) \<Longrightarrow> \<exists>a. heap w p = Some a \<and> requestor a = n"
  unfolding inv_listener_def by blast

lemma remove1_map_snd:
  "distinct (map snd xs) \<Longrightarrow> (n, p) \<in> set xs \<Longrightarrow> map snd (remove1 (n, p) xs) = remove1 p (map snd xs)"
  by (induction xs) (auto simp: rev_image_eqI)

lemma notin_map_snd: "p \<notin> snd ` set xs \<Longrightarrow> remove1 (n, p) xs = xs"
  by (induction xs) auto

lemma teardown_registry:
  assumes "inv_registry w" and "heap w' = (heap w)(p := None)"
    and "audits w' = remove1 p (audits w)"
  shows "inv_registry w'"
  using assms
  by (auto simp: inv_registry_def split: if_splits)

lemma teardown_single:
  assumes "inv_single w" and "heap w' = (heap w)(p := None)"
  shows "inv_single w'"
  using assms unfolding inv_single_def
  by (simp split: if_splits)

lemma teardown_audit:
  assumes ia: "inv_audit w" and si: "inv_single w"
    and hp: "heap w p = Some a"
    and H: "heap w' = (heap w)(p := None)"
    and T: "\<And>tid. tid \<noteq> timeout a \<Longrightarrow> timers w' tid = timers w tid"
    and C: "\<And>ch. io a \<noteq> Some ch \<Longrightarrow> channels w' ch = channels w ch"
    and W: "io a = None \<Longrightarrow> watches w' = watches w"
  shows "inv_audit w'"
  unfolding inv_audit_def
proof (intro allI impI)
  fix q b assume "heap w' q = Some b"
  then have qp: "q \<noteq> p" and hq: "heap w q = Some b" using H by (auto split: if_splits)
  have io_b: "io a \<noteq> None \<Longrightarrow> io b = None"
    using single_unique [OF si hp hq] qp by (cases "io b") auto
  have t1: "io b = None \<longrightarrow> timeout b = 0" using audit_queued [OF ia hq] by simp
  have t2: "timeout b \<noteq> 0 \<longrightarrow> (\<exists>t. timers w' (timeout b) = Some t \<and> t_data t = q \<and> t_removed t = 0)"
  proof
    assume nz: "timeout b \<noteq> 0"
    from audit_timer [OF ia hq nz] obtain t where t: "timers w (timeout b) = Some t" "t_data t = q" "t_removed t = 0"
      by blast
    have "timeout b \<noteq> timeout a"
    proof
      assume e: "timeout b = timeout a"
      then have "timeout a \<noteq> 0" using nz by simp
      from audit_timer [OF ia hp this] t e qp show False by auto
    qed
    then show "\<exists>t. timers w' (timeout b) = Some t \<and> t_data t = q \<and> t_removed t = 0"
      using T t by simp
  qed
  have t3: "\<forall>ch. io b = Some ch \<longrightarrow>
           (\<exists>c. channels w' ch = Some c \<and> ch_closes c = 0 \<and> ch_unrefs c = 0)
         \<and> (\<exists>wt. watches w' (io_id b) = Some wt \<and> w_chan wt = ch \<and> w_data wt = q
                \<and> w_removed wt = 0 \<and> (w_func wt = CB_data_callback \<longleftrightarrow> timeout b \<noteq> 0))"
  proof (intro allI impI)
    fix ch assume iob: "io b = Some ch"
    then have an: "io a = None" using io_b by (cases "io a") auto
    then have "channels w' ch = channels w ch" "watches w' = watches w" using C W by simp_all
    then show "(\<exists>c. channels w' ch = Some c \<and> ch_closes c = 0 \<and> ch_unrefs c = 0)
         \<and> (\<exists>wt. watches w' (io_id b) = Some wt \<and> w_chan wt = ch \<and> w_data wt = q
                \<and> w_removed wt = 0 \<and> (w_func wt = CB_data_callback \<longleftrightarrow> timeout b \<noteq> 0))"
      using audit_chan [OF ia hq iob] audit_watch [OF ia hq iob] by simp
  qed
  show "(io b = None \<longrightarrow> timeout b = 0)
      \<and> (timeout b \<noteq> 0 \<longrightarrow>
           (\<exists>t. timers w' (timeout b) = Some t \<and> t_data t = q \<and> t_removed t = 0))
      \<and> (\<forall>ch. io b = Some ch \<longrightarrow>
           (\<exists>c. channels w' ch = Some c \<and> ch_closes c = 0 \<and> ch_unrefs c = 0)
         \<and> (\<exists>wt. watches w' (io_id b) = Some wt \<and> w_chan wt = ch \<and> w_data wt = q
                \<and> w_removed wt = 0 \<and> (w_func wt = CB_data_callback \<longleftrightarrow> timeout b \<noteq> 0)))"
    using t1 t2 t3 by blast
qed

lemma teardown_timer:
  assumes it: "inv_timer w" and ia: "inv_audit w"
    and hp: "heap w p = Some a"
    and H: "heap w' = (heap w)(p := None)"
    and T: "timers w' = (if timeout a = 0 then timers w
                         else timers (timeout_released (timeout a) w))"
  shows "inv_timer w'"
  unfolding inv_timer_def
proof (intro conjI allI impI)
  show "timers w' 0 = None"
    using timer_zero [OF it] T by (auto simp: timeout_released_def split: option.splits)
next
  fix tid t assume t: "timers w' tid = Some t"
  show "t_removed t \<le> 1"
  proof (cases "timeout a \<noteq> 0 \<and> tid = timeout a")
    case True
    from audit_timer [OF ia hp] True obtain t0 where "timers w tid = Some t0" "t_removed t0 = 0"
      by blast
    then show ?thesis
      using t T True by (auto simp: timeout_released_def)
  next
    case False
    then have "timers w tid = Some t"
      using t T by (auto simp: timeout_released_def split: option.splits if_splits)
    then show ?thesis using timer_le [OF it] by blast
  qed
next
  fix tid t assume t: "timers w' tid = Some t" and act: "t_removed t = 0"
  have ne: "timeout a \<noteq> 0 \<Longrightarrow> tid \<noteq> timeout a"
    using t act T by (auto simp: timeout_released_def split: option.splits)
  then have old: "timers w tid = Some t"
    using t T by (auto simp: timeout_released_def split: option.splits if_splits)
  from timer_active [OF it old act] obtain b where b: "heap w (t_data t) = Some b" "timeout b = tid"
    by blast
  have "t_data t \<noteq> p"
  proof
    assume "t_data t = p"
    then have "timeout a = tid" using b hp by simp
    then show False using ne old timer_zero [OF it] by (cases "timeout a = 0") auto
  qed
  then show "\<exists>a. heap w' (t_data t) = Some a \<and> timeout a = tid"
    using b H by simp
qed

lemma teardown_watch:
  assumes iw: "inv_watch w"
    and hp: "heap w p = Some a"
    and H: "heap w' = (heap w)(p := None)"
    and W1: "\<And>wid wt. watches w' wid = Some wt \<Longrightarrow> w_removed wt = 0 \<Longrightarrow> watches w wid = Some wt"
    and W2: "\<And>wid wt. watches w' wid = Some wt \<Longrightarrow> w_removed wt \<le> 1"
    and C1: "\<And>x. io a \<noteq> Some x \<Longrightarrow> channels w' x = channels w x"
    and C2: "\<And>wid wt. watches w' wid = Some wt \<Longrightarrow> w_removed wt = 0 \<Longrightarrow> io a = Some (w_chan wt)
               \<Longrightarrow> \<exists>c. channels w' (w_chan wt) = Some c \<and> ch_unrefs c = 0 \<and> ch_closes c \<noteq> 0"
  shows "inv_watch w'"
  unfolding inv_watch_def
proof (intro conjI allI impI)
  fix wid wt assume "watches w' wid = Some wt"
  then show "w_removed wt \<le> 1" by (rule W2)
next
  fix wid wt assume wt: "watches w' wid = Some wt" and act: "w_removed wt = 0"
  have old: "watches w wid = Some wt" using W1 [OF wt act] .
  show "\<exists>c. channels w' (w_chan wt) = Some c \<and> ch_unrefs c = 0
          \<and> (ch_closes c = 0 \<longrightarrow>
               (\<exists>a. heap w' (w_data wt) = Some a \<and> io a = Some (w_chan wt) \<and> io_id a = wid))"
  proof (cases "io a = Some (w_chan wt)")
    case True
    from C2 [OF wt act True] show ?thesis by auto
  next
    case False
    from watch_active [OF iw old act] obtain c where c: "channels w (w_chan wt) = Some c"
      "ch_unrefs c = 0"
      "ch_closes c = 0 \<longrightarrow>
         (\<exists>a. heap w (w_data wt) = Some a \<and> io a = Some (w_chan wt) \<and> io_id a = wid)"
      by auto
    have c': "channels w' (w_chan wt) = Some c" using C1 [OF False] c by simp
    have "\<exists>b. heap w' (w_data wt) = Some b \<and> io b = Some (w_chan wt) \<and> io_id b = wid"
      if "ch_closes c = 0"
    proof -
      from c(3) that obtain b where b: "heap w (w_data wt) = Some b" "io b = Some (w_chan wt)"
        "io_id b = wid" by blast
      have "w_data wt \<noteq> p" using b hp False by auto
      then show ?thesis using b H by simp
    qed
    then show ?thesis using c' c(2) by auto
  qed
next
  fix wid wid' wt wt'
  assume a: "watches w' wid = Some wt \<and> watches w' wid' = Some wt'
          \<and> w_removed wt = 0 \<and> w_removed wt' = 0 \<and> w_chan wt = w_chan wt'"
  then have "watches w wid = Some wt" "watches w wid' = Some wt'" using W1 by blast+
  then show "wid = wid'" using watch_unique [OF iw] a by blast
qed

lemma teardown_channel:
  assumes ic: "inv_channel w"
    and hp: "heap w p = Some a"
    and H: "heap w' = (heap w)(p := None)"
    and C1: "\<And>x. io a \<noteq> Some x \<Longrightarrow> channels w' x = channels w x"
    and C2: "\<And>ch. io a = Some ch \<Longrightarrow>
               \<exists>c. channels w' ch = Some c \<and> ch_closes c = 1 \<and> ch_unrefs c \<le> 1
                 \<and> (ch_unrefs c = 0 \<longrightarrow>
                      (\<exists>wid wt. watches w' wid = Some wt \<and> w_removed wt = 0 \<and> w_chan wt = ch))"
    and W: "\<And>wid wt. watches w wid = Some wt \<Longrightarrow> w_removed wt = 0 \<Longrightarrow> io a \<noteq> Some (w_chan wt)
               \<Longrightarrow> watches w' wid = Some wt"
  shows "inv_channel w'"
  unfolding inv_channel_def
proof (intro allI impI)
  fix ch c assume c: "channels w' ch = Some c"
  show "ch_closes c \<le> 1 \<and> ch_unrefs c \<le> ch_closes c
      \<and> (ch_closes c = 0 \<longrightarrow> (\<exists>p a. heap w' p = Some a \<and> io a = Some ch))
      \<and> (ch_closes c = 1 \<and> ch_unrefs c = 0 \<longrightarrow>
           (\<exists>wid wt. watches w' wid = Some wt \<and> w_removed wt = 0 \<and> w_chan wt = ch))"
  proof (cases "io a = Some ch")
    case True
    from C2 [OF True] c show ?thesis by auto
  next
    case False
    have old: "channels w ch = Some c" using C1 [OF False] c by simp
    have l: "ch_closes c \<le> 1 \<and> ch_unrefs c \<le> ch_closes c" using channel_le [OF ic old] .
    have o: "\<exists>q b. heap w' q = Some b \<and> io b = Some ch" if "ch_closes c = 0"
    proof -
      from channel_open [OF ic old that] obtain q b where b: "heap w q = Some b" "io b = Some ch"
        by blast
      then have "q \<noteq> p" using hp False by auto
      then show ?thesis using b H by auto
    qed
    have k: "\<exists>wid wt. watches w' wid = Some wt \<and> w_removed wt = 0 \<and> w_chan wt = ch"
      if "ch_closes c = 1" "ch_unrefs c = 0"
    proof -
      from channel_closed [OF ic old that] obtain wid wt where
        "watches w wid = Some wt" "w_removed wt = 0" "w_chan wt = ch" by blast
      then show ?thesis using W [of wid wt] False by auto
    qed
    show ?thesis using l o k by blast
  qed
qed

lemma remove1_snd_notin:
  "distinct (map snd xs) \<Longrightarrow> (m, p) \<in> set xs \<Longrightarrow> (n, q) \<in> set (remove1 (m, p) xs) \<Longrightarrow> q \<noteq> p"
  by (induction xs) (auto simp: rev_image_eqI split: if_splits)

lemma teardown_listener:
  assumes il: "inv_listener w" and ir: "inv_registry w"
    and hp: "heap w p = Some a"
    and H: "heap w' = (heap w)(p := None)"
    and A: "audits w' = remove1 p (audits w)"
    and L: "listeners w' = remove1 (requestor a, p) (listeners w)"
  shows "inv_listener w'"
proof -
  have d: "distinct (map snd (listeners w))"
    using listener_map [OF il] registry_distinct [OF ir] by simp
  have "p \<in> set (map snd (listeners w))"
    using listener_map [OF il] registry_live [OF ir hp] by simp
  then obtain n where n: "(n, p) \<in> set (listeners w)" by auto
  from listener_live [OF il n] hp have "requestor a = n" by auto
  then have m: "(requestor a, p) \<in> set (listeners w)" using n by simp
  have 1: "map snd (listeners w') = audits w'"
    using remove1_map_snd [OF d m] L A listener_map [OF il] by simp
  have 2: "\<exists>b. heap w' q = Some b \<and> requestor b = k" if "(k, q) \<in> set (listeners w')" for k q
  proof -
    have qp: "q \<noteq> p" using remove1_snd_notin [OF d m, of k q] that L by simp
    have "(k, q) \<in> set (listeners w)"
      using that L set_remove1_subset [of "(requestor a, p)" "listeners w"] by auto
    from listener_live [OF il this] show ?thesis using qp H by simp
  qed
  show ?thesis unfolding inv_listener_def using 1 2 by blast
qed

lemma world_invD:
  assumes "world_inv w"
  shows "inv_registry w" "inv_single w" "inv_audit w" "inv_watch w" "inv_timer w"
    "inv_channel w" "inv_listener w"
  using assms by (simp_all add: world_inv_def)

lemma timeout_released_other: "tid \<noteq> x \<Longrightarrow> timers (timeout_released x w) tid = timers w tid"
  by (simp add: timeout_released_def split: option.splits)

lemma close_other: "ch \<noteq> x \<Longrightarrow> channels (g_io_channel_close x w) ch = channels w ch"
  by (simp add: g_io_channel_close_def split: option.splits)

lemma unref_other: "ch \<noteq> x \<Longrightarrow> channels (g_io_channel_unref x w) ch = channels w ch"
  by (simp add: g_io_channel_unref_def split: option.splits)

lemma close_same:
  "channels w ch = Some c \<Longrightarrow>
     channels (g_io_channel_close ch w) ch = Some (c\<lparr>ch_closes := Suc (ch_closes c)\<rparr>)"
  by (simp add: g_io_channel_close_def)

lemma unref_same:
  "channels w ch = Some c \<Longrightarrow>
     channels (g_io_channel_unref ch w) ch = Some (c\<lparr>ch_unrefs := Suc (ch_unrefs c)\<rparr>)"
  by (simp add: g_io_channel_unref_def)

lemma watch_released_other: "wid \<noteq> x \<Longrightarrow> watches (watch_released x w) wid = watches w wid"
  by (simp add: watch_released_def split: option.splits)

lemma watch_released_same:
  "watches w wid = Some wt \<Longrightarrow>
     watches (watch_released wid w) wid = Some (wt\<lparr>w_removed := Suc (w_removed wt)\<rparr>)"
  by (simp add: watch_released_def)

lemma teardown_inv:
  assumes inv: "world_inv w" and td: "teardown_rel direct p a w w'"
  shows "world_inv w'"
proof -
  note i = world_invD [OF inv]
  from td have hp: "heap w p = Some a"
    and H: "heap w' = (heap w)(p := None)"
    and A: "audits w' = remove1 p (audits w)"
    and L: "listeners w' = remove1 (requestor a, p) (listeners w)"
    and T: "timers w' = (if timeout a = 0 then timers w
                         else timers (timeout_released (timeout a) w))"
    and C: "channels w' = (case io a of
                        None \<Rightarrow> channels w
                      | Some ch \<Rightarrow>
                          if direct then channels (g_io_channel_unref ch (g_io_channel_close ch w))
                          else channels (g_io_channel_close ch w))"
    and W: "watches w' = (if direct then watches (watch_released (io_id a) w) else watches w)"
    and D: "direct \<longrightarrow> io a \<noteq> None"
    by (simp_all add: teardown_rel_def)
  have T1: "timers w' tid = timers w tid" if "tid \<noteq> timeout a" for tid
    using T that by (simp add: timeout_released_other)
  have C1: "channels w' x = channels w x" if "io a \<noteq> Some x" for x
    using C that by (cases "io a") (auto simp: close_other unref_other)
  have W0: "watches w' = watches w" if "io a = None"
    using W D that by simp
  have aw: "\<exists>wt. watches w (io_id a) = Some wt \<and> w_chan wt = ch \<and> w_removed wt = 0"
    if "io a = Some ch" for ch
    using audit_watch [OF i(3) hp that] by auto
  have ac: "\<exists>c. channels w ch = Some c \<and> ch_closes c = 0 \<and> ch_unrefs c = 0"
    if "io a = Some ch" for ch
    using audit_chan [OF i(3) hp that] by auto
  have W1: "watches w wid = Some wt" if "watches w' wid = Some wt" "w_removed wt = 0" for wid wt
  proof (cases direct)
    case False then show ?thesis using W that by simp
  next
    case True
    then obtain ch where ch: "io a = Some ch" using D by auto
    from aw [OF ch] obtain wt0 where wt0: "watches w (io_id a) = Some wt0" by blast
    have "wid \<noteq> io_id a"
      using that W True watch_released_same [OF wt0] by auto
    then show ?thesis using that W True by (simp add: watch_released_other)
  qed
  have W2: "w_removed wt \<le> 1" if "watches w' wid = Some wt" for wid wt
  proof (cases "direct \<and> wid = io_id a")
    case False
    then have "watches w wid = Some wt"
      using W that by (cases direct) (auto simp: watch_released_other)
    then show ?thesis using watch_le [OF i(4)] by blast
  next
    case True
    then obtain ch where ch: "io a = Some ch" using D by auto
    from aw [OF ch] obtain wt0 where wt0: "watches w (io_id a) = Some wt0" "w_removed wt0 = 0"
      by blast
    then show ?thesis using that W True watch_released_same [OF wt0(1)] by auto
  qed
  have C2: "\<exists>c. channels w' (w_chan wt) = Some c \<and> ch_unrefs c = 0 \<and> ch_closes c \<noteq> 0"
    if "watches w' wid = Some wt" "w_removed wt = 0" "io a = Some (w_chan wt)" for wid wt
  proof (cases direct)
    case False
    from ac [OF that(3)] obtain c where "channels w (w_chan wt) = Some c" "ch_unrefs c = 0" by blast
    then show ?thesis using C that(3) False by (simp add: close_same)
  next
    case True
    from aw [OF that(3)] obtain wt0 where wt0: "watches w (io_id a) = Some wt0"
      "w_chan wt0 = w_chan wt" "w_removed wt0 = 0" by blast
    have "watches w wid = Some wt" using W1 that by blast
    then have "wid = io_id a"
      using watch_unique [OF i(4) _ wt0(1) that(2) wt0(3)] wt0(2) by simp
    then have False using that W True watch_released_same [OF wt0(1)] by auto
    then show ?thesis ..
  qed
  have C3: "\<exists>c. channels w' ch = Some c \<and> ch_closes c = 1 \<and> ch_unrefs c \<le> 1
                 \<and> (ch_unrefs c = 0 \<longrightarrow>
                      (\<exists>wid wt. watches w' wid = Some wt \<and> w_removed wt = 0 \<and> w_chan wt = ch))"
    if "io a = Some ch" for ch
  proof -
    from ac [OF that] obtain c where c: "channels w ch = Some c" "ch_closes c = 0" "ch_unrefs c = 0"
      by blast
    show ?thesis
    proof (cases direct)
      case True
      then show ?thesis using C that c by (simp add: close_same unref_same)
    next
      case False
      from aw [OF that] obtain wt0 where "watches w (io_id a) = Some wt0" "w_chan wt0 = ch"
        "w_removed wt0 = 0" by blast
      then have "\<exists>wid wt. watches w' wid = Some wt \<and> w_removed wt = 0 \<and> w_chan wt = ch"
        using W False by auto
      then show ?thesis using C that c False by (simp add: close_same)
    qed
  qed
  have W3: "watches w' wid = Some wt"
    if "watches w wid = Some wt" "w_removed wt = 0" "io a \<noteq> Some (w_chan wt)" for wid wt
  proof (cases direct)
    case False then show ?thesis using W that by simp
  next
    case True
    then obtain ch where ch: "io a = Some ch" using D by auto
    from aw [OF ch] obtain wt0 where "watches w (io_id a) = Some wt0" "w_chan wt0 = ch" by blast
    then have "wid \<noteq> io_id a" using that ch by auto
    then show ?thesis using W that by (simp add: watch_released_other)
  qed
  have "inv_registry w'" using teardown_registry [OF i(1) H A] .
  moreover have "inv_single w'" using teardown_single [OF i(2) H] .
  moreover have "inv_audit w'" using teardown_audit [OF i(3) i(2) hp H T1 C1 W0] .
  moreover have "inv_watch w'" using teardown_watch [OF i(4) hp H W1 W2 C1 C2] .
  moreover have "inv_timer w'" using teardown_timer [OF i(5) i(3) hp H T] .
  moreover have "inv_channel w'" using teardown_channel [OF i(6) hp H C1 C3 W3] .
  moreover have "inv_listener w'" using teardown_listener [OF i(7) i(1) hp H A L] .
  ultimately show ?thesis by (simp add: world_inv_def)
qed

lemma started_inv:
  assumes inv: "world_inv w" and st: "started_rel p a w w'"
  shows "world_inv w'"
proof -
  note i = world_invD [OF inv]
  from st have fresh: "heap w p = None" and ta: "timeout a = 0"
    and H: "heap w' = (heap w)(p \<mapsto> a)"
    and A: "audits w' = audits w @ [p]"
    and L: "listeners w' = listeners w @ [(requestor a, p)]"
    and T: "timers w' = timers w"
    by (simp_all add: started_rel_def)
  have old: "heap w' q = Some b" if "heap w q = Some b" for q b
    using that fresh H by auto
  have cases': "(io a = None \<and> channels w' = channels w \<and> watches w' = watches w)
    \<or> (\<exists>ch fd. io a = Some ch \<and> (\<forall>q b. heap w q = Some b \<longrightarrow> io b = None)
          \<and> channels w ch = None \<and> watches w (io_id a) = None
          \<and> channels w' = (channels w)(ch \<mapsto> \<lparr>ch_fd = fd, ch_closes = 0, ch_unrefs = 0\<rparr>)
          \<and> watches w' = (watches w)(io_id a \<mapsto>
                 \<lparr>w_chan = ch, w_func = CB_connect_complete, w_data = p, w_removed = 0\<rparr>))"
    using st by (cases "io a") (auto simp: started_rel_def)
  have Cold: "channels w' ch = Some c" if "channels w ch = Some c" for ch c
    using cases' that by auto
  have Wold: "watches w' wid = Some wt" if "watches w wid = Some wt" for wid wt
    using cases' that by auto
  have pn: "p \<notin> set (audits w)" using registry_fresh [OF i(1) fresh] .
  have 1: "inv_registry w'"
    using i(1) pn H A by (auto simp: inv_registry_def)
  have 2: "inv_single w'"
    unfolding inv_single_def
  proof (intro allI impI)
    fix x y b c
    assume h: "heap w' x = Some b \<and> heap w' y = Some c \<and> io b \<noteq> None \<and> io c \<noteq> None"
    show "x = y"
    proof (cases "x = p \<or> y = p")
      case False
      then have "heap w x = Some b" "heap w y = Some c" using h H by auto
      then show ?thesis using single_unique [OF i(2)] h by auto
    next
      case True
      then have "io a \<noteq> None" using h H by auto
      then have g: "\<And>q b. heap w q = Some b \<Longrightarrow> io b = None" using cases' by auto
      show ?thesis
      proof (rule ccontr)
        assume "x \<noteq> y"
        then consider "x = p" "y \<noteq> p" | "y = p" "x \<noteq> p" using True by auto
        then show False
        proof cases
          case 1 then have "heap w y = Some c" using h H by auto
          from g [OF this] h show False by simp
        next
          case 2 then have "heap w x = Some b" using h H by auto
          from g [OF this] h show False by simp
        qed
      qed
    qed
  qed
  have 3: "inv_audit w'"
    unfolding inv_audit_def
  proof (intro allI impI)
    fix q b assume hq: "heap w' q = Some b"
    show "(io b = None \<longrightarrow> timeout b = 0)
      \<and> (timeout b \<noteq> 0 \<longrightarrow>
           (\<exists>t. timers w' (timeout b) = Some t \<and> t_data t = q \<and> t_removed t = 0))
      \<and> (\<forall>ch. io b = Some ch \<longrightarrow>
           (\<exists>c. channels w' ch = Some c \<and> ch_closes c = 0 \<and> ch_unrefs c = 0)
         \<and> (\<exists>wt. watches w' (io_id b) = Some wt \<and> w_chan wt = ch \<and> w_data wt = q
                \<and> w_removed wt = 0 \<and> (w_func wt = CB_data_callback \<longleftrightarrow> timeout b \<noteq> 0)))"
    proof (cases "q = p")
      case True
      then have b: "b = a" using hq H by simp
      show ?thesis using cases' ta unfolding b True by auto
    next
      case False
      then have hq0: "heap w q = Some b" using hq H by auto
      have a1: "io b = None \<longrightarrow> timeout b = 0" using audit_queued [OF i(3) hq0] by simp
      have a2: "timeout b \<noteq> 0 \<longrightarrow>
           (\<exists>t. timers w' (timeout b) = Some t \<and> t_data t = q \<and> t_removed t = 0)"
        using audit_timer [OF i(3) hq0] T by simp
      have a3: "(\<exists>c. channels w' ch = Some c \<and> ch_closes c = 0 \<and> ch_unrefs c = 0)
         \<and> (\<exists>wt. watches w' (io_id b) = Some wt \<and> w_chan wt = ch \<and> w_data wt = q
                \<and> w_removed wt = 0 \<and> (w_func wt = CB_data_callback \<longleftrightarrow> timeout b \<noteq> 0))"
        if "io b = Some ch" for ch
        using audit_chan [OF i(3) hq0 that] audit_watch [OF i(3) hq0 that] Cold Wold
        by (metis (no_types, lifting))
      show ?thesis using a1 a2 a3 by simp
    qed
  qed
  have 4: "inv_watch w'"
    unfolding inv_watch_def
  proof (intro conjI allI impI)
    fix wid wt assume wt: "watches w' wid = Some wt"
    then have "watches w wid = Some wt \<or> w_removed wt = 0" using cases' by (auto split: if_splits)
    then show "w_removed wt \<le> 1" using watch_le [OF i(4)] by auto
  next
    fix wid wt assume wt: "watches w' wid = Some wt" and act: "w_removed wt = 0"
    show "\<exists>c. channels w' (w_chan wt) = Some c \<and> ch_unrefs c = 0
          \<and> (ch_closes c = 0 \<longrightarrow>
               (\<exists>a. heap w' (w_data wt) = Some a \<and> io a = Some (w_chan wt) \<and> io_id a = wid))"
    proof (cases "watches w wid = Some wt")
      case True
      from watch_active [OF i(4) True act] obtain c where c: "channels w (w_chan wt) = Some c"
        "ch_unrefs c = 0"
        "ch_closes c = 0 \<longrightarrow>
           (\<exists>a. heap w (w_data wt) = Some a \<and> io a = Some (w_chan wt) \<and> io_id a = wid)"
        by auto
      then show ?thesis using Cold [OF c(1)] old by (metis (no_types, lifting))
    next
      case False
      then obtain ch fd where n: "io a = Some ch" "wid = io_id a"
        "wt = \<lparr>w_chan = ch, w_func = CB_connect_complete, w_data = p, w_removed = 0\<rparr>"
        "channels w' = (channels w)(ch \<mapsto> \<lparr>ch_fd = fd, ch_closes = 0, ch_unrefs = 0\<rparr>)"
        using cases' wt by (auto split: if_splits)
      show ?thesis unfolding n(3) using n(1,2,4) H by simp
    qed
  next
    fix wid wid' wt wt'
    assume h: "watches w' wid = Some wt \<and> watches w' wid' = Some wt'
          \<and> w_removed wt = 0 \<and> w_removed wt' = 0 \<and> w_chan wt = w_chan wt'"
    have chan_old: "channels w (w_chan x) \<noteq> None" if "watches w k = Some x" "w_removed x = 0" for k x
      using watch_active [OF i(4) that] by auto
    show "wid = wid'"
    proof (cases "watches w wid = Some wt \<and> watches w wid' = Some wt'")
      case True
      then show ?thesis using watch_unique [OF i(4)] h by blast
    next
      case False
      then obtain ch fd where n: "io a = Some ch" "channels w ch = None" "watches w (io_id a) = None"
        "watches w' = (watches w)(io_id a \<mapsto>
                 \<lparr>w_chan = ch, w_func = CB_connect_complete, w_data = p, w_removed = 0\<rparr>)"
        using cases' h by auto
      show ?thesis
      proof (rule ccontr)
        assume ne: "wid \<noteq> wid'"
        then consider "wid = io_id a" "wid' \<noteq> io_id a" | "wid' = io_id a" "wid \<noteq> io_id a"
          | "wid \<noteq> io_id a" "wid' \<noteq> io_id a" by auto
        then show False
        proof cases
          case 1
          then have "w_chan wt = ch" "watches w wid' = Some wt'" using h n(4) by auto
          then show False using chan_old [of wid' wt'] h n(2) by auto
        next
          case 2
          then have "w_chan wt' = ch" "watches w wid = Some wt" using h n(4) by auto
          then show False using chan_old [of wid wt] h n(2) by auto
        next
          case 3
          then show False using False h n(4) by auto
        qed
      qed
    qed
  qed
  have 5: "inv_timer w'"
    unfolding inv_timer_def
  proof (intro conjI allI impI)
    show "timers w' 0 = None" using timer_zero [OF i(5)] T by simp
  next
    fix tid t assume "timers w' tid = Some t"
    then show "t_removed t \<le> 1" using timer_le [OF i(5)] T by auto
  next
    fix tid t assume "timers w' tid = Some t" "t_removed t = 0"
    then show "\<exists>a. heap w' (t_data t) = Some a \<and> timeout a = tid"
      using timer_active [OF i(5), of tid t] T old by auto
  qed
  have 6: "inv_channel w'"
    unfolding inv_channel_def
  proof (intro allI impI)
    fix ch c assume c: "channels w' ch = Some c"
    show "ch_closes c \<le> 1 \<and> ch_unrefs c \<le> ch_closes c
      \<and> (ch_closes c = 0 \<longrightarrow> (\<exists>p a. heap w' p = Some a \<and> io a = Some ch))
      \<and> (ch_closes c = 1 \<and> ch_unrefs c = 0 \<longrightarrow>
           (\<exists>wid wt. watches w' wid = Some wt \<and> w_removed wt = 0 \<and> w_chan wt = ch))"
    proof (cases "channels w ch = Some c")
      case True
      have "\<exists>p a. heap w' p = Some a \<and> io a = Some ch" if "ch_closes c = 0"
        using channel_open [OF i(6) True that] old by blast
      moreover have "\<exists>wid wt. watches w' wid = Some wt \<and> w_removed wt = 0 \<and> w_chan wt = ch"
        if "ch_closes c = 1" "ch_unrefs c = 0"
        using channel_closed [OF i(6) True that] Wold by blast
      ultimately show ?thesis using channel_le [OF i(6) True] by auto
    next
      case False
      then show ?thesis using cases' c H by (auto split: if_splits)
    qed
  qed
  have 7: "inv_listener w'"
    unfolding inv_listener_def
  proof (intro conjI allI impI)
    show "map snd (listeners w') = audits w'" using listener_map [OF i(7)] L A by simp
  next
    fix n q assume "(n, q) \<in> set (listeners w')"
    then have "(n, q) \<in> set (listeners w) \<or> (n = requestor a \<and> q = p)" using L by auto
    then show "\<exists>a. heap w' q = Some a \<and> requestor a = n"
    proof
      assume "(n, q) \<in> set (listeners w)"
      from listener_live [OF i(7) this] show ?thesis using old by auto
    next
      assume "n = requestor a \<and> q = p"
      then show ?thesis using H by simp
    qed
  qed
  show ?thesis using 1 2 3 4 5 6 7 by (simp add: world_inv_def)
qed

lemma nval_inv:
  assumes inv: "world_inv w" and nv: "nval_rel wid w w'"
  shows "world_inv w'"
proof -
  note i = world_invD [OF inv]
  from nv obtain wt c where wt: "watches w wid = Some wt" "w_removed wt = 0"
    and c: "channels w (w_chan wt) = Some c" "ch_closes c \<noteq> 0"
    and C: "channels w' = channels (g_io_channel_unref (w_chan wt) w)"
    and W: "watches w' = watches (watch_released wid w)"
    and H: "heap w' = heap w" and A: "audits w' = audits w" and T: "timers w' = timers w"
    and L: "listeners w' = listeners w"
    by (auto simp: nval_rel_def)
  from watch_active [OF i(4) wt] c have u: "ch_unrefs c = 0" by auto
  from channel_le [OF i(6) c(1)] c(2) have cl: "ch_closes c = 1" by auto
  have Cx: "channels w' (w_chan wt) = Some (c\<lparr>ch_unrefs := Suc 0\<rparr>)"
    using C c u by (simp add: unref_same)
  have Co: "channels w' ch = channels w ch" if "ch \<noteq> w_chan wt" for ch
    using C that by (simp add: unref_other)
  have Wx: "watches w' wid = Some (wt\<lparr>w_removed := Suc 0\<rparr>)"
    using W wt by (simp add: watch_released_same)
  have Wo: "watches w' k = watches w k" if "k \<noteq> wid" for k
    using W that by (simp add: watch_released_other)
  have other_chan: "w_chan x \<noteq> w_chan wt" if "watches w k = Some x" "w_removed x = 0" "k \<noteq> wid" for k x
    using watch_unique [OF i(4) that(1) wt(1) that(2) wt(2)] that(3) by auto
  have 1: "inv_registry w'" using i(1) H A by (simp add: inv_registry_def)
  have 2: "inv_single w'" using i(2) H by (simp add: inv_single_def)
  have 5: "inv_timer w'" using i(5) H T by (simp add: inv_timer_def)
  have 7: "inv_listener w'" using i(7) H A L by (simp add: inv_listener_def)
  have 3: "inv_audit w'"
    unfolding inv_audit_def
  proof (intro allI impI)
    fix q b assume "heap w' q = Some b"
    then have hq: "heap w q = Some b" using H by simp
    have a3: "(\<exists>c. channels w' ch = Some c \<and> ch_closes c = 0 \<and> ch_unrefs c = 0)
         \<and> (\<exists>wt. watches w' (io_id b) = Some wt \<and> w_chan wt = ch \<and> w_data wt = q
                \<and> w_removed wt = 0 \<and> (w_func wt = CB_data_callback \<longleftrightarrow> timeout b \<noteq> 0))"
      if io: "io b = Some ch" for ch
    proof -
      from audit_chan [OF i(3) hq io] obtain c0 where c0: "channels w ch = Some c0"
        "ch_closes c0 = 0" "ch_unrefs c0 = 0" by auto
      have ne: "ch \<noteq> w_chan wt" using c0 c by auto
      from audit_watch [OF i(3) hq io] obtain wt0 where wt0: "watches w (io_id b) = Some wt0"
        "w_chan wt0 = ch" "w_data wt0 = q" "w_removed wt0 = 0"
        "w_func wt0 = CB_data_callback \<longleftrightarrow> timeout b \<noteq> 0" by auto
      have "io_id b \<noteq> wid" using wt0 wt ne by auto
      then show ?thesis using Co [OF ne] Wo c0 wt0 by auto
    qed
    show "(io b = None \<longrightarrow> timeout b = 0)
      \<and> (timeout b \<noteq> 0 \<longrightarrow>
           (\<exists>t. timers w' (timeout b) = Some t \<and> t_data t = q \<and> t_removed t = 0))
      \<and> (\<forall>ch. io b = Some ch \<longrightarrow>
           (\<exists>c. channels w' ch = Some c \<and> ch_closes c = 0 \<and> ch_unrefs c = 0)
         \<and> (\<exists>wt. watches w' (io_id b) = Some wt \<and> w_chan wt = ch \<and> w_data wt = q
                \<and> w_removed wt = 0 \<and> (w_func wt = CB_data_callback \<longleftrightarrow> timeout b \<noteq> 0)))"
      using audit_queued [OF i(3) hq] audit_timer [OF i(3) hq] a3 T by simp
  qed
  have 4: "inv_watch w'"
    unfolding inv_watch_def
  proof (intro conjI allI impI)
    fix k x assume x: "watches w' k = Some x"
    show "w_removed x \<le> 1"
    proof (cases "k = wid")
      case True then show ?thesis using x Wx wt by auto
    next
      case False then show ?thesis using x Wo watch_le [OF i(4)] by auto
    qed
  next
    fix k x assume x: "watches w' k = Some x" and act: "w_removed x = 0"
    have k: "k \<noteq> wid" using x act Wx by auto
    then have xo: "watches w k = Some x" using x Wo by simp
    from other_chan [OF xo act k] have "channels w' (w_chan x) = channels w (w_chan x)"
      using Co by simp
    then show "\<exists>c. channels w' (w_chan x) = Some c \<and> ch_unrefs c = 0
          \<and> (ch_closes c = 0 \<longrightarrow>
               (\<exists>a. heap w' (w_data x) = Some a \<and> io a = Some (w_chan x) \<and> io_id a = k))"
      using watch_active [OF i(4) xo act] H by simp
  next
    fix k k' x x'
    assume h: "watches w' k = Some x \<and> watches w' k' = Some x'
          \<and> w_removed x = 0 \<and> w_removed x' = 0 \<and> w_chan x = w_chan x'"
    then have "k \<noteq> wid" "k' \<noteq> wid" using Wx by auto
    then have "watches w k = Some x" "watches w k' = Some x'" using h Wo by auto
    then show "k = k'" using watch_unique [OF i(4)] h by blast
  qed
  have 6: "inv_channel w'"
    unfolding inv_channel_def
  proof (intro allI impI)
    fix ch c0 assume c0: "channels w' ch = Some c0"
    show "ch_closes c0 \<le> 1 \<and> ch_unrefs c0 \<le> ch_closes c0
      \<and> (ch_closes c0 = 0 \<longrightarrow> (\<exists>p a. heap w' p = Some a \<and> io a = Some ch))
      \<and> (ch_closes c0 = 1 \<and> ch_unrefs c0 = 0 \<longrightarrow>
           (\<exists>wid wt. watches w' wid = Some wt \<and> w_removed wt = 0 \<and> w_chan wt = ch))"
    proof (cases "ch = w_chan wt")
      case True
      then show ?thesis using c0 Cx cl by auto
    next
      case False
      then have old: "channels w ch = Some c0" using c0 Co by simp
      have "\<exists>k x. watches w' k = Some x \<and> w_removed x = 0 \<and> w_chan x = ch"
        if "ch_closes c0 = 1" "ch_unrefs c0 = 0"
      proof -
        from channel_closed [OF i(6) old that] obtain k x where x: "watches w k = Some x"
          "w_removed x = 0" "w_chan x = ch" by blast
        then have "k \<noteq> wid" using False wt by auto
        then have "watches w' k = Some x" using x Wo by simp
        then show ?thesis using x by blast
      qed
      then show ?thesis using channel_le [OF i(6) old] channel_open [OF i(6) old] H by auto
    qed
  qed
  show ?thesis using 1 2 3 4 5 6 7 by (simp add: world_inv_def)
qed

lemma connected_inv:
  assumes inv: "world_inv w" and cn: "connected_rel p a w w'"
  shows "world_inv w'"
proof -
  note i = world_invD [OF inv]
  from cn obtain ch wt tid wid' where hp: "heap w p = Some a"
    and io: "io a = Some ch" and wt: "watches w (io_id a) = Some wt"
    "w_func wt = CB_connect_complete" "w_removed wt = 0"
    and fr: "timers w tid = None" "tid \<noteq> 0" "watches w wid' = None"
    and H: "heap w' = (heap w)(p \<mapsto> a\<lparr>timeout := tid, io_id := wid'\<rparr>)"
    and T: "timers w' = (timers w)(tid \<mapsto> \<lparr>t_data = p, t_removed = 0\<rparr>)"
    and W: "watches w' = ((watches w)(wid' \<mapsto>
                \<lparr>w_chan = ch, w_func = CB_data_callback, w_data = p, w_removed = 0\<rparr>))
                (io_id a \<mapsto> wt\<lparr>w_removed := Suc 0\<rparr>)"
    and A: "audits w' = audits w" and C: "channels w' = channels w"
    and L: "listeners w' = listeners w"
    by (auto simp: connected_rel_def)
  define a' where "a' = a\<lparr>timeout := tid, io_id := wid'\<rparr>"
  have a': "io a' = Some ch" "timeout a' = tid" "io_id a' = wid'" "requestor a' = requestor a"
    using io by (simp_all add: a'_def)
  have H': "heap w' = (heap w)(p \<mapsto> a')" using H by (simp add: a'_def)
  from audit_watch [OF i(3) hp io] wt have wch: "w_chan wt = ch" "w_data wt = p" and ta: "timeout a = 0"
    by auto
  from audit_chan [OF i(3) hp io] obtain c where c: "channels w ch = Some c" "ch_closes c = 0"
    "ch_unrefs c = 0" by auto
  have ne: "wid' \<noteq> io_id a" using wt fr by auto
  have Wn: "watches w' wid' = Some \<lparr>w_chan = ch, w_func = CB_data_callback, w_data = p, w_removed = 0\<rparr>"
    using W ne by simp
  have Wa: "watches w' (io_id a) = Some (wt\<lparr>w_removed := Suc 0\<rparr>)" using W by simp
  have Wo: "watches w' k = watches w k" if "k \<noteq> wid'" "k \<noteq> io_id a" for k
    using W that by simp
  have other: "heap w' q = heap w q" if "q \<noteq> p" for q using H that by simp
  have noio: "io b = None" if "heap w q = Some b" "q \<noteq> p" for q b
    using single_unique [OF i(2) hp that(1) io] that(2) by (cases "io b") auto
  have other_chan: "w_chan x \<noteq> ch" if "watches w k = Some x" "w_removed x = 0" "k \<noteq> io_id a" for k x
    using watch_unique [OF i(4) that(1) wt(1) that(2) wt(3)] that(3) wch by auto
  have 1: "inv_registry w'" using i(1) hp H A by (auto simp: inv_registry_def)
  have 2: "inv_single w'"
    unfolding inv_single_def
  proof (intro allI impI)
    fix x y b d
    assume h: "heap w' x = Some b \<and> heap w' y = Some d \<and> io b \<noteq> None \<and> io d \<noteq> None"
    have "x = p" using h noio [of x b] other [of x] by (cases "x = p") auto
    moreover have "y = p" using h noio [of y d] other [of y] by (cases "y = p") auto
    ultimately show "x = y" by simp
  qed
  have 3: "inv_audit w'"
    unfolding inv_audit_def
  proof (intro allI impI)
    fix q b assume hq: "heap w' q = Some b"
    show "(io b = None \<longrightarrow> timeout b = 0)
      \<and> (timeout b \<noteq> 0 \<longrightarrow>
           (\<exists>t. timers w' (timeout b) = Some t \<and> t_data t = q \<and> t_removed t = 0))
      \<and> (\<forall>ch. io b = Some ch \<longrightarrow>
           (\<exists>c. channels w' ch = Some c \<and> ch_closes c = 0 \<and> ch_unrefs c = 0)
         \<and> (\<exists>wt. watches w' (io_id b) = Some wt \<and> w_chan wt = ch \<and> w_data wt = q
                \<and> w_removed wt = 0 \<and> (w_func wt = CB_data_callback \<longleftrightarrow> timeout b \<noteq> 0)))"
    proof (cases "q = p")
      case True
      then have b: "b = a'" using hq H' by simp
      show ?thesis unfolding b True using a' T Wn C c fr(2) by simp
    next
      case False
      then have hq0: "heap w q = Some b" using hq other by simp
      from noio [OF hq0 False] audit_queued [OF i(3) hq0]
      show ?thesis by simp
    qed
  qed
  have 4: "inv_watch w'"
    unfolding inv_watch_def
  proof (intro conjI allI impI)
    fix k x assume x: "watches w' k = Some x"
    consider "k = wid'" | "k = io_id a" | "k \<noteq> wid'" "k \<noteq> io_id a" by auto
    then show "w_removed x \<le> 1"
    proof cases
      case 1 then show ?thesis using x Wn by auto
    next
      case 2 then show ?thesis using x Wa by auto
    next
      case 3 then show ?thesis using x Wo watch_le [OF i(4)] by auto
    qed
  next
    fix k x assume x: "watches w' k = Some x" and act: "w_removed x = 0"
    have k: "k \<noteq> io_id a" using x act Wa by auto
    show "\<exists>c. channels w' (w_chan x) = Some c \<and> ch_unrefs c = 0
          \<and> (ch_closes c = 0 \<longrightarrow>
               (\<exists>a. heap w' (w_data x) = Some a \<and> io a = Some (w_chan x) \<and> io_id a = k))"
    proof (cases "k = wid'")
      case True
      then have "x = \<lparr>w_chan = ch, w_func = CB_data_callback, w_data = p, w_removed = 0\<rparr>"
        using x Wn by simp
      then show ?thesis using C c H' a' True by simp
    next
      case False
      then have xo: "watches w k = Some x" using x Wo k by simp
      from watch_active [OF i(4) xo act] obtain c0 where c0: "channels w (w_chan x) = Some c0"
        "ch_unrefs c0 = 0"
        "ch_closes c0 = 0 \<longrightarrow>
           (\<exists>a. heap w (w_data x) = Some a \<and> io a = Some (w_chan x) \<and> io_id a = k)"
        by auto
      have "\<exists>b. heap w' (w_data x) = Some b \<and> io b = Some (w_chan x) \<and> io_id b = k"
        if "ch_closes c0 = 0"
      proof -
        from c0(3) that obtain b where b: "heap w (w_data x) = Some b" "io b = Some (w_chan x)"
          "io_id b = k" by auto
        have "w_data x \<noteq> p" using b hp k by auto
        then show ?thesis using b other by simp
      qed
      then show ?thesis using c0 C by auto
    qed
  next
    fix k k' x x'
    assume h: "watches w' k = Some x \<and> watches w' k' = Some x'
          \<and> w_removed x = 0 \<and> w_removed x' = 0 \<and> w_chan x = w_chan x'"
    have k: "k \<noteq> io_id a" "k' \<noteq> io_id a" using h Wa by auto
    have new: "w_chan y = ch" if "watches w' wid' = Some y" for y using that Wn by auto
    have oldc: "w_chan y \<noteq> ch" if "watches w' j = Some y" "w_removed y = 0" "j \<noteq> wid'" "j \<noteq> io_id a" for j y
      using other_chan [of j y] that Wo by simp
    show "k = k'"
    proof (cases "k = wid' \<or> k' = wid'")
      case True
      then show ?thesis using h k new oldc by metis
    next
      case False
      then have "watches w k = Some x" "watches w k' = Some x'" using h k Wo by auto
      then show ?thesis using watch_unique [OF i(4)] h by blast
    qed
  qed
  have 5: "inv_timer w'"
    unfolding inv_timer_def
  proof (intro conjI allI impI)
    show "timers w' 0 = None" using timer_zero [OF i(5)] T fr by simp
  next
    fix k t assume "timers w' k = Some t"
    then show "t_removed t \<le> 1" using timer_le [OF i(5), of k t] T by (auto split: if_splits)
  next
    fix k t assume t: "timers w' k = Some t" and act: "t_removed t = 0"
    show "\<exists>a. heap w' (t_data t) = Some a \<and> timeout a = k"
    proof (cases "k = tid")
      case True
      then show ?thesis using t T H' a' by auto
    next
      case False
      then have to: "timers w k = Some t" using t T by simp
      from timer_active [OF i(5) to act] obtain b where b: "heap w (t_data t) = Some b"
        "timeout b = k" by auto
      have "t_data t \<noteq> p" using b hp ta to timer_zero [OF i(5)] by auto
      then show ?thesis using b other by simp
    qed
  qed
  have 6: "inv_channel w'"
    unfolding inv_channel_def
  proof (intro allI impI)
    fix x c0 assume "channels w' x = Some c0"
    then have c0: "channels w x = Some c0" using C by simp
    have o: "\<exists>q b. heap w' q = Some b \<and> io b = Some x" if "ch_closes c0 = 0"
    proof -
      from channel_open [OF i(6) c0 that] obtain q b where b: "heap w q = Some b" "io b = Some x"
        by blast
      show ?thesis
      proof (cases "q = p")
        case True then show ?thesis using b hp H' a' io by auto
      next
        case False
        then have "heap w' q = Some b" using b other by simp
        then show ?thesis using b by blast
      qed
    qed
    have k: "\<exists>k y. watches w' k = Some y \<and> w_removed y = 0 \<and> w_chan y = x"
      if "ch_closes c0 = 1" "ch_unrefs c0 = 0"
    proof -
      from channel_closed [OF i(6) c0 that] obtain k y where y: "watches w k = Some y"
        "w_removed y = 0" "w_chan y = x" by blast
      have "x \<noteq> ch" using c c0 that by auto
      then have "k \<noteq> io_id a" using y wt wch by auto
      moreover have "k \<noteq> wid'" using y fr by auto
      ultimately have "watches w' k = Some y" using Wo y by simp
      then show ?thesis using y by blast
    qed
    show "ch_closes c0 \<le> 1 \<and> ch_unrefs c0 \<le> ch_closes c0
      \<and> (ch_closes c0 = 0 \<longrightarrow> (\<exists>p a. heap w' p = Some a \<and> io a = Some x))
      \<and> (ch_closes c0 = 1 \<and> ch_unrefs c0 = 0 \<longrightarrow>
           (\<exists>wid wt. watches w' wid = Some wt \<and> w_removed wt = 0 \<and> w_chan wt = x))"
      using channel_le [OF i(6) c0] o k by auto
  qed
  have 7: "inv_listener w'"
    unfolding inv_listener_def
  proof (intro conjI allI impI)
    show "map snd (listeners w') = audits w'" using listener_map [OF i(7)] L A by simp
  next
    fix n q assume "(n, q) \<in> set (listeners w')"
    then have "(n, q) \<in> set (listeners w)" using L by simp
    from listener_live [OF i(7) this] obtain b where b: "heap w q = Some b" "requestor b = n"
      by auto
    show "\<exists>a. heap w' q = Some a \<and> requestor a = n"
    proof (cases "q = p")
      case True then show ?thesis using b hp H' a' by auto
    next
      case False
      then have "heap w' q = Some b" using b other by simp
      then show ?thesis using b by blast
    qed
  qed
  show ?thesis using 1 2 3 4 5 6 7 by (simp add: world_inv_def)
qed

lemma timeout_released_same:
  "timers w tid = Some t \<Longrightarrow>
     timers (timeout_released tid w) tid = Some (t\<lparr>t_removed := Suc (t_removed t)\<rparr>)"
  by (simp add: timeout_released_def)

lemma mtu_inv:
  assumes inv: "world_inv w" and mt: "mtu_rel p a w w'"
  shows "world_inv w'"
proof -
  note i = world_invD [OF inv]
  from mt obtain a' tid where hp: "heap w p = Some a"
    and ta: "timeout a \<noteq> 0" and ioa: "io a \<noteq> None"
    and fr: "timers w tid = None" "tid \<noteq> 0"
    and a': "io a' = io a" "io_id a' = io_id a" "requestor a' = requestor a" "timeout a' = tid"
    and H: "heap w' = (heap w)(p \<mapsto> a')"
    and T: "timers w' = (timers (timeout_released (timeout a) w))
                         (tid \<mapsto> \<lparr>t_data = p, t_removed = 0\<rparr>)"
    and A: "audits w' = audits w" and C: "channels w' = channels w"
    and W: "watches w' = watches w" and L: "listeners w' = listeners w"
    by (auto simp: mtu_rel_def)
  from audit_timer [OF i(3) hp ta] obtain t0 where t0: "timers w (timeout a) = Some t0"
    "t_data t0 = p" "t_removed t0 = 0" by auto
  have ne: "tid \<noteq> timeout a" using t0 fr by auto
  have Tn: "timers w' tid = Some \<lparr>t_data = p, t_removed = 0\<rparr>" using T by simp
  have Ta: "timers w' (timeout a) = Some (t0\<lparr>t_removed := Suc 0\<rparr>)"
    using T ne t0 by (simp add: timeout_released_same)
  have To: "timers w' k = timers w k" if "k \<noteq> tid" "k \<noteq> timeout a" for k
    using T that by (simp add: timeout_released_other)
  have other: "heap w' q = heap w q" if "q \<noteq> p" for q using H that by simp
  have same: "\<exists>b'. heap w' q = Some b' \<and> io b' = io b \<and> io_id b' = io_id b
                 \<and> requestor b' = requestor b" if "heap w q = Some b" for q b
    using that hp H a' by (cases "q = p") auto
  have orig: "\<exists>b. heap w q = Some b \<and> io b' = io b \<and> io_id b' = io_id b
                 \<and> requestor b' = requestor b \<and> (q \<noteq> p \<longrightarrow> b' = b) \<and> (q = p \<longrightarrow> b' = a')"
    if "heap w' q = Some b'" for q b'
    using that hp H a' by (cases "q = p") auto
  have 1: "inv_registry w'" using i(1) hp H A by (auto simp: inv_registry_def)
  have 2: "inv_single w'"
    unfolding inv_single_def
  proof (intro allI impI)
    fix x y b d
    assume h: "heap w' x = Some b \<and> heap w' y = Some d \<and> io b \<noteq> None \<and> io d \<noteq> None"
    from orig [of x b] h obtain b0 where b0: "heap w x = Some b0" "io b0 = io b" by auto
    from orig [of y d] h obtain d0 where d0: "heap w y = Some d0" "io d0 = io d" by auto
    show "x = y" using single_unique [OF i(2) b0(1) d0(1)] b0(2) d0(2) h by auto
  qed
  have 3: "inv_audit w'"
    unfolding inv_audit_def
  proof (intro allI impI)
    fix q b assume hq: "heap w' q = Some b"
    show "(io b = None \<longrightarrow> timeout b = 0)
      \<and> (timeout b \<noteq> 0 \<longrightarrow>
           (\<exists>t. timers w' (timeout b) = Some t \<and> t_data t = q \<and> t_removed t = 0))
      \<and> (\<forall>ch. io b = Some ch \<longrightarrow>
           (\<exists>c. channels w' ch = Some c \<and> ch_closes c = 0 \<and> ch_unrefs c = 0)
         \<and> (\<exists>wt. watches w' (io_id b) = Some wt \<and> w_chan wt = ch \<and> w_data wt = q
                \<and> w_removed wt = 0 \<and> (w_func wt = CB_data_callback \<longleftrightarrow> timeout b \<noteq> 0)))"
    proof (cases "q = p")
      case True
      then have b: "b = a'" using hq H by simp
      have x: "(\<exists>c. channels w ch = Some c \<and> ch_closes c = 0 \<and> ch_unrefs c = 0)
         \<and> (\<exists>wt. watches w (io_id a) = Some wt \<and> w_chan wt = ch \<and> w_data wt = p
                \<and> w_removed wt = 0 \<and> w_func wt = CB_data_callback)"
        if "io a = Some ch" for ch
        using audit_chan [OF i(3) hp that] audit_watch [OF i(3) hp that] ta by auto
      show ?thesis unfolding b True using a' ioa Tn fr C W x by auto
    next
      case False
      then have hq0: "heap w q = Some b" using hq other by simp
      have "\<exists>t. timers w' (timeout b) = Some t \<and> t_data t = q \<and> t_removed t = 0"
        if nz: "timeout b \<noteq> 0"
      proof -
        from audit_timer [OF i(3) hq0 nz] obtain t where t: "timers w (timeout b) = Some t"
          "t_data t = q" "t_removed t = 0" by auto
        have "timeout b \<noteq> tid" "timeout b \<noteq> timeout a" using t fr t0 False by auto
        then show ?thesis using To t by simp
      qed
      then show ?thesis
        using audit_queued [OF i(3) hq0] audit_chan [OF i(3) hq0] audit_watch [OF i(3) hq0] C W
        by simp
    qed
  qed
  have 4: "inv_watch w'"
    unfolding inv_watch_def
  proof (intro conjI allI impI)
    fix k x assume "watches w' k = Some x"
    then show "w_removed x \<le> 1" using watch_le [OF i(4), of k x] W by simp
  next
    fix k x assume x: "watches w' k = Some x" and act: "w_removed x = 0"
    then have xo: "watches w k = Some x" using W by simp
    from watch_active [OF i(4) xo act] obtain c0 where c0: "channels w (w_chan x) = Some c0"
      "ch_unrefs c0 = 0"
      "ch_closes c0 = 0 \<longrightarrow>
         (\<exists>a. heap w (w_data x) = Some a \<and> io a = Some (w_chan x) \<and> io_id a = k)"
      by auto
    have "\<exists>b. heap w' (w_data x) = Some b \<and> io b = Some (w_chan x) \<and> io_id b = k"
      if "ch_closes c0 = 0"
    proof -
      from c0(3) that obtain b where b: "heap w (w_data x) = Some b" "io b = Some (w_chan x)"
        "io_id b = k" by auto
      from same [OF b(1)] b show ?thesis by auto
    qed
    then show "\<exists>c. channels w' (w_chan x) = Some c \<and> ch_unrefs c = 0
          \<and> (ch_closes c = 0 \<longrightarrow>
               (\<exists>a. heap w' (w_data x) = Some a \<and> io a = Some (w_chan x) \<and> io_id a = k))"
      using c0 C by auto
  next
    fix k k' x x'
    assume "watches w' k = Some x \<and> watches w' k' = Some x'
          \<and> w_removed x = 0 \<and> w_removed x' = 0 \<and> w_chan x = w_chan x'"
    then show "k = k'" using watch_unique [OF i(4), of k x k' x'] W by simp
  qed
  have 5: "inv_timer w'"
    unfolding inv_timer_def
  proof (intro conjI allI impI)
    show "timers w' 0 = None" using timer_zero [OF i(5)] To [of 0] fr ta by simp
  next
    fix k t assume t: "timers w' k = Some t"
    consider "k = tid" | "k = timeout a" | "k \<noteq> tid" "k \<noteq> timeout a" by auto
    then show "t_removed t \<le> 1"
    proof cases
      case 1 then show ?thesis using t Tn by auto
    next
      case 2 then show ?thesis using t Ta t0 by auto
    next
      case 3 then show ?thesis using t To timer_le [OF i(5), of k t] by simp
    qed
  next
    fix k t assume t: "timers w' k = Some t" and act: "t_removed t = 0"
    have k: "k \<noteq> timeout a" using t act Ta by auto
    show "\<exists>a. heap w' (t_data t) = Some a \<and> timeout a = k"
    proof (cases "k = tid")
      case True
      then show ?thesis using t Tn H a' by auto
    next
      case False
      then have to: "timers w k = Some t" using t To k by simp
      from timer_active [OF i(5) to act] obtain b where b: "heap w (t_data t) = Some b"
        "timeout b = k" by auto
      have "t_data t \<noteq> p" using b hp k by auto
      then show ?thesis using b other by simp
    qed
  qed
  have 6: "inv_channel w'"
    unfolding inv_channel_def
  proof (intro allI impI)
    fix x c0 assume "channels w' x = Some c0"
    then have c0: "channels w x = Some c0" using C by simp
    have o: "\<exists>q b. heap w' q = Some b \<and> io b = Some x" if "ch_closes c0 = 0"
    proof -
      from channel_open [OF i(6) c0 that] obtain q b where b: "heap w q = Some b" "io b = Some x"
        by blast
      from same [OF b(1)] b(2) show ?thesis by metis
    qed
    show "ch_closes c0 \<le> 1 \<and> ch_unrefs c0 \<le> ch_closes c0
      \<and> (ch_closes c0 = 0 \<longrightarrow> (\<exists>p a. heap w' p = Some a \<and> io a = Some x))
      \<and> (ch_closes c0 = 1 \<and> ch_unrefs c0 = 0 \<longrightarrow>
           (\<exists>wid wt. watches w' wid = Some wt \<and> w_removed wt = 0 \<and> w_chan wt = x))"
      using channel_le [OF i(6) c0] o channel_closed [OF i(6) c0] W by auto
  qed
  have 7: "inv_listener w'"
    unfolding inv_listener_def
  proof (intro conjI allI impI)
    show "map snd (listeners w') = audits w'" using listener_map [OF i(7)] L A by simp
  next
    fix n q assume "(n, q) \<in> set (listeners w')"
    then have "(n, q) \<in> set (listeners w)" using L by simp
    from listener_live [OF i(7) this] obtain b where b: "heap w q = Some b" "requestor b = n"
      by auto
    from same [OF b(1)] b(2) show "\<exists>a. heap w' q = Some a \<and> requestor a = n" by auto
  qed
  show ?thesis using 1 2 3 4 5 6 7 by (simp add: world_inv_def)
qed

lemma step_timer:
  assumes inv: "world_inv w" and st: "timeout_dispatch tid w = Some w'"
  shows "\<exists>p a. teardown_rel False p a w w' \<and> timeout a = tid \<and> tid \<noteq> 0 \<and> io a \<noteq> None"
proof -
  note i = world_invD [OF inv]
  from st obtain t where t: "timers w tid = Some t" "t_removed t = 0"
    by (auto simp: timeout_dispatch_def split: option.splits if_splits)
  from timer_active [OF i(5) t] obtain a where a: "heap w (t_data t) = Some a" "timeout a = tid"
    by auto
  have nz: "tid \<noteq> 0" using t timer_zero [OF i(5)] by (cases "tid = 0") auto
  have io: "io a \<noteq> None" using audit_queued [OF i(3) a(1)] a(2) nz by auto
  have w': "w' = timeout_released tid (snd (the (l2raw_input_timer (t_data t) w)))"
    using st t a by (simp add: timeout_dispatch_def l2raw_input_timer_def Let_def)
  have "teardown_rel False (t_data t) a w w'"
    unfolding teardown_rel_def w'
    using t a nz
    by (cases "io a") (simp_all add: l2raw_input_timer_def Let_def prim_defs split: option.splits)
  then show ?thesis using a nz io by blast
qed

lemma step_exit:
  assumes inv: "world_inv w" and st: "name_dispatch name p w = Some w'"
  shows "\<exists>a. teardown_rel False p a w w' \<and> requestor a = name"
proof -
  note i = world_invD [OF inv]
  from st have m: "(name, p) \<in> set (listeners w)"
    by (auto simp: name_dispatch_def split: if_splits)
  from listener_live [OF i(7) m] obtain a where a: "heap w p = Some a" "requestor a = name"
    by auto
  have w': "w' = listener_consumed name p (the (audit_requestor_exited name p w))"
    using st m a by (simp add: name_dispatch_def audit_requestor_exited_def Let_def)
  have "teardown_rel False p a w w'"
    unfolding teardown_rel_def w'
    using a
    by (cases "io a") (simp_all add: audit_requestor_exited_def Let_def prim_defs split: option.splits)
  then show ?thesis using a by blast
qed

lemma slist_find_some:
  "slist_find_audit h ls dba = Some (Some p) \<Longrightarrow> p \<in> set ls \<and> (\<exists>a. h p = Some a \<and> addr a = dba)"
  by (induction ls) (auto simp: audit_addr_cmp_def split: option.splits if_splits)

lemma in_progress_false:
  "audit_in_progress_loop h ls = Some False \<Longrightarrow> q \<in> set ls \<Longrightarrow> \<exists>b. h q = Some b \<and> io b = None"
  by (induction ls) (auto split: option.splits if_splits)

lemma g_timeout_remove_timers: "timers (g_timeout_remove tid w) = timers (timeout_released tid w)"
  by (simp add: g_timeout_remove_def timeout_released_def split: option.splits)

lemma step_cancel:
  assumes st: "cancel_audit_remote_device ca s2b msg reply_ok w = Some (r, w')"
  shows "same_registry w w'
    \<or> (\<exists>p a s. teardown_rel False p a w w' \<and> p \<in> set (audits w)
          \<and> requestor a = msg_sender msg \<and> msg_address msg = Some s \<and> addr a = s2b s)"
proof (cases "msg_address msg")
  case None
  then show ?thesis using st
    by (auto simp: cancel_audit_remote_device_def same_registry_def emit_def)
next
  case (Some s)
  show ?thesis
  proof (cases "ca s < 0")
    case True
    then show ?thesis using st Some
      by (auto simp: cancel_audit_remote_device_def same_registry_def)
  next
    case False
    show ?thesis
    proof (cases "slist_find_audit (heap w) (audits w) (s2b s)")
      case None
      then show ?thesis using st Some False by (simp add: cancel_audit_remote_device_def)
    next
      case f: (Some found)
      show ?thesis
      proof (cases found)
        case None
        then show ?thesis using st Some False f
          by (auto simp: cancel_audit_remote_device_def same_registry_def)
      next
        case fp: (Some p)
        from slist_find_some [of "heap w" "audits w" "s2b s" p] f fp
        obtain a where a: "p \<in> set (audits w)" "heap w p = Some a" "addr a = s2b s" by auto
        show ?thesis
        proof (cases "requestor a = msg_sender msg")
          case ne: False
          then show ?thesis using st Some False f fp a
            by (auto simp: cancel_audit_remote_device_def same_registry_def)
        next
          case True
          have w': "w' = audit_free p (name_listener_remove (requestor a) p (slist_remove p
              (if timeout a \<noteq> 0 then g_timeout_remove (timeout a)
                    (case io a of None \<Rightarrow> w | Some ch \<Rightarrow> g_io_channel_close ch w)
               else (case io a of None \<Rightarrow> w | Some ch \<Rightarrow> g_io_channel_close ch w))))"
            using st Some False f fp a True
            by (auto simp: cancel_audit_remote_device_def Let_def split: if_splits)
          have "teardown_rel False p a w w'"
            unfolding teardown_rel_def w'
            using a
            by (cases "io a") (simp_all add: prim_defs split: option.splits)
          then show ?thesis using a True Some by blast
        qed
      qed
    qed
  qed
qed

lemma in_progress_upd:
  "p \<notin> set ls \<Longrightarrow> audit_in_progress_loop (h(p \<mapsto> a)) ls = audit_in_progress_loop h ls"
  by (induction ls) (auto split: option.splits)

lemma step_start:
  assumes inv: "inv_registry w" and fr: "start_env_fresh env w"
    and st: "audit_remote_device ca s2b msg d env w = Some (r, w')"
  shows "same_registry w w'
    \<or> (\<exists>p a s. started_rel p a w w' \<and> requestor a = msg_sender msg
          \<and> msg_address msg = Some s \<and> addr a = s2b s \<and> r = Method_return
          \<and> (io a = None \<longleftrightarrow> audit_in_progress w = Some True)
          \<and> (io a = None \<longrightarrow> io_id a = 0))"
proof (cases "msg_address msg = None
    \<or> (\<exists>s. msg_address msg = Some s
          \<and> (ca s < 0 \<or> disc_active d \<or> (pdisc_active d \<and> \<not> pinq_idle d) \<or> bonding d
              \<or> s2b s \<in> set (pin_reqs d) \<or> \<not> reply_alloc env \<or> malloc_audit env = None
              \<or> \<not> strdup_ok env))")
  case True
  then have "same_registry w w'"
    using st
    by (auto simp: audit_remote_device_def Let_def audit_new_def same_registry_def emit_def
          split: option.splits if_splits)
  then show ?thesis ..
next
  case False
  from False obtain s p where s: "msg_address msg = Some s" "\<not> ca s < 0" "\<not> disc_active d"
    "\<not> (pdisc_active d \<and> \<not> pinq_idle d)" "\<not> bonding d" "s2b s \<notin> set (pin_reqs d)"
    "reply_alloc env" "malloc_audit env = Some p" "strdup_ok env"
    by (cases "msg_address msg"; cases "malloc_audit env") auto
  have fresh: "heap w p = None" "channels w (new_channel env) = None"
    "watches w (new_watch env) = None"
    using fr s by (simp_all add: start_env_fresh_def)
  define a0 where "a0 = \<lparr>addr = s2b s, adapter_path = take (PATH_MAX - 1) (msg_path msg),
                         requestor = msg_sender msg,
                         io = None, io_id = 0, timeout = 0,
                         state = AUDIT_STATE_MTU,
                         got_mtu = False, got_mask = False, mtu = 0, mask = 0\<rparr>"
  define w1 where "w1 = store p a0 (emit Pending_remote_name_cancel w)"
  have an: "audit_new env msg (s2b s) (emit Pending_remote_name_cancel w) = (Some p, w1)"
    using s by (simp add: audit_new_def a0_def w1_def)
  have pn: "p \<notin> set (audits w)" using registry_fresh [OF inv fresh(1)] .
  have ipeq: "audit_in_progress w1 = audit_in_progress w"
    using pn by (simp add: audit_in_progress_def w1_def store_def emit_def in_progress_upd)
  have st': "(case audit_in_progress w1 of
                          None \<Rightarrow> None
                        | Some True \<Rightarrow>
                            Some (Method_return,
                                  slist_append p (name_listener_add (msg_sender msg) p w1))
                        | Some False \<Rightarrow>
                            if l2raw_connect env < 0
                            then Some (Error_connection_attempt_failed, audit_free p w1)
                            else
                              (case heap w1 p of
                                 None \<Rightarrow> None
                               | Some a \<Rightarrow>
                                   (let a1 = a\<lparr>io := Some (new_channel env)\<rparr>;
                                        w2 = store p a1
                                               (g_io_channel_unix_new (new_channel env)
                                                  (l2raw_connect env) w1);
                                        a2 = a1\<lparr>io_id := new_watch env\<rparr>;
                                        w3 = store p a2
                                               (g_io_add_watch (new_watch env) (new_channel env)
                                                  CB_connect_complete p w2)
                                    in Some (Method_return,
                                             slist_append p
                                               (name_listener_add (msg_sender msg) p w3))))) = Some (r, w')"
    using st s an by (simp add: audit_remote_device_def Let_def)
  from st' obtain g where g: "audit_in_progress w1 = Some g" by (cases "audit_in_progress w1") auto
  show ?thesis
  proof (cases g)
    case True
    then have w': "w' = slist_append p (name_listener_add (msg_sender msg) p w1)"
      and r: "r = Method_return" using st' g by auto
    have "started_rel p a0 w w'"
      unfolding started_rel_def w' w1_def using fresh by (simp add: prim_defs a0_def)
    moreover have "requestor a0 = msg_sender msg" "addr a0 = s2b s" "io a0 = None" "io_id a0 = 0"
      by (simp_all add: a0_def)
    moreover have "audit_in_progress w = Some True" using g True ipeq by simp
    ultimately show ?thesis using r s(1)
      by (intro disjI2 exI [of _ p] exI [of _ a0] exI [of _ s]) simp
  next
    case False
    show ?thesis
    proof (cases "l2raw_connect env < 0")
      case True
      then have "w' = audit_free p w1" using st' g False by auto
      then have "same_registry w w'"
        using fresh by (simp add: w1_def prim_defs same_registry_def heap_alloc_free)
      then show ?thesis ..
    next
      case nf: False
      define a2 where "a2 = a0\<lparr>io := Some (new_channel env), io_id := new_watch env\<rparr>"
      have hw1: "heap w1 p = Some a0" by (simp add: w1_def prim_defs)
      have w': "w' = slist_append p (name_listener_add (msg_sender msg) p
          (store p a2 (g_io_add_watch (new_watch env) (new_channel env) CB_connect_complete p
             (store p (a0\<lparr>io := Some (new_channel env)\<rparr>)
               (g_io_channel_unix_new (new_channel env) (l2raw_connect env) w1)))))"
        and r: "r = Method_return"
        using st' g False nf hw1 by (auto simp: Let_def a2_def)
      have idle: "io b = None" if "heap w q = Some b" for q b
      proof -
        have q: "q \<in> set (audits w)" using registry_live [OF inv that] .
        have "audit_in_progress_loop (heap w) (audits w) = Some False"
          using g False ipeq by (simp add: audit_in_progress_def)
        from in_progress_false [OF this q] that show ?thesis by auto
      qed
      have "started_rel p a2 w w'"
        unfolding started_rel_def w' w1_def using fresh idle
        by (auto simp: prim_defs a2_def a0_def)
      moreover have "requestor a2 = msg_sender msg" "addr a2 = s2b s" "io a2 \<noteq> None"
        by (simp_all add: a2_def a0_def)
      moreover have "audit_in_progress w \<noteq> Some True" using g False ipeq by simp
      ultimately show ?thesis using r s(1)
        by (intro disjI2 exI [of _ p] exI [of _ a2] exI [of _ s]) auto
    qed
  qed
qed

lemma handle_mtu_fields [simp]:
  "requestor (fst (handle_mtu_response a rsp)) = requestor a"
  "io (fst (handle_mtu_response a rsp)) = io a"
  "io_id (fst (handle_mtu_response a rsp)) = io_id a"
  "addr (fst (handle_mtu_response a rsp)) = addr a"
  "timeout (fst (handle_mtu_response a rsp)) = timeout a"
  "state (fst (handle_mtu_response a rsp)) = state a"
  by (simp_all add: handle_mtu_response_def)

lemma handle_features_fields [simp]:
  "requestor (fst (handle_features_response a rsp)) = requestor a"
  "io (fst (handle_features_response a rsp)) = io a"
  "io_id (fst (handle_features_response a rsp)) = io_id a"
  "addr (fst (handle_features_response a rsp)) = addr a"
  "timeout (fst (handle_features_response a rsp)) = timeout a"
  "state (fst (handle_features_response a rsp)) = state a"
  by (simp_all add: handle_features_response_def Let_def)

lemma io_dispatchD:
  assumes "io_dispatch wid cond env w = Some w'"
  obtains wt keep w1 where "watches w wid = Some wt" "w_removed wt = 0"
    "io_env_fresh env w"
    "run_callback (w_func wt) env (w_chan wt) cond (w_data wt) w = Some (keep, w1)"
    "w' = (if keep then w1 else watch_released wid w1)"
  using assms by (auto simp: io_dispatch_def split: option.splits if_splits)

lemma data_failed_teardown:
  assumes hp: "heap w p = Some a" and io: "io a = Some ch" and id: "io_id a = wid"
    and rq: "requestor a' = requestor a"
    and H0: "(heap w0)(p := None) = (heap w)(p := None)"
    and F: "audits w0 = audits w" "listeners w0 = listeners w" "channels w0 = channels w"
      "watches w0 = watches w"
    and T0: "timers w0 = (if timeout a = 0 then timers w
                          else timers (timeout_released (timeout a) w))"
  shows "teardown_rel True p a w (watch_released wid (snd (l2raw_data_callback_failed ch p a' w0)))"
  unfolding teardown_rel_def
  using hp io id rq H0 F T0
  by (simp add: l2raw_data_callback_failed_def Let_def prim_defs split: option.splits)

lemma connect_failed_teardown:
  assumes hp: "heap w p = Some a" and io: "io a = Some ch" and id: "io_id a = wid"
    and ta: "timeout a = 0"
    and F: "same_registry w w0"
  shows "teardown_rel True p a w
           (watch_released wid (snd (l2raw_connect_complete_failed ch p a w0)))"
  unfolding teardown_rel_def
  using hp io id ta F
  by (simp add: l2raw_connect_complete_failed_def Let_def prim_defs same_registry_def
        split: option.splits)

lemma io_nval:
  assumes wt: "watches w wid = Some wt" "w_removed wt = 0"
    and c: "channels w (w_chan wt) = Some c" "ch_closes c \<noteq> 0"
    and nv: "cond AND G_IO_NVAL \<noteq> 0"
    and cb: "run_callback (w_func wt) env (w_chan wt) cond (w_data wt) w = Some (keep, w1)"
  shows "\<not> keep \<and> nval_rel wid w (watch_released wid w1)"
proof -
  have "keep = False \<and> w1 = g_io_channel_unref (w_chan wt) w"
    using cb nv
    by (cases "w_func wt")
      (auto simp: run_callback_def l2raw_connect_complete_def l2raw_data_callback_def)
  then show ?thesis
    using wt c
    by (simp add: nval_rel_def watch_released_def g_io_channel_unref_def)
qed

lemma connect_failed_false [simp]: "fst (l2raw_connect_complete_failed ch p a w) = False"
  by (simp add: l2raw_connect_complete_failed_def Let_def)

lemma data_failed_false [simp]: "fst (l2raw_data_callback_failed ch p a w) = False"
  by (simp add: l2raw_data_callback_failed_def Let_def)

lemma io_connect:
  assumes inv: "world_inv w"
    and wt: "watches w wid = Some wt" "w_removed wt = 0" "w_func wt = CB_connect_complete"
    and c: "channels w (w_chan wt) = Some c" "ch_closes c = 0"
    and nn: "cond AND G_IO_NVAL = 0"
    and fr: "io_env_fresh env w"
    and cb: "l2raw_connect_complete env (w_chan wt) cond (w_data wt) w = Some (keep, w1)"
  shows "\<not> keep \<and> (\<exists>a. heap w (w_data wt) = Some a \<and> io a = Some (w_chan wt) \<and> io_id a = wid
            \<and> (teardown_rel True (w_data wt) a w (watch_released wid w1)
                \<or> connected_rel (w_data wt) a w (watch_released wid w1)))"
proof -
  note i = world_invD [OF inv]
  from watch_active [OF i(4) wt(1,2)] c obtain a where a: "heap w (w_data wt) = Some a"
    "io a = Some (w_chan wt)" "io_id a = wid" by auto
  from audit_watch [OF i(3) a(1,2)] a(3) wt have ta: "timeout a = 0" by auto
  show ?thesis
  proof (cases "cond AND (G_IO_ERR OR G_IO_HUP) \<noteq> 0 \<or> getsockopt_rc env < 0
      \<or> so_error env \<noteq> 0 \<or> send_rc env < 0")
    case True
    have "\<exists>w0. same_registry w w0
        \<and> l2raw_connect_complete_failed (w_chan wt) (w_data wt) a w0 = (keep, w1)"
    proof -
      let ?f = "l2raw_connect_complete_failed (w_chan wt) (w_data wt) a"
      from True cb nn a c consider
          "?f (emit (Error ''Error on raw l2cap socket'') w) = (keep, w1)"
        | "?f (emit (Error ''Can't get socket error: %s (%d)'') w) = (keep, w1)"
        | "?f (emit (Error ''l2raw_connect failed: %s (%d)'') w) = (keep, w1)"
        | "?f (emit (Error ''Can't send info request: %s (%d)'')
                (emit (Send (ch_fd c) (info_req 0x0001))
                  (emit (Debug ''AuditRemoteDevice: connected'') w))) = (keep, w1)"
        by (auto simp: l2raw_connect_complete_def Let_def split: if_splits)
      then show ?thesis
      proof cases
        case 1
        moreover have "same_registry w (emit (Error ''Error on raw l2cap socket'') w)"
          by (simp add: same_registry_def emit_def)
        ultimately show ?thesis by blast
      next
        case 2
        moreover have "same_registry w (emit (Error ''Can't get socket error: %s (%d)'') w)"
          by (simp add: same_registry_def emit_def)
        ultimately show ?thesis by blast
      next
        case 3
        moreover have "same_registry w (emit (Error ''l2raw_connect failed: %s (%d)'') w)"
          by (simp add: same_registry_def emit_def)
        ultimately show ?thesis by blast
      next
        case 4
        moreover have "same_registry w (emit (Error ''Can't send info request: %s (%d)'')
                (emit (Send (ch_fd c) (info_req 0x0001))
                  (emit (Debug ''AuditRemoteDevice: connected'') w)))"
          by (simp add: same_registry_def emit_def)
        ultimately show ?thesis by blast
      qed
    qed
    then obtain w0 where w0: "same_registry w w0"
      "l2raw_connect_complete_failed (w_chan wt) (w_data wt) a w0 = (keep, w1)"
      by blast
    have k: "keep = False" using w0(2) connect_failed_false [of "w_chan wt" "w_data wt" a w0] by simp
    have "w1 = snd (l2raw_connect_complete_failed (w_chan wt) (w_data wt) a w0)"
      using w0(2) by simp
    then have "teardown_rel True (w_data wt) a w (watch_released wid w1)"
      using connect_failed_teardown [OF a ta w0(1)] by simp
    then show ?thesis using k a by blast
  next
    case False
    define tid where "tid = new_timeout env"
    define wid' where "wid' = new_io_watch env"
    have f: "timers w tid = None" "tid \<noteq> 0" "watches w wid' = None"
      using fr by (simp_all add: io_env_fresh_def tid_def wid'_def)
    have ne: "wid' \<noteq> wid" using f wt by auto
    have r: "keep = False"
      "w1 = store (w_data wt) (a\<lparr>timeout := tid, io_id := wid'\<rparr>)
              (g_io_add_watch wid' (w_chan wt) CB_data_callback (w_data wt)
                (store (w_data wt) (a\<lparr>timeout := tid\<rparr>)
                  (g_timeout_add tid (w_data wt)
                    (emit (Send (ch_fd c) (info_req 0x0001))
                      (emit (Debug ''AuditRemoteDevice: connected'') w)))))"
      using cb nn a c False
      by (simp_all add: l2raw_connect_complete_def Let_def tid_def wid'_def)
    let ?w' = "watch_released wid w1"
    have W1: "watches w1 wid = Some wt" using wt ne by (simp add: r(2) prim_defs)
    have F: "heap ?w' = (heap w)(w_data wt \<mapsto> a\<lparr>timeout := tid, io_id := wid'\<rparr>)"
      "timers ?w' = (timers w)(tid \<mapsto> \<lparr>t_data = w_data wt, t_removed = 0\<rparr>)"
      "watches ?w' = ((watches w)(wid' \<mapsto>
                \<lparr>w_chan = w_chan wt, w_func = CB_data_callback, w_data = w_data wt,
                   w_removed = 0\<rparr>))
                (wid \<mapsto> wt\<lparr>w_removed := Suc 0\<rparr>)"
      "audits ?w' = audits w" "channels ?w' = channels w" "listeners ?w' = listeners w"
      using W1 wt(2) by (simp_all add: watch_released_def) (simp_all add: r(2) prim_defs)
    have "\<exists>ch wt0 t k.
          io a = Some ch \<and> watches w (io_id a) = Some wt0 \<and> w_func wt0 = CB_connect_complete
          \<and> w_removed wt0 = 0
          \<and> timers w t = None \<and> t \<noteq> 0 \<and> watches w k = None
          \<and> heap ?w' = (heap w)(w_data wt \<mapsto> a\<lparr>timeout := t, io_id := k\<rparr>)
          \<and> timers ?w' = (timers w)(t \<mapsto> \<lparr>t_data = w_data wt, t_removed = 0\<rparr>)
          \<and> watches ?w' = ((watches w)(k \<mapsto>
                \<lparr>w_chan = ch, w_func = CB_data_callback, w_data = w_data wt, w_removed = 0\<rparr>))
                (io_id a \<mapsto> wt0\<lparr>w_removed := Suc 0\<rparr>)"
      apply (rule exI [of _ "w_chan wt"], rule exI [of _ wt], rule exI [of _ tid],
                 rule exI [of _ wid'])
      using a wt f F by simp
    then have "connected_rel (w_data wt) a w ?w'"
      unfolding connected_rel_def using a(1) F(4,5,6) by simp
    then show ?thesis using r(1) a by blast
  qed
qed

lemma io_data:
  assumes inv: "world_inv w"
    and wt: "watches w wid = Some wt" "w_removed wt = 0" "w_func wt = CB_data_callback"
    and c: "channels w (w_chan wt) = Some c" "ch_closes c = 0"
    and nn: "cond AND G_IO_NVAL = 0"
    and fr: "io_env_fresh env w"
    and cb: "l2raw_data_callback env (w_chan wt) cond (w_data wt) w = Some (keep, w1)"
  shows "\<exists>a. heap w (w_data wt) = Some a \<and> io a = Some (w_chan wt) \<and> io_id a = wid
            \<and> ((\<not> keep \<and> teardown_rel True (w_data wt) a w (watch_released wid w1))
                \<or> (keep \<and> mtu_rel (w_data wt) a w w1))"
proof -
  note i = world_invD [OF inv]
  let ?p = "w_data wt" and ?ch = "w_chan wt"
  from watch_active [OF i(4) wt(1,2)] c obtain a where a: "heap w ?p = Some a"
    "io a = Some ?ch" "io_id a = wid" by auto
  from audit_watch [OF i(3) a(1,2)] a(3) wt have ta: "timeout a \<noteq> 0" by auto
  define a1 where "a1 = a\<lparr>timeout := 0\<rparr>"
  define wc where "wc = store ?p a1 (g_timeout_remove (timeout a) w)"
  have ct: "clear_timeout ?p a w = (a1, wc)"
    using ta by (simp add: clear_timeout_def a1_def wc_def)
  have wc: "heap wc = (heap w)(?p \<mapsto> a1)" "audits wc = audits w" "listeners wc = listeners w"
    "channels wc = channels w" "watches wc = watches w"
    "timers wc = timers (timeout_released (timeout a) w)"
    by (simp_all add: wc_def store_def g_timeout_remove_timers)
      (simp_all add: g_timeout_remove_def split: option.splits)
  have a1: "requestor a1 = requestor a" "io a1 = io a" "io_id a1 = io_id a" "addr a1 = addr a"
    "state a1 = state a"
    by (simp_all add: a1_def)
  let ?f = "l2raw_data_callback_failed ?ch ?p"
  have td: "\<not> keep \<and> teardown_rel True ?p a w (watch_released wid w1)"
    if f: "?f a' w0 = (keep, w1)" and rq: "requestor a' = requestor a"
      and w0: "(heap w0)(?p := None) = (heap wc)(?p := None)" "audits w0 = audits wc"
        "listeners w0 = listeners wc" "channels w0 = channels wc" "watches w0 = watches wc"
        "timers w0 = timers wc"
    for a' w0
  proof -
    have k: "keep = False" using f data_failed_false [of ?ch ?p a' w0] by simp
    have w1: "w1 = snd (?f a' w0)" using f by simp
    have "(heap w0)(?p := None) = (heap w)(?p := None)" using w0(1) wc(1) by simp
    moreover have "timers w0 = (if timeout a = 0 then timers w
                          else timers (timeout_released (timeout a) w))"
      using w0(6) wc(6) ta by simp
    ultimately show ?thesis
      using data_failed_teardown [OF a rq, of w0] w0 wc k unfolding w1 by simp
  qed
  have cwc: "channels wc ?ch = Some c" using wc(4) c(1) by simp
  note S = l2raw_data_callback_def nn a(1) ct cwc a1(5)
  have "(\<not> keep \<and> teardown_rel True ?p a w (watch_released wid w1))
                \<or> (keep \<and> mtu_rel ?p a w w1)"
  proof (cases "cond AND (G_IO_ERR OR G_IO_HUP) \<noteq> 0")
    case True
    then have "?f a1 wc = (keep, w1)" using cb by (simp add: S)
    from td [OF this a1(1)] show ?thesis by simp
  next
    case ne: False
    show ?thesis
    proof (cases "recv_result env")
      case None
      then have "?f a1 (emit (Error ''Can't receive info response: %s (%d)'') wc) = (keep, w1)"
        using cb ne by (simp add: S)
      from td [OF this a1(1)] show ?thesis by (simp add: emit_def)
    next
      case (Some bs)
      let ?rsp = "drop L2CAP_CMD_HDR_SIZE (recv_buf bs)"
      show ?thesis
      proof (cases "state a")
        case AUDIT_STATE_FEATURES
        define a2 where "a2 = fst (handle_features_response a1 ?rsp)"
        have f1: "?f a2 (emits (snd (handle_features_response a1 ?rsp)) (store ?p a2 wc))
            = (keep, w1)"
          using cb ne Some AUDIT_STATE_FEATURES
          by (simp add: S data_state_features_def Let_def a2_def)
        have f2: "requestor a2 = requestor a" by (simp add: a2_def a1)
        from td [OF f1 f2] show ?thesis by (simp add: emits_def store_def)
      next
        case AUDIT_STATE_MTU
        define a2 where "a2 = fst (handle_mtu_response a1 ?rsp)"
        define w2 where "w2 = emit (Send (ch_fd c) (info_req 0x0002))
                                (emits (snd (handle_mtu_response a1 ?rsp)) (store ?p a2 wc))"
        have a2: "requestor a2 = requestor a" "io a2 = io a" "io_id a2 = io_id a"
          "addr a2 = addr a" by (simp_all add: a2_def a1)
        have w2: "heap w2 = (heap w)(?p \<mapsto> a2)" "audits w2 = audits w"
          "listeners w2 = listeners w" "channels w2 = channels w" "watches w2 = watches w"
          "timers w2 = timers (timeout_released (timeout a) w)"
          using wc by (simp_all add: w2_def emit_def emits_def store_def)
        note D = S data_state_mtu_def Let_def a2_def w2_def
        show ?thesis
        proof (cases "send_rc env < 0")
          case True
          then have "?f a2 (emit (Error ''Can't send info request:'') w2) = (keep, w1)"
            using cb ne Some AUDIT_STATE_MTU by (simp add: D)
          from td [OF this a2(1)] show ?thesis using w2 wc by (simp add: emit_def)
        next
          case False
          define a3 where "a3 = a2\<lparr>timeout := new_timeout env, state := AUDIT_STATE_FEATURES\<rparr>"
          have k: "keep" and w1: "w1 = store ?p a3 (store ?p (a2\<lparr>timeout := new_timeout env\<rparr>)
                            (g_timeout_add (new_timeout env) ?p w2))"
            using cb ne Some AUDIT_STATE_MTU False by (simp_all add: D a3_def)
          have f: "timers w (new_timeout env) = None" "new_timeout env \<noteq> 0"
            using fr by (simp_all add: io_env_fresh_def)
          have "\<exists>a' tid.
          timers w tid = None \<and> tid \<noteq> 0
          \<and> io a' = io a \<and> io_id a' = io_id a \<and> requestor a' = requestor a \<and> addr a' = addr a
          \<and> timeout a' = tid \<and> state a' = AUDIT_STATE_FEATURES
          \<and> heap w1 = (heap w)(?p \<mapsto> a')
          \<and> timers w1 = (timers (timeout_released (timeout a) w))
                         (tid \<mapsto> \<lparr>t_data = ?p, t_removed = 0\<rparr>)"
            apply (rule exI [of _ a3], rule exI [of _ "new_timeout env"])
            using f a2 w2 by (simp add: a3_def w1 store_def g_timeout_add_def)
          then have "mtu_rel ?p a w w1"
            unfolding mtu_rel_def
            using a(1,2) AUDIT_STATE_MTU ta w2 by (simp add: w1 store_def g_timeout_add_def)
          then show ?thesis using k by simp
        qed
      qed
    qed
  qed
  then show ?thesis using a by blast
qed

lemma step_io:
  assumes inv: "world_inv w" and ne: "nval_exact w (Io_ready wid cond env)"
    and st: "io_dispatch wid cond env w = Some w'"
  shows "nval_rel wid w w'
    \<or> (\<exists>p a. heap w p = Some a \<and> io a \<noteq> None \<and> io_id a = wid
          \<and> (teardown_rel True p a w w' \<or> connected_rel p a w w' \<or> mtu_rel p a w w'))"
proof -
  from st obtain wt keep w1 where wt: "watches w wid = Some wt" "w_removed wt = 0"
    and fr: "io_env_fresh env w"
    and cb: "run_callback (w_func wt) env (w_chan wt) cond (w_data wt) w = Some (keep, w1)"
    and w': "w' = (if keep then w1 else watch_released wid w1)"
    by (rule io_dispatchD)
  from watch_active [OF world_invD(4) [OF inv] wt] obtain c where
    c: "channels w (w_chan wt) = Some c" by auto
  have nv: "(cond AND G_IO_NVAL \<noteq> 0) = (ch_closes c \<noteq> 0)"
    using ne wt(1) c by simp
  show ?thesis
  proof (cases "cond AND G_IO_NVAL \<noteq> 0")
    case True
    then have "ch_closes c \<noteq> 0" using nv by simp
    from io_nval [OF wt c this True cb] w' show ?thesis by simp
  next
    case False
    then have nn: "cond AND G_IO_NVAL = 0" and cl: "ch_closes c = 0" using nv by auto
    show ?thesis
    proof (cases "w_func wt")
      case CB_connect_complete
      then have "l2raw_connect_complete env (w_chan wt) cond (w_data wt) w = Some (keep, w1)"
        using cb by (simp add: run_callback_def)
      from io_connect [OF inv wt CB_connect_complete c cl nn fr this] w'
      show ?thesis by auto
    next
      case CB_data_callback
      then have "l2raw_data_callback env (w_chan wt) cond (w_data wt) w = Some (keep, w1)"
        using cb by (simp add: run_callback_def)
      from io_data [OF inv wt CB_data_callback c cl nn fr this] w'
      show ?thesis by auto
    qed
  qed
qed

lemma step_inv:
  assumes inv: "world_inv w" and ne: "nval_exact w e" and st: "step ca s2b w e = Some w'"
  shows "world_inv w'"
proof (cases e)
  case (AuditRemoteDevice msg d env)
  then obtain r where "start_env_fresh env w"
    "audit_remote_device ca s2b msg d env w = Some (r, w')"
    using st by (auto split: if_splits)
  from step_start [OF world_invD(1) [OF inv] this] show ?thesis
    using same_registry_inv_eq inv started_inv by blast
next
  case (CancelAuditRemoteDevice msg reply_ok)
  then obtain r where "cancel_audit_remote_device ca s2b msg reply_ok w = Some (r, w')"
    using st by auto
  from step_cancel [OF this] show ?thesis
    using same_registry_inv_eq inv teardown_inv by blast
next
  case (Io_ready wid cond env)
  then have "io_dispatch wid cond env w = Some w'"
    and "nval_exact w (Io_ready wid cond env)" using st ne by simp_all
  from step_io [OF inv this(2,1)] show ?thesis
    using inv teardown_inv nval_inv connected_inv mtu_inv by blast
next
  case (Timeout_expired tid)
  then have "timeout_dispatch tid w = Some w'" using st by simp
  from step_timer [OF inv this] show ?thesis using inv teardown_inv by blast
next
  case (Requestor_exited name p)
  then have "name_dispatch name p w = Some w'" using st by simp
  from step_exit [OF inv this] show ?thesis using inv teardown_inv by blast
qed

lemma run_inv:
  "world_inv w \<Longrightarrow> nval_run ca s2b w es \<Longrightarrow> run ca s2b w es = Some w' \<Longrightarrow> world_inv w'"
proof (induction es arbitrary: w)
  case Nil
  then show ?case by simp
next
  case (Cons e es)
  from Cons.prems(3) obtain w1 where 1: "step ca s2b w e = Some w1"
    and 2: "run ca s2b w1 es = Some w'"
    by (auto split: option.splits)
  from Cons.prems(2) 1 have ne: "nval_exact w e" and nr: "nval_run ca s2b w1 es" by simp_all
  from step_inv [OF Cons.prems(1) ne 1] have "world_inv w1" .
  from Cons.IH [OF this nr 2] show ?case .
qed

lemma reachable_inv:
  "run ca s2b init_world es = Some w \<Longrightarrow> nval_run ca s2b init_world es \<Longrightarrow> world_inv w"
  using run_inv [OF inv_init] by blast

subsection \<open>Heap and registry in every reachable world\<close>

text \<open>The registry invariants need no assumption on the conditions that watches are
  dispatched with: every handler, also one that runs for a watch left behind by a freed
  record, changes the heap and the registry in one of the ways of \<open>registry_rel\<close>.\<close>

lemma failed_registry:
  "heap (snd (l2raw_data_callback_failed ch p a w)) = (heap w)(p := None)"
  "audits (snd (l2raw_data_callback_failed ch p a w)) = remove1 p (audits w)"
  "heap (snd (l2raw_connect_complete_failed ch p a w)) = (heap w)(p := None)"
  "audits (snd (l2raw_connect_complete_failed ch p a w)) = remove1 p (audits w)"
  by (simp_all add: l2raw_data_callback_failed_def l2raw_connect_complete_failed_def Let_def
        prim_defs split: option.splits)

lemma removal_registry:
  "heap w p = Some a \<Longrightarrow> heap w' = (heap w)(p := None) \<Longrightarrow> audits w' = remove1 p (audits w)
     \<Longrightarrow> registry_rel w w'"
  unfolding registry_rel_def by blast

lemma update_registry:
  "heap w p = Some a \<Longrightarrow> io a' = io a \<Longrightarrow> heap w' = (heap w)(p \<mapsto> a')
     \<Longrightarrow> audits w' = audits w \<Longrightarrow> registry_rel w w'"
  unfolding registry_rel_def by blast

lemma same_registry_rel: "heap w' = heap w \<Longrightarrow> audits w' = audits w \<Longrightarrow> registry_rel w w'"
  by (simp add: registry_rel_def)

lemma unref_registry:
  "heap (g_io_channel_unref ch w) = heap w" "audits (g_io_channel_unref ch w) = audits w"
  by (simp_all add: g_io_channel_unref_def split: option.splits)

lemma released_registry:
  "heap (watch_released wid w) = heap w" "audits (watch_released wid w) = audits w"
  "heap (timeout_released tid w) = heap w" "audits (timeout_released tid w) = audits w"
  by (simp_all add: watch_released_def timeout_released_def split: option.splits)

lemma connect_registry:
  assumes "l2raw_connect_complete env ch cond p w = Some (keep, w1)"
  shows "registry_rel w w1"
proof (cases "cond AND G_IO_NVAL \<noteq> 0")
  case True
  then have "w1 = g_io_channel_unref ch w" using assms by (simp add: l2raw_connect_complete_def)
  then show ?thesis by (simp add: same_registry_rel unref_registry)
next
  case nn: False
  then obtain a where a: "heap w p = Some a"
    using assms by (auto simp: l2raw_connect_complete_def split: option.splits)
  have rem: "registry_rel w w1"
    if "w1 = snd (l2raw_connect_complete_failed ch p a (emit x w0))"
      "heap w0 = heap w" "audits w0 = audits w" for x w0
    using that by (intro removal_registry [OF a]) (simp_all add: failed_registry emit_def)
  note S = l2raw_connect_complete_def nn a
  show ?thesis
  proof (cases "cond AND (G_IO_ERR OR G_IO_HUP) \<noteq> 0")
    case True
    then have "w1 = snd (l2raw_connect_complete_failed ch p a
        (emit (Error ''Error on raw l2cap socket'') w))"
      using assms by (simp add: S)
    from rem [OF this] show ?thesis by simp
  next
    case ne: False
    then obtain c where c: "channels w ch = Some c"
      using assms by (auto simp: S split: option.splits)
    show ?thesis
    proof (cases "getsockopt_rc env < 0")
      case True
      then have "w1 = snd (l2raw_connect_complete_failed ch p a
          (emit (Error ''Can't get socket error: %s (%d)'') w))"
        using assms ne c by (simp add: S)
      from rem [OF this] show ?thesis by simp
    next
      case g: False
      show ?thesis
      proof (cases "so_error env \<noteq> 0")
        case True
        then have "w1 = snd (l2raw_connect_complete_failed ch p a
            (emit (Error ''l2raw_connect failed: %s (%d)'') w))"
          using assms ne c g by (simp add: S)
        from rem [OF this] show ?thesis by simp
      next
        case so: False
        define w2 where "w2 = emit (Send (ch_fd c) (info_req 0x0001))
            (emit (Debug ''AuditRemoteDevice: connected'') w)"
        have w2: "heap w2 = heap w" "audits w2 = audits w" by (simp_all add: w2_def emit_def)
        show ?thesis
        proof (cases "send_rc env < 0")
          case True
          then have "w1 = snd (l2raw_connect_complete_failed ch p a
              (emit (Error ''Can't send info request: %s (%d)'') w2))"
            using assms ne c g so by (simp add: S Let_def w2_def)
          from rem [OF this w2] show ?thesis .
        next
          case False
          then obtain ach where io: "io a = Some ach"
            and w1: "w1 = store p (a\<lparr>timeout := new_timeout env, io_id := new_io_watch env\<rparr>)
               (g_io_add_watch (new_io_watch env) ach CB_data_callback p
                 (store p (a\<lparr>timeout := new_timeout env\<rparr>)
                    (g_timeout_add (new_timeout env) p w2)))"
            using assms ne c g so by (auto simp: S Let_def w2_def split: option.splits)
          show ?thesis
            by (rule update_registry [OF a,
                  of "a\<lparr>timeout := new_timeout env, io_id := new_io_watch env\<rparr>"])
              (simp_all add: w1 w2 store_def g_io_add_watch_def g_timeout_add_def)
        qed
      qed
    qed
  qed
qed

lemma data_registry:
  assumes "l2raw_data_callback env ch cond p w = Some (keep, w1)"
  shows "registry_rel w w1"
proof (cases "cond AND G_IO_NVAL \<noteq> 0")
  case True
  then have "w1 = g_io_channel_unref ch w" using assms by (simp add: l2raw_data_callback_def)
  then show ?thesis by (simp add: same_registry_rel unref_registry)
next
  case nn: False
  then obtain a where a: "heap w p = Some a"
    using assms by (auto simp: l2raw_data_callback_def split: option.splits)
  obtain a1 wc where ct: "clear_timeout p a w = (a1, wc)" by (cases "clear_timeout p a w")
  have wc: "heap wc = (heap w)(p \<mapsto> a1)" "audits wc = audits w" "io a1 = io a"
    using ct a by (auto simp: clear_timeout_def prim_defs map_upd_triv split: if_splits option.splits)
  have rem: "registry_rel w w1"
    if "w1 = snd (l2raw_data_callback_failed ch p a' w0)"
      "(heap w0)(p := None) = (heap wc)(p := None)" "audits w0 = audits wc" for a' w0
    using that wc by (intro removal_registry [OF a]) (simp_all add: failed_registry)
  note S = l2raw_data_callback_def nn a ct
  show ?thesis
  proof (cases "cond AND (G_IO_ERR OR G_IO_HUP) \<noteq> 0")
    case True
    then have "w1 = snd (l2raw_data_callback_failed ch p a1 wc)" using assms by (simp add: S)
    from rem [OF this] show ?thesis by simp
  next
    case ne: False
    then obtain c where c: "channels wc ch = Some c"
      using assms by (auto simp: S split: option.splits)
    show ?thesis
    proof (cases "recv_result env")
      case None
      then have "w1 = snd (l2raw_data_callback_failed ch p a1
          (emit (Error ''Can't receive info response: %s (%d)'') wc))"
        using assms ne c by (simp add: S)
      from rem [OF this] show ?thesis by (simp add: emit_def)
    next
      case (Some bs)
      let ?rsp = "drop L2CAP_CMD_HDR_SIZE (recv_buf bs)"
      show ?thesis
      proof (cases "state a1")
        case AUDIT_STATE_FEATURES
        then have "w1 = snd (l2raw_data_callback_failed ch p (fst (handle_features_response a1 ?rsp))
            (emits (snd (handle_features_response a1 ?rsp))
               (store p (fst (handle_features_response a1 ?rsp)) wc)))"
          using assms ne c Some by (simp add: S data_state_features_def Let_def)
        from rem [OF this] show ?thesis by (simp add: emits_def store_def)
      next
        case AUDIT_STATE_MTU
        define a2 where "a2 = fst (handle_mtu_response a1 ?rsp)"
        define w2 where "w2 = emit (Send (ch_fd c) (info_req 0x0002))
                                (emits (snd (handle_mtu_response a1 ?rsp)) (store p a2 wc))"
        have w2: "heap w2 = (heap w)(p \<mapsto> a2)" "audits w2 = audits w"
          using wc by (simp_all add: w2_def emit_def emits_def store_def)
        have a2: "io a2 = io a" using wc(3) by (simp add: a2_def)
        note D = S data_state_mtu_def Let_def a2_def w2_def
        show ?thesis
        proof (cases "send_rc env < 0")
          case True
          then have "w1 = snd (l2raw_data_callback_failed ch p a2
              (emit (Error ''Can't send info request:'') w2))"
            using assms ne c Some AUDIT_STATE_MTU by (simp add: D)
          from rem [OF this] show ?thesis using w2 wc by (simp add: emit_def)
        next
          case False
          then have w1: "w1 = store p (a2\<lparr>timeout := new_timeout env, state := AUDIT_STATE_FEATURES\<rparr>)
              (store p (a2\<lparr>timeout := new_timeout env\<rparr>)
                 (g_timeout_add (new_timeout env) p w2))"
            using assms ne c Some AUDIT_STATE_MTU by (simp add: D)
          show ?thesis
            by (rule update_registry [OF a,
                  of "a2\<lparr>timeout := new_timeout env, state := AUDIT_STATE_FEATURES\<rparr>"])
              (simp_all add: w1 a2 w2 store_def g_timeout_add_def)
        qed
      qed
    qed
  qed
qed

lemma io_registry:
  assumes "io_dispatch wid cond env w = Some w'"
  shows "registry_rel w w'"
proof -
  from assms obtain wt keep w1 where "watches w wid = Some wt" "w_removed wt = 0"
    "io_env_fresh env w"
    and cb: "run_callback (w_func wt) env (w_chan wt) cond (w_data wt) w = Some (keep, w1)"
    and w': "w' = (if keep then w1 else watch_released wid w1)"
    by (rule io_dispatchD)
  have "registry_rel w w1"
    using cb connect_registry data_registry
    by (cases "w_func wt") (auto simp: run_callback_def)
  moreover have "heap w' = heap w1" "audits w' = audits w1"
    using w' by (simp_all add: released_registry)
  ultimately show ?thesis by (simp add: registry_rel_def)
qed

lemma timer_registry:
  assumes "timeout_dispatch tid w = Some w'"
  shows "registry_rel w w'"
proof -
  from assms obtain t where t: "timers w tid = Some t" "t_removed t = 0"
    by (auto simp: timeout_dispatch_def split: option.splits if_splits)
  then obtain a where a: "heap w (t_data t) = Some a"
    using assms by (auto simp: timeout_dispatch_def l2raw_input_timer_def split: option.splits)
  have w': "w' = timeout_released tid (snd (the (l2raw_input_timer (t_data t) w)))"
    using assms t a by (simp add: timeout_dispatch_def l2raw_input_timer_def Let_def)
  show ?thesis
    using a
    by (intro removal_registry [OF a])
      (simp_all add: w' released_registry l2raw_input_timer_def Let_def prim_defs
         split: option.splits)
qed

lemma exit_registry:
  assumes "name_dispatch name p w = Some w'"
  shows "registry_rel w w'"
proof -
  from assms obtain a where a: "heap w p = Some a"
    and w': "w' = listener_consumed name p (the (audit_requestor_exited name p w))"
    by (auto simp: name_dispatch_def audit_requestor_exited_def Let_def
          split: option.splits if_splits)
  show ?thesis
    using a
    by (intro removal_registry [OF a])
      (simp_all add: w' audit_requestor_exited_def Let_def prim_defs split: option.splits)
qed

lemma step_registry:
  assumes inv: "inv_registry w" and st: "step ca s2b w e = Some w'"
  shows "registry_rel w w'"
proof (cases e)
  case (AuditRemoteDevice msg d env)
  then obtain r where "start_env_fresh env w"
    "audit_remote_device ca s2b msg d env w = Some (r, w')"
    using st by (auto split: if_splits)
  from step_start [OF inv this] show ?thesis
  proof
    assume "same_registry w w'"
    then show ?thesis by (simp add: same_registry_def same_registry_rel)
  next
    assume "\<exists>p a s. started_rel p a w w' \<and> requestor a = msg_sender msg
          \<and> msg_address msg = Some s \<and> addr a = s2b s \<and> r = Method_return
          \<and> (io a = None \<longleftrightarrow> audit_in_progress w = Some True)
          \<and> (io a = None \<longrightarrow> io_id a = 0)"
    then obtain p a where s: "started_rel p a w w'" by blast
    then have "heap w p = None \<and> heap w' = (heap w)(p \<mapsto> a) \<and> audits w' = audits w @ [p]
           \<and> (io a \<noteq> None \<longrightarrow> (\<forall>q b. heap w q = Some b \<longrightarrow> io b = None))"
      by (cases "io a") (simp_all add: started_rel_def)
    then show ?thesis unfolding registry_rel_def by blast
  qed
next
  case (CancelAuditRemoteDevice msg reply_ok)
  then obtain r where "cancel_audit_remote_device ca s2b msg reply_ok w = Some (r, w')"
    using st by auto
  from step_cancel [OF this] show ?thesis
  proof
    assume "same_registry w w'"
    then show ?thesis by (simp add: same_registry_def same_registry_rel)
  next
    assume "\<exists>p a s. teardown_rel False p a w w' \<and> p \<in> set (audits w)
          \<and> requestor a = msg_sender msg \<and> msg_address msg = Some s \<and> addr a = s2b s"
    then obtain p a where "teardown_rel False p a w w'" by blast
    then show ?thesis by (intro removal_registry [of w p a]) (simp_all add: teardown_rel_def)
  qed
next
  case (Io_ready wid cond env)
  then show ?thesis using st io_registry by simp
next
  case (Timeout_expired tid)
  then show ?thesis using st timer_registry by simp
next
  case (Requestor_exited name p)
  then show ?thesis using st exit_registry by simp
qed

lemma registry_rel_inv:
  assumes ir: "inv_registry w" and si: "inv_single w" and r: "registry_rel w w'"
  shows "inv_registry w' \<and> inv_single w'"
proof -
  from r consider
    (same) "heap w' = heap w" "audits w' = audits w"
    | (new) p a where "heap w p = None" "heap w' = (heap w)(p \<mapsto> a)"
        "audits w' = audits w @ [p]" "io a \<noteq> None \<longrightarrow> (\<forall>q b. heap w q = Some b \<longrightarrow> io b = None)"
    | (free) p a where "heap w p = Some a" "heap w' = (heap w)(p := None)"
        "audits w' = remove1 p (audits w)"
    | (upd) p a a' where "heap w p = Some a" "io a' = io a" "heap w' = (heap w)(p \<mapsto> a')"
        "audits w' = audits w"
    unfolding registry_rel_def by blast
  then show ?thesis
  proof cases
    case same
    then show ?thesis using ir si by (simp add: inv_registry_def inv_single_def)
  next
    case new
    have pn: "p \<notin> set (audits w)" using registry_fresh [OF ir new(1)] .
    have 1: "inv_registry w'"
      using ir new pn by (auto simp: inv_registry_def)
    have 2: "inv_single w'"
      unfolding inv_single_def
    proof (intro allI impI)
      fix q r b c
      assume h: "heap w' q = Some b \<and> heap w' r = Some c \<and> io b \<noteq> None \<and> io c \<noteq> None"
      show "q = r"
      proof (cases "q = p \<or> r = p")
        case True
        then show ?thesis using h new(2,4) by (auto split: if_splits)
      next
        case False
        then have "heap w q = Some b" "heap w r = Some c" using h new(2) by auto
        then show ?thesis using si h unfolding inv_single_def by blast
      qed
    qed
    show ?thesis using 1 2 ..
  next
    case free
    have 1: "inv_registry w'" using teardown_registry [OF ir free(2,3)] .
    have 2: "inv_single w'" using teardown_single [OF si free(2)] .
    show ?thesis using 1 2 ..
  next
    case upd
    have 1: "inv_registry w'"
      using ir upd by (auto simp: inv_registry_def)
    have 2: "inv_single w'"
      unfolding inv_single_def
    proof (intro allI impI)
      fix q r b c
      assume h: "heap w' q = Some b \<and> heap w' r = Some c \<and> io b \<noteq> None \<and> io c \<noteq> None"
      have "\<exists>b0. heap w q = Some b0 \<and> io b0 \<noteq> None"
        using h upd by (cases "q = p") auto
      moreover have "\<exists>c0. heap w r = Some c0 \<and> io c0 \<noteq> None"
        using h upd by (cases "r = p") auto
      ultimately show "q = r" using si unfolding inv_single_def by blast
    qed
    show ?thesis using 1 2 ..
  qed
qed

lemma run_registry:
  "inv_registry w \<Longrightarrow> inv_single w \<Longrightarrow> run ca s2b w es = Some w'
     \<Longrightarrow> inv_registry w' \<and> inv_single w'"
proof (induction es arbitrary: w)
  case Nil
  then show ?case by simp
next
  case (Cons e es)
  then obtain w1 where 1: "step ca s2b w e = Some w1" and 2: "run ca s2b w1 es = Some w'"
    by (auto split: option.splits)
  from registry_rel_inv [OF Cons.prems(1,2) step_registry [OF Cons.prems(1) 1]]
  have "inv_registry w1" "inv_single w1" by simp_all
  from Cons.IH [OF this 2] show ?case .
qed

lemma reachable_registry:
  assumes "run ca s2b init_world es = Some w"
  shows "inv_registry w" "inv_single w"
proof -
  have "inv_registry init_world" "inv_single init_world"
    by (simp_all add: inv_registry_def inv_single_def init_world_def)
  from run_registry [OF this assms] show "inv_registry w" "inv_single w" by simp_all
qed

subsection \<open>Unexpected result codes and short responses\<close>

lemma data_callback_mtu:
  assumes "heap w p = Some a" and "state a = AUDIT_STATE_MTU"
    and "cond AND G_IO_NVAL = 0" and "cond AND (G_IO_ERR OR G_IO_HUP) = 0"
    and "channels w io_ch = Some c" and "recv_result env = Some bs"
    and "handle_mtu_response (a\<lparr>timeout := 0\<rparr>) (drop L2CAP_CMD_HDR_SIZE (recv_buf bs))
           = (f (a\<lparr>timeout := 0\<rparr>), es)"
    and "f (a\<lparr>timeout := 0\<rparr>)\<lparr>timeout := new_timeout env, state := AUDIT_STATE_FEATURES\<rparr> = a'"
    and "0 \<le> send_rc env"
  shows "\<exists>w'. l2raw_data_callback env io_ch cond p w = Some (True, w')
     \<and> heap w' p = Some a'
     \<and> timers w' (new_timeout env) = Some \<lparr>t_data = p, t_removed = 0\<rparr>
     \<and> trace w' = trace w @ es @ [Send (ch_fd c) [0x0a, 42, 2, 0, 2, 0]]
     \<and> audits w' = audits w"
proof -
  obtain a1 w1 where ct: "clear_timeout p a w = (a1, w1)" by (cases "clear_timeout p a w")
  from clear_timeout_frame [OF ct] have fr: "a1 = a\<lparr>timeout := 0\<rparr>" "channels w1 = channels w"
    "audits w1 = audits w" "trace w1 = trace w" by simp_all
  show ?thesis
    using assms ct fr
    by (simp add: l2raw_data_callback_def data_state_mtu_def Let_def store_def emit_def emits_def
          g_timeout_add_def info_req_bytes)
qed

lemma data_callback_features:
  assumes "heap w p = Some a" and "state a = AUDIT_STATE_FEATURES"
    and "cond AND G_IO_NVAL = 0" and "cond AND (G_IO_ERR OR G_IO_HUP) = 0"
    and "channels w io_ch = Some c" and "recv_result env = Some bs"
    and "snd (handle_features_response (a\<lparr>timeout := 0\<rparr>)
           (drop L2CAP_CMD_HDR_SIZE (recv_buf bs))) = es"
  shows "\<exists>w'. l2raw_data_callback env io_ch cond p w = Some (False, w')
     \<and> heap w' p = None \<and> audits w' = remove1 p (audits w)
     \<and> listeners w' = remove1 (requestor a, p) (listeners w)
     \<and> trace w' = trace w @ es"
proof -
  obtain a1 w1 where ct: "clear_timeout p a w = (a1, w1)" by (cases "clear_timeout p a w")
  from clear_timeout_frame [OF ct] have fr: "a1 = a\<lparr>timeout := 0\<rparr>" "channels w1 = channels w"
    "audits w1 = audits w" "trace w1 = trace w" "listeners w1 = listeners w" by simp_all
  show ?thesis
    using assms ct fr
    by (simp add: l2raw_data_callback_def data_state_features_def Let_def
          l2raw_data_callback_failed_def prim_defs split: option.splits)
qed

text \<open>C7, amended: for every info response whose result code is neither 0x0000 nor 0x0001,
  \<open>handle_mtu_response\<close> and \<open>handle_features_response\<close> leave the record unchanged and log
  nothing, and \<open>l2raw_data_callback\<close> goes on as after a not-supported response. In the
  MTU state it sends the feature request and, the send having succeeded, starts a new
  timeout, moves to \<open>AUDIT_STATE_FEATURES\<close> and keeps its watch; nothing but the request
  is written. In the feature state it runs into the block \<open>failed\<close> as after every feature
  response: the record is freed, removed from the registry and its listener removed, and
  nothing is logged.\<close>

theorem C7_unexpected_result_ignored:
  assumes "heap w p = Some a"
    and "cond AND G_IO_NVAL = 0" and "cond AND (G_IO_ERR OR G_IO_HUP) = 0"
    and "channels w io_ch = Some c" and "recv_result env = Some bs"
    and "rsp_result (drop L2CAP_CMD_HDR_SIZE (recv_buf bs)) \<noteq> 0x0000"
    and "rsp_result (drop L2CAP_CMD_HDR_SIZE (recv_buf bs)) \<noteq> 0x0001"
  shows "handle_mtu_response a (drop L2CAP_CMD_HDR_SIZE (recv_buf bs)) = (a, [])
     \<and> handle_features_response a (drop L2CAP_CMD_HDR_SIZE (recv_buf bs)) = (a, [])
     \<and> (state a = AUDIT_STATE_MTU \<and> 0 \<le> send_rc env \<longrightarrow>
          (\<exists>w'. l2raw_data_callback env io_ch cond p w = Some (True, w')
             \<and> heap w' p = Some (a\<lparr>timeout := new_timeout env, state := AUDIT_STATE_FEATURES\<rparr>)
             \<and> timers w' (new_timeout env) = Some \<lparr>t_data = p, t_removed = 0\<rparr>
             \<and> trace w' = trace w @ [Send (ch_fd c) [0x0a, 42, 2, 0, 2, 0]]
             \<and> audits w' = audits w))
     \<and> (state a = AUDIT_STATE_FEATURES \<longrightarrow>
          (\<exists>w'. l2raw_data_callback env io_ch cond p w = Some (False, w')
             \<and> heap w' p = None \<and> audits w' = remove1 p (audits w)
             \<and> listeners w' = remove1 (requestor a, p) (listeners w)
             \<and> trace w' = trace w))"
proof -
  let ?rsp = "drop L2CAP_CMD_HDR_SIZE (recv_buf bs)"
  have h: "handle_mtu_response x ?rsp = (x, [])" "handle_features_response x ?rsp = (x, [])" for x
    using assms(6,7) by (simp_all add: handle_mtu_response_def handle_features_response_def)
  have m: "\<exists>w'. l2raw_data_callback env io_ch cond p w = Some (True, w')
             \<and> heap w' p = Some (a\<lparr>timeout := new_timeout env, state := AUDIT_STATE_FEATURES\<rparr>)
             \<and> timers w' (new_timeout env) = Some \<lparr>t_data = p, t_removed = 0\<rparr>
             \<and> trace w' = trace w @ [Send (ch_fd c) [0x0a, 42, 2, 0, 2, 0]]
             \<and> audits w' = audits w"
    if s: "state a = AUDIT_STATE_MTU" "0 \<le> send_rc env"
    using data_callback_mtu [OF assms(1) s(1) assms(2,3,4,5), of "\<lambda>x. x" "[]"
        "a\<lparr>timeout := new_timeout env, state := AUDIT_STATE_FEATURES\<rparr>"] h s(2)
    by simp
  have f: "\<exists>w'. l2raw_data_callback env io_ch cond p w = Some (False, w')
             \<and> heap w' p = None \<and> audits w' = remove1 p (audits w)
             \<and> listeners w' = remove1 (requestor a, p) (listeners w)
             \<and> trace w' = trace w"
    if s: "state a = AUDIT_STATE_FEATURES"
    using data_callback_features [OF assms(1) s assms(2,3,4,5), of "[]"] h by simp
  show ?thesis using h m f by blast
qed

theorem C7_unexpected_result_ignored_witness:
  "heap ex_world 100 = Some ex_audit \<and> state ex_audit = AUDIT_STATE_MTU
   \<and> rsp_result (drop L2CAP_CMD_HDR_SIZE (recv_buf [0x0b, 42, 6, 0, 1, 0, 0x34, 0x12, 0xF4, 1]))
       = 0x1234
   \<and> handle_mtu_response ex_audit
        (drop L2CAP_CMD_HDR_SIZE (recv_buf [0x0b, 42, 6, 0, 1, 0, 0x34, 0x12, 0xF4, 1]))
       = (ex_audit, [])
   \<and> (\<exists>w'. l2raw_data_callback
          (ex_io_env_mtu\<lparr>recv_result := Some [0x0b, 42, 6, 0, 1, 0, 0x34, 0x12, 0xF4, 1]\<rparr>)
          200 G_IO_IN 100 ex_world = Some (True, w')
        \<and> heap w' 100 = Some (ex_audit\<lparr>timeout := 8, state := AUDIT_STATE_FEATURES\<rparr>)
        \<and> timers w' 8 = Some \<lparr>t_data = 100, t_removed = 0\<rparr>
        \<and> trace w' = trace ex_world @ [Send 5 [0x0a, 42, 2, 0, 2, 0]]
        \<and> audits w' = [100])
   \<and> (\<exists>w'. l2raw_data_callback
          (ex_io_env_mtu\<lparr>recv_result := Some [0x0b, 42, 6, 0, 1, 0, 0x34, 0x12, 0xF4, 1]\<rparr>)
          200 G_IO_IN 100
          (ex_world\<lparr>heap := [100 \<mapsto> ex_audit\<lparr>state := AUDIT_STATE_FEATURES\<rparr>]\<rparr>)
            = Some (False, w')
        \<and> heap w' 100 = None \<and> audits w' = [] \<and> listeners w' = []
        \<and> trace w' = trace ex_world)"
proof -
  let ?bs = "[0x0b, 42, 6, 0, 1, 0, 0x34, 0x12, 0xF4, 1] :: byte list"
  let ?env = "ex_io_env_mtu\<lparr>recv_result := Some ?bs\<rparr>"
  let ?wf = "ex_world\<lparr>heap := [100 \<mapsto> ex_audit\<lparr>state := AUDIT_STATE_FEATURES\<rparr>]\<rparr>"
  have r: "rsp_result (drop L2CAP_CMD_HDR_SIZE (recv_buf ?bs)) = 0x1234"
    by (simp add: ex_rsp_defs)
  have h: "heap ex_world 100 = Some ex_audit"
    "G_IO_IN AND G_IO_NVAL = 0" "G_IO_IN AND (G_IO_ERR OR G_IO_HUP) = 0"
    "channels ex_world 200 = Some \<lparr>ch_fd = 5, ch_closes = 0, ch_unrefs = 0\<rparr>"
    "recv_result ?env = Some ?bs"
    "rsp_result (drop L2CAP_CMD_HDR_SIZE (recv_buf ?bs)) \<noteq> 0x0000"
    "rsp_result (drop L2CAP_CMD_HDR_SIZE (recv_buf ?bs)) \<noteq> 0x0001"
    by (simp_all add: ex_defs G_IO_IN_def G_IO_NVAL_def G_IO_ERR_def G_IO_HUP_def r)
  have hf: "heap ?wf 100 = Some (ex_audit\<lparr>state := AUDIT_STATE_FEATURES\<rparr>)"
    "channels ?wf 200 = Some \<lparr>ch_fd = 5, ch_closes = 0, ch_unrefs = 0\<rparr>"
    by (simp_all add: ex_defs)
  have s: "state ex_audit = AUDIT_STATE_MTU" "0 \<le> send_rc ?env"
    by (simp_all add: ex_defs ex_io_env_mtu_def)
  note t1 = C7_unexpected_result_ignored [OF h]
  note t2 = C7_unexpected_result_ignored [OF hf(1) h(2,3) hf(2) h(5,6,7)]
  from t1 have 1: "handle_mtu_response ex_audit (drop L2CAP_CMD_HDR_SIZE (recv_buf ?bs))
       = (ex_audit, [])" by blast
  from t1 s have 2: "\<exists>w'. l2raw_data_callback ?env 200 G_IO_IN 100 ex_world = Some (True, w')
        \<and> heap w' 100 = Some (ex_audit\<lparr>timeout := new_timeout ?env, state := AUDIT_STATE_FEATURES\<rparr>)
        \<and> timers w' (new_timeout ?env) = Some \<lparr>t_data = 100, t_removed = 0\<rparr>
        \<and> trace w' = trace ex_world @ [Send (ch_fd \<lparr>ch_fd = 5, ch_closes = 0, ch_unrefs = 0\<rparr>) [0x0a, 42, 2, 0, 2, 0]]
        \<and> audits w' = audits ex_world" by blast
  from t2 have 3: "\<exists>w'. l2raw_data_callback ?env 200 G_IO_IN 100 ?wf = Some (False, w')
        \<and> heap w' 100 = None \<and> audits w' = remove1 100 (audits ?wf)
        \<and> listeners w' = remove1 (requestor (ex_audit\<lparr>state := AUDIT_STATE_FEATURES\<rparr>), 100)
             (listeners ?wf)
        \<and> trace w' = trace ?wf" by simp
  have a2: "\<exists>w'. l2raw_data_callback ?env 200 G_IO_IN 100 ex_world = Some (True, w')
        \<and> heap w' 100 = Some (ex_audit\<lparr>timeout := 8, state := AUDIT_STATE_FEATURES\<rparr>)
        \<and> timers w' 8 = Some \<lparr>t_data = 100, t_removed = 0\<rparr>
        \<and> trace w' = trace ex_world @ [Send 5 [0x0a, 42, 2, 0, 2, 0]]
        \<and> audits w' = [100]"
    using 2 by (simp add: ex_io_env_mtu_def ex_world_def)
  have a3: "\<exists>w'. l2raw_data_callback ?env 200 G_IO_IN 100 ?wf = Some (False, w')
        \<and> heap w' 100 = None \<and> audits w' = [] \<and> listeners w' = []
        \<and> trace w' = trace ex_world"
    using 3 by (simp add: ex_world_def ex_audit_def)
  show ?thesis using h(1) s(1) r 1 a2 a3 by simp
qed

text \<open>C8, amended: the length of a response is never checked and there is no truncated
  outcome. The receive buffer has 48 bytes and is zeroed before a \<open>recv\<close> of at most ten
  bytes, so the reads of the result code (offsets 6 and 7) and of the payload (offsets 8
  to 11) stay inside the buffer, and every byte that was not received reads as zero. When
  \<open>recv\<close> returns at most six bytes (also none), \<open>l2raw_data_callback\<close> therefore decodes
  result code 0x0000 with a zero payload and goes on as after a successful response: in the
  MTU state it records MTU 0 with \<open>got_mtu\<close> set, logs the size, sends the feature request
  and moves to \<open>AUDIT_STATE_FEATURES\<close>; in the feature state it logs the mask and runs
  into the block \<open>failed\<close> as after every feature response.\<close>

theorem C8_short_response_reads_zeros:
  "length (recv_buf bs) = 48
   \<and> (\<forall>i<48. min (length bs) 10 \<le> i \<longrightarrow> recv_buf bs ! i = 0)
   \<and> (length bs \<le> 6 \<longrightarrow>
        handle_mtu_response a (drop L2CAP_CMD_HDR_SIZE (recv_buf bs))
          = (a\<lparr>mtu := 0, got_mtu := True\<rparr>, [Debug ''Connectionless MTU size is %d''])
      \<and> handle_features_response a (drop L2CAP_CMD_HDR_SIZE (recv_buf bs))
          = (a\<lparr>mask := 0, got_mask := True\<rparr>, [Debug ''Extended feature mask is 0x%04x'']))
   \<and> (length bs \<le> 6 \<and> heap w p = Some a \<and> cond AND G_IO_NVAL = 0
        \<and> cond AND (G_IO_ERR OR G_IO_HUP) = 0 \<and> channels w io_ch = Some c
        \<and> recv_result env = Some bs \<longrightarrow>
        (state a = AUDIT_STATE_MTU \<and> 0 \<le> send_rc env \<longrightarrow>
           (\<exists>w'. l2raw_data_callback env io_ch cond p w = Some (True, w')
              \<and> heap w' p = Some (a\<lparr>mtu := 0, got_mtu := True, timeout := new_timeout env,
                                      state := AUDIT_STATE_FEATURES\<rparr>)
              \<and> timers w' (new_timeout env) = Some \<lparr>t_data = p, t_removed = 0\<rparr>
              \<and> trace w' = trace w @ [Debug ''Connectionless MTU size is %d'',
                                       Send (ch_fd c) [0x0a, 42, 2, 0, 2, 0]]
              \<and> audits w' = audits w))
      \<and> (state a = AUDIT_STATE_FEATURES \<longrightarrow>
           (\<exists>w'. l2raw_data_callback env io_ch cond p w = Some (False, w')
              \<and> heap w' p = None \<and> audits w' = remove1 p (audits w)
              \<and> listeners w' = remove1 (requestor a, p) (listeners w)
              \<and> trace w' = trace w @ [Debug ''Extended feature mask is 0x%04x''])))"
proof -
  let ?rsp = "drop L2CAP_CMD_HDR_SIZE (recv_buf bs)"
  have 1: "length (recv_buf bs) = 48" by (rule length_recv_buf)
  have 2: "\<forall>i<48. min (length bs) 10 \<le> i \<longrightarrow> recv_buf bs ! i = 0"
    by (simp add: recv_buf_zero)
  have h: "handle_mtu_response x ?rsp
          = (x\<lparr>mtu := 0, got_mtu := True\<rparr>, [Debug ''Connectionless MTU size is %d''])"
      "handle_features_response x ?rsp
          = (x\<lparr>mask := 0, got_mask := True\<rparr>, [Debug ''Extended feature mask is 0x%04x''])"
    if "length bs \<le> 6" for x
    using that
    by (simp_all add: handle_mtu_response_def handle_features_response_def rsp_short
          rsp_data_short)
  have 3: "length bs \<le> 6 \<longrightarrow>
        handle_mtu_response a ?rsp
          = (a\<lparr>mtu := 0, got_mtu := True\<rparr>, [Debug ''Connectionless MTU size is %d''])
      \<and> handle_features_response a ?rsp
          = (a\<lparr>mask := 0, got_mask := True\<rparr>, [Debug ''Extended feature mask is 0x%04x''])"
    using h by simp
  have 4: "length bs \<le> 6 \<and> heap w p = Some a \<and> cond AND G_IO_NVAL = 0
        \<and> cond AND (G_IO_ERR OR G_IO_HUP) = 0 \<and> channels w io_ch = Some c
        \<and> recv_result env = Some bs \<longrightarrow>
        (state a = AUDIT_STATE_MTU \<and> 0 \<le> send_rc env \<longrightarrow>
           (\<exists>w'. l2raw_data_callback env io_ch cond p w = Some (True, w')
              \<and> heap w' p = Some (a\<lparr>mtu := 0, got_mtu := True, timeout := new_timeout env,
                                      state := AUDIT_STATE_FEATURES\<rparr>)
              \<and> timers w' (new_timeout env) = Some \<lparr>t_data = p, t_removed = 0\<rparr>
              \<and> trace w' = trace w @ [Debug ''Connectionless MTU size is %d'',
                                       Send (ch_fd c) [0x0a, 42, 2, 0, 2, 0]]
              \<and> audits w' = audits w))
      \<and> (state a = AUDIT_STATE_FEATURES \<longrightarrow>
           (\<exists>w'. l2raw_data_callback env io_ch cond p w = Some (False, w')
              \<and> heap w' p = None \<and> audits w' = remove1 p (audits w)
              \<and> listeners w' = remove1 (requestor a, p) (listeners w)
              \<and> trace w' = trace w @ [Debug ''Extended feature mask is 0x%04x'']))"
  proof (intro impI)
    assume a: "length bs \<le> 6 \<and> heap w p = Some a \<and> cond AND G_IO_NVAL = 0
        \<and> cond AND (G_IO_ERR OR G_IO_HUP) = 0 \<and> channels w io_ch = Some c
        \<and> recv_result env = Some bs"
    then have l: "length bs \<le> 6" and hp: "heap w p = Some a"
      and c: "cond AND G_IO_NVAL = 0" "cond AND (G_IO_ERR OR G_IO_HUP) = 0"
        "channels w io_ch = Some c" "recv_result env = Some bs" by simp_all
    have m: "\<exists>w'. l2raw_data_callback env io_ch cond p w = Some (True, w')
              \<and> heap w' p = Some (a\<lparr>mtu := 0, got_mtu := True, timeout := new_timeout env,
                                      state := AUDIT_STATE_FEATURES\<rparr>)
              \<and> timers w' (new_timeout env) = Some \<lparr>t_data = p, t_removed = 0\<rparr>
              \<and> trace w' = trace w @ [Debug ''Connectionless MTU size is %d'',
                                       Send (ch_fd c) [0x0a, 42, 2, 0, 2, 0]]
              \<and> audits w' = audits w"
      if s: "state a = AUDIT_STATE_MTU" "0 \<le> send_rc env"
      using data_callback_mtu [OF hp s(1) c, of "\<lambda>x. x\<lparr>mtu := 0, got_mtu := True\<rparr>"
          "[Debug ''Connectionless MTU size is %d'']"
          "a\<lparr>mtu := 0, got_mtu := True, timeout := new_timeout env,
                                      state := AUDIT_STATE_FEATURES\<rparr>"] h [OF l] s(2)
      by simp
    have f: "\<exists>w'. l2raw_data_callback env io_ch cond p w = Some (False, w')
              \<and> heap w' p = None \<and> audits w' = remove1 p (audits w)
              \<and> listeners w' = remove1 (requestor a, p) (listeners w)
              \<and> trace w' = trace w @ [Debug ''Extended feature mask is 0x%04x'']"
      if s: "state a = AUDIT_STATE_FEATURES"
      using data_callback_features [OF hp s c, of "[Debug ''Extended feature mask is 0x%04x'']"]
        h [OF l] by simp
    show "(state a = AUDIT_STATE_MTU \<and> 0 \<le> send_rc env \<longrightarrow>
           (\<exists>w'. l2raw_data_callback env io_ch cond p w = Some (True, w')
              \<and> heap w' p = Some (a\<lparr>mtu := 0, got_mtu := True, timeout := new_timeout env,
                                      state := AUDIT_STATE_FEATURES\<rparr>)
              \<and> timers w' (new_timeout env) = Some \<lparr>t_data = p, t_removed = 0\<rparr>
              \<and> trace w' = trace w @ [Debug ''Connectionless MTU size is %d'',
                                       Send (ch_fd c) [0x0a, 42, 2, 0, 2, 0]]
              \<and> audits w' = audits w))
      \<and> (state a = AUDIT_STATE_FEATURES \<longrightarrow>
           (\<exists>w'. l2raw_data_callback env io_ch cond p w = Some (False, w')
              \<and> heap w' p = None \<and> audits w' = remove1 p (audits w)
              \<and> listeners w' = remove1 (requestor a, p) (listeners w)
              \<and> trace w' = trace w @ [Debug ''Extended feature mask is 0x%04x'']))"
      using m f by blast
  qed
  show ?thesis by (rule conjI [OF 1 conjI [OF 2 conjI [OF 3 4]]])
qed

theorem C8_short_response_reads_zeros_witness:
  "length ([] :: byte list) \<le> 6
   \<and> recv_buf [] ! 7 = 0
   \<and> handle_mtu_response ex_audit (drop L2CAP_CMD_HDR_SIZE (recv_buf []))
       = (ex_audit\<lparr>mtu := 0, got_mtu := True\<rparr>, [Debug ''Connectionless MTU size is %d''])
   \<and> heap ex_world 100 = Some ex_audit \<and> state ex_audit = AUDIT_STATE_MTU
   \<and> recv_result (ex_io_env_mtu\<lparr>recv_result := Some []\<rparr>) = Some []
   \<and> (\<exists>w'. l2raw_data_callback (ex_io_env_mtu\<lparr>recv_result := Some []\<rparr>) 200 G_IO_IN 100 ex_world
          = Some (True, w')
        \<and> heap w' 100 = Some (ex_audit\<lparr>mtu := 0, got_mtu := True, timeout := 8,
                                         state := AUDIT_STATE_FEATURES\<rparr>)
        \<and> timers w' 8 = Some \<lparr>t_data = 100, t_removed = 0\<rparr>
        \<and> trace w' = trace ex_world @ [Debug ''Connectionless MTU size is %d'',
                                         Send 5 [0x0a, 42, 2, 0, 2, 0]]
        \<and> audits w' = [100])"
proof -
  let ?env = "ex_io_env_mtu\<lparr>recv_result := Some []\<rparr>"
  note t = C8_short_response_reads_zeros [of "[]" ex_audit ex_world 100 G_IO_IN 200
      "\<lparr>ch_fd = 5, ch_closes = 0, ch_unrefs = 0\<rparr>" ?env]
  have h: "length ([] :: byte list) \<le> 6 \<and> heap ex_world 100 = Some ex_audit
      \<and> G_IO_IN AND G_IO_NVAL = 0 \<and> G_IO_IN AND (G_IO_ERR OR G_IO_HUP) = 0
      \<and> channels ex_world 200 = Some \<lparr>ch_fd = 5, ch_closes = 0, ch_unrefs = 0\<rparr>
      \<and> recv_result ?env = Some []"
    by (simp add: ex_defs G_IO_IN_def G_IO_NVAL_def G_IO_ERR_def G_IO_HUP_def)
  have s: "state ex_audit = AUDIT_STATE_MTU \<and> 0 \<le> send_rc ?env"
    by (simp add: ex_defs ex_io_env_mtu_def)
  from t h s have 1: "\<exists>w'. l2raw_data_callback ?env 200 G_IO_IN 100 ex_world = Some (True, w')
              \<and> heap w' 100 = Some (ex_audit\<lparr>mtu := 0, got_mtu := True,
                   timeout := new_timeout ?env, state := AUDIT_STATE_FEATURES\<rparr>)
              \<and> timers w' (new_timeout ?env) = Some \<lparr>t_data = 100, t_removed = 0\<rparr>
              \<and> trace w' = trace ex_world @ [Debug ''Connectionless MTU size is %d'',
                   Send (ch_fd \<lparr>ch_fd = 5, ch_closes = 0, ch_unrefs = 0\<rparr>) [0x0a, 42, 2, 0, 2, 0]]
              \<and> audits w' = audits ex_world"
    by blast
  have a1: "\<exists>w'. l2raw_data_callback ?env 200 G_IO_IN 100 ex_world = Some (True, w')
        \<and> heap w' 100 = Some (ex_audit\<lparr>mtu := 0, got_mtu := True, timeout := 8,
                                         state := AUDIT_STATE_FEATURES\<rparr>)
        \<and> timers w' 8 = Some \<lparr>t_data = 100, t_removed = 0\<rparr>
        \<and> trace w' = trace ex_world @ [Debug ''Connectionless MTU size is %d'',
                                         Send 5 [0x0a, 42, 2, 0, 2, 0]]
        \<and> audits w' = [100]"
    using 1 by (simp add: ex_io_env_mtu_def ex_world_def)
  from t have 2: "recv_buf [] ! 7 = (0 :: byte)"
    and 3: "handle_mtu_response ex_audit (drop L2CAP_CMD_HDR_SIZE (recv_buf []))
       = (ex_audit\<lparr>mtu := 0, got_mtu := True\<rparr>, [Debug ''Connectionless MTU size is %d''])"
    by simp_all
  show ?thesis using h s a1 2 3 by simp
qed

subsection \<open>Sessions: what holds in every reachable world\<close>

lemma filter_at_most_one:
  "distinct xs \<Longrightarrow> (\<And>x y. x \<in> set xs \<Longrightarrow> y \<in> set xs \<Longrightarrow> P x \<Longrightarrow> P y \<Longrightarrow> x = y)
     \<Longrightarrow> length (filter P xs) \<le> 1"
proof (induction xs)
  case Nil
  then show ?case by simp
next
  case (Cons x xs)
  have ih: "length (filter P xs) \<le> 1" using Cons by auto
  show ?case
  proof (cases "P x")
    case False
    then show ?thesis using ih by simp
  next
    case True
    have "filter P xs = []"
    proof (rule ccontr)
      assume "filter P xs \<noteq> []"
      then obtain y where y: "y \<in> set xs" "P y" by (auto simp: filter_empty_conv)
      then have "x = y" using Cons.prems(2) [of x y] True by simp
      then show False using y Cons.prems(1) by simp
    qed
    then show ?thesis using True by simp
  qed
qed

lemma in_progress_true:
  "(\<And>l. l \<in> set ls \<Longrightarrow> h l \<noteq> None) \<Longrightarrow>
     audit_in_progress_loop h ls
       = Some (\<exists>l\<in>set ls. case h l of None \<Rightarrow> False | Some a \<Rightarrow> io a \<noteq> None)"
  by (induction ls) (auto split: option.splits)

lemma in_progress_held:
  assumes "inv_registry w" and "p \<in> set (audits w)" and "holds_connection w p"
  shows "audit_in_progress w = Some True"
proof -
  have "\<And>l. l \<in> set (audits w) \<Longrightarrow> heap w l \<noteq> None"
    using registry_mem [OF assms(1)] by auto
  from in_progress_true [OF this] assms(2,3) show ?thesis
    by (auto simp: audit_in_progress_def holds_connection_def)
qed

lemma start_while_held:
  assumes inv: "inv_registry w" and fr: "start_env_fresh env w"
    and st: "audit_remote_device ca s2b msg d env w = Some (r, w')"
    and q: "q \<in> set (audits w)" "holds_connection w q"
  shows "same_registry w w'
    \<or> (\<exists>p a. started_rel p a w w' \<and> io a = None \<and> io_id a = 0 \<and> r = Method_return)"
proof -
  have g: "audit_in_progress w = Some True" using in_progress_held [OF inv q] .
  from step_start [OF inv fr st] g show ?thesis by auto
qed

lemma start_return:
  assumes "audit_remote_device ca s2b msg d env w = Some (Method_return, w')"
  shows "\<exists>p. audits w' = audits w @ [p]"
  using assms
  by (auto simp: audit_remote_device_def Let_def audit_new_def prim_defs
        split: option.splits if_splits bool.splits)

text \<open>C3: in every world reached from the empty registry by start, cancel, I/O, timeout
  and requestor-exit events, at most one registered record holds a channel; and a start
  that finds a registered record holding a channel opens no channel and adds no watch:
  the records that hold a channel are the same before and after.\<close>

theorem C3_single_flight:
  assumes "run ca s2b init_world es = Some w"
  shows "length (filter (holds_connection w) (audits w)) \<le> 1
    \<and> (\<forall>msg d env r w'.
          start_env_fresh env w \<and> audit_remote_device ca s2b msg d env w = Some (r, w')
          \<and> (\<exists>p\<in>set (audits w). holds_connection w p)
          \<longrightarrow> channels w' = channels w \<and> watches w' = watches w
              \<and> filter (holds_connection w') (audits w') = filter (holds_connection w) (audits w))"
proof (rule conjI)
  note i = reachable_registry [OF assms]
  show "length (filter (holds_connection w) (audits w)) \<le> 1"
  proof (rule filter_at_most_one [OF registry_distinct [OF i(1)]])
    fix x y assume "x \<in> set (audits w)" "y \<in> set (audits w)"
      and "holds_connection w x" "holds_connection w y"
    then obtain a b where "heap w x = Some a" "io a \<noteq> None" "heap w y = Some b" "io b \<noteq> None"
      by (auto simp: holds_connection_def split: option.splits)
    then show "x = y" using single_unique [OF i(2), of x a y b] by auto
  qed
next
  note i = reachable_registry [OF assms]
  note inv = i(1)
  show "\<forall>msg d env r w'.
          start_env_fresh env w \<and> audit_remote_device ca s2b msg d env w = Some (r, w')
          \<and> (\<exists>p\<in>set (audits w). holds_connection w p)
          \<longrightarrow> channels w' = channels w \<and> watches w' = watches w
              \<and> filter (holds_connection w') (audits w') = filter (holds_connection w) (audits w)"
  proof (intro allI impI)
    fix msg d env r w'
    assume h: "start_env_fresh env w \<and> audit_remote_device ca s2b msg d env w = Some (r, w')
          \<and> (\<exists>p\<in>set (audits w). holds_connection w p)"
    then obtain q where q: "q \<in> set (audits w)" "holds_connection w q" by blast
    from h have fr: "start_env_fresh env w"
      and st: "audit_remote_device ca s2b msg d env w = Some (r, w')" by simp_all
    from start_while_held [OF inv fr st q]
    show "channels w' = channels w \<and> watches w' = watches w
              \<and> filter (holds_connection w') (audits w') = filter (holds_connection w) (audits w)"
      (is ?G)
    proof
      assume sr: "same_registry w w'"
      then have "holds_connection w' = holds_connection w"
        by (intro ext) (simp add: same_registry_def holds_connection_def)
      then show ?G using sr by (simp add: same_registry_def)
    next
      assume "\<exists>p a. started_rel p a w w' \<and> io a = None \<and> io_id a = 0 \<and> r = Method_return"
      then obtain p a where s: "started_rel p a w w'" and io: "io a = None" by auto
      then have f: "heap w p = None" "heap w' = (heap w)(p \<mapsto> a)" "audits w' = audits w @ [p]"
        "channels w' = channels w" "watches w' = watches w"
        by (simp_all add: started_rel_def)
      have pn: "p \<notin> set (audits w)" using registry_fresh [OF i(1) f(1)] .
      have "filter (holds_connection w') (audits w) = filter (holds_connection w) (audits w)"
        using pn f(2) by (intro filter_cong) (auto simp: holds_connection_def)
      moreover have "\<not> holds_connection w' p" using f(2) io by (simp add: holds_connection_def)
      ultimately show ?G using f by simp
    qed
  qed
qed

theorem C3_single_flight_witness:
  "run ex_check_address ex_str2ba init_world [ex_start1] = Some ex_w1
   \<and> filter (holds_connection ex_w1) (audits ex_w1) = [100]
   \<and> start_env_fresh ex_env2 ex_w1
   \<and> audit_remote_device ex_check_address ex_str2ba ex_msg_other ex_idle ex_env2 ex_w1
       = Some (Method_return, ex_w2)
   \<and> channels ex_w2 = channels ex_w1 \<and> watches ex_w2 = watches ex_w1
   \<and> filter (holds_connection ex_w2) (audits ex_w2) = [100]"
proof -
  have f: "filter (holds_connection ex_w1) (audits ex_w1) = [100]"
    by (simp add: ex_defs holds_connection_def)
  have e: "start_env_fresh ex_env2 ex_w1"
    by (simp add: ex_defs start_env_fresh_def)
  have s: "audit_remote_device ex_check_address ex_str2ba ex_msg_other ex_idle ex_env2 ex_w1
       = Some (Method_return, ex_w2)"
    by (simp add: ex_defs run_defs prim_defs)
  have h: "\<exists>p\<in>set (audits ex_w1). holds_connection ex_w1 p"
    by (simp add: ex_defs holds_connection_def)
  from C3_single_flight [OF ex_run1] e s h
  have "channels ex_w2 = channels ex_w1 \<and> watches ex_w2 = watches ex_w1
     \<and> filter (holds_connection ex_w2) (audits ex_w2) = filter (holds_connection ex_w1) (audits ex_w1)"
    by blast
  then show ?thesis using ex_run1 f e s by simp
qed

subsection \<open>Teardown\<close>

lemma teardown_torn_down:
  assumes inv: "world_inv w" and td: "teardown_rel direct p a w w'"
  shows "torn_down p a w'"
proof -
  note i = world_invD [OF inv]
  note i' = world_invD [OF teardown_inv [OF inv td]]
  from td have hp: "heap w p = Some a"
    and H: "heap w' = (heap w)(p := None)"
    and A: "audits w' = remove1 p (audits w)"
    and T: "timers w' = (if timeout a = 0 then timers w
                         else timers (timeout_released (timeout a) w))"
    and C: "channels w' = (case io a of
                        None \<Rightarrow> channels w
                      | Some ch \<Rightarrow>
                          if direct then channels (g_io_channel_unref ch (g_io_channel_close ch w))
                          else channels (g_io_channel_close ch w))"
    by (simp_all add: teardown_rel_def)
  have 1: "heap w' p = None" using H by simp
  have 2: "p \<notin> set (audits w')" using A registry_distinct [OF i(1)] by simp
  have 3: "p \<notin> snd ` set (listeners w')"
    using 2 listener_map [OF i'(7)] by (metis set_map)
  have 4: "map_option fst (channel_counts w' ch) = Some 1" if io: "io a = Some ch" for ch
  proof -
    from audit_chan [OF i(3) hp io] obtain c where "channels w ch = Some c" "ch_closes c = 0"
      by auto
    then show ?thesis
      using C io by (cases direct) (simp_all add: channel_counts_def close_same unref_same)
  qed
  have 5: "timeout_count w' (timeout a) = Some 1" if nz: "timeout a \<noteq> 0"
  proof -
    from audit_timer [OF i(3) hp nz] obtain t where "timers w (timeout a) = Some t"
      "t_removed t = 0" by auto
    then show ?thesis using T nz by (simp add: timeout_count_def timeout_released_same)
  qed
  show ?thesis
    unfolding torn_down_def using 1 2 3 4 5 by (cases "io a") auto
qed

subsection \<open>Timeouts\<close>

lemma wait_state_queued:
  assumes "io a = None"
  shows "wait_state w a = Some Queued"
  using assms by (simp add: wait_state_def)

lemma wait_state_live:
  assumes ia: "inv_audit w" and hp: "heap w p = Some a"
  shows "if timeout a = 0
         then wait_state w a = Some Queued \<or> wait_state w a = Some AwaitingConnect
         else wait_state w a = Some AwaitingMtuInfo \<or> wait_state w a = Some AwaitingFeatureInfo"
proof (cases "io a")
  case None
  then show ?thesis using audit_queued [OF ia hp None] by (simp add: wait_state_def)
next
  case (Some ch)
  from audit_watch [OF ia hp Some] obtain wt where wt: "watches w (io_id a) = Some wt"
    "w_func wt = CB_data_callback \<longleftrightarrow> timeout a \<noteq> 0" by auto
  show ?thesis
  proof (cases "timeout a = 0")
    case True
    then have "w_func wt = CB_connect_complete" using wt(2) by (cases "w_func wt") auto
    then show ?thesis using True Some wt(1) by (simp add: wait_state_def)
  next
    case False
    then have "w_func wt = CB_data_callback" using wt(2) by simp
    then show ?thesis using False Some wt(1) by (cases "state a") (simp_all add: wait_state_def)
  qed
qed

lemma timer_active_iff:
  assumes ia: "inv_audit w" and hp: "heap w p = Some a"
  shows "timer_active w p a \<longleftrightarrow> timeout a \<noteq> 0"
proof (cases "timeout a = 0")
  case True
  then show ?thesis by (simp add: timer_active_def split: option.splits)
next
  case False
  from audit_timer [OF ia hp False] show ?thesis using False by (auto simp: timer_active_def)
qed

lemma no_timer_for:
  assumes it: "inv_timer w" and hp: "heap w p = Some a" and z: "timeout a = 0"
    and t: "timers w tid = Some t" "t_removed t = 0"
  shows "t_data t \<noteq> p"
proof
  assume "t_data t = p"
  with timer_active [OF it t] hp have "timeout a = tid" by auto
  then have "tid = 0" using z by simp
  then show False using t(1) timer_zero [OF it] by simp
qed

lemma timeout_fires:
  assumes inv: "world_inv w" and t: "timers w tid = Some t" "t_removed t = 0"
  shows "\<exists>a w'. heap w (t_data t) = Some a \<and> timeout a = tid \<and> tid \<noteq> 0
     \<and> timeout_dispatch tid w = Some w' \<and> teardown_rel False (t_data t) a w w'"
proof -
  note i = world_invD [OF inv]
  from timer_active [OF i(5) t] obtain a where a: "heap w (t_data t) = Some a" "timeout a = tid"
    by auto
  obtain w' where w': "timeout_dispatch tid w = Some w'"
    using t a by (simp add: timeout_dispatch_def l2raw_input_timer_def Let_def)
  from step_timer [OF inv w'] obtain p b where b: "teardown_rel False p b w w'"
    "timeout b = tid" "tid \<noteq> 0" by auto
  then have hb: "heap w p = Some b" by (simp add: teardown_rel_def)
  from audit_timer [OF i(3) hb] b(2,3) t(1) have "t_data t = p" by auto
  then have "b = a" using hb a(1) by simp
  then show ?thesis using a b w' \<open>t_data t = p\<close> by auto
qed

text \<open>C4 as stated does not hold: after \<open>AuditRemoteDevice\<close> has started the non-blocking
  connect, the record has a channel and waits in the connect callback, yet its \<open>timeout\<close> is
  0 and no timeout is registered at all.\<close>

theorem C4_connecting_without_timer_counterexample:
  "run ex_check_address ex_str2ba init_world [ex_start1] = Some ex_w1
   \<and> heap ex_w1 100 = Some ex_audit0
   \<and> io ex_audit0 = Some 200
   \<and> wait_state ex_w1 ex_audit0 = Some AwaitingConnect
   \<and> timeout ex_audit0 = 0
   \<and> \<not> timer_active ex_w1 100 ex_audit0
   \<and> dom (timers ex_w1) = {}"
  using ex_run1 by (simp add: ex_defs wait_state_def timer_active_def)

text \<open>C4, amended: \<open>audit_remote_device\<close> starts no timer: in every reachable world a start
  that is answered with the method return leaves the timeouts as they are, and the new
  record has \<open>timeout = 0\<close>, also when a socket was opened for it and it waits for the
  connect to complete. As long as the main loop has reported \<open>G_IO_NVAL\<close> to a watch exactly
  when its channel was closed, in every reachable world the \<open>timeout\<close> of a live record is set
  exactly when the record waits for an info response (the MTU or the feature response), and
  then it names an active timeout of this record; a queued record and a record whose
  connect is in progress have \<open>timeout = 0\<close> and no active timeout refers to them, so a
  connect that never completes is never timed out. Every active timeout then belongs to a
  record that waits for an info response; its expiry is handled (the handler does not
  fail) and tears the record down: the record is freed and out of the registry, its
  listener removed, its channel closed and the timeout released.\<close>

theorem C4_timeout_iff_info_wait:
  assumes "run ca s2b init_world es = Some w"
  shows "(\<forall>msg d env w'.
            start_env_fresh env w
            \<and> audit_remote_device ca s2b msg d env w = Some (Method_return, w')
            \<longrightarrow> timers w' = timers w
                \<and> (\<exists>p a. heap w p = None \<and> heap w' = (heap w)(p \<mapsto> a) \<and> timeout a = 0))
     \<and> (nval_run ca s2b init_world es \<longrightarrow>
          (\<forall>p a. heap w p = Some a \<longrightarrow>
              (timeout a \<noteq> 0 \<longleftrightarrow> wait_state w a = Some AwaitingMtuInfo
                                   \<or> wait_state w a = Some AwaitingFeatureInfo)
            \<and> (timeout a = 0 \<longleftrightarrow> wait_state w a = Some Queued
                                   \<or> wait_state w a = Some AwaitingConnect)
            \<and> (timer_active w p a \<longleftrightarrow> timeout a \<noteq> 0)
            \<and> (timeout a = 0 \<longrightarrow>
                  (\<forall>tid t. timers w tid = Some t \<and> t_removed t = 0 \<longrightarrow> t_data t \<noteq> p)))
        \<and> (\<forall>tid t. timers w tid = Some t \<and> t_removed t = 0 \<longrightarrow>
              (\<exists>a w'. heap w (t_data t) = Some a \<and> timeout a = tid
                  \<and> (wait_state w a = Some AwaitingMtuInfo
                       \<or> wait_state w a = Some AwaitingFeatureInfo)
                  \<and> step ca s2b w (Timeout_expired tid) = Some w'
                  \<and> torn_down (t_data t) a w')))"
proof -
  note r = reachable_registry [OF assms]
  have 0: "\<forall>msg d env w'.
            start_env_fresh env w
            \<and> audit_remote_device ca s2b msg d env w = Some (Method_return, w')
            \<longrightarrow> timers w' = timers w
                \<and> (\<exists>p a. heap w p = None \<and> heap w' = (heap w)(p \<mapsto> a) \<and> timeout a = 0)"
  proof (intro allI impI)
    fix msg d env w'
    assume h: "start_env_fresh env w
            \<and> audit_remote_device ca s2b msg d env w = Some (Method_return, w')"
    then have fr: "start_env_fresh env w"
      and st: "audit_remote_device ca s2b msg d env w = Some (Method_return, w')" by simp_all
    from start_return [OF st] have "audits w' \<noteq> audits w" by auto
    then have "\<not> same_registry w w'" by (simp add: same_registry_def)
    with step_start [OF r(1) fr st] obtain p a where s: "started_rel p a w w'" by blast
    then have "timers w' = timers w" "heap w p = None \<and> heap w' = (heap w)(p \<mapsto> a) \<and> timeout a = 0"
      by (simp_all add: started_rel_def)
    then show "timers w' = timers w
                \<and> (\<exists>p a. heap w p = None \<and> heap w' = (heap w)(p \<mapsto> a) \<and> timeout a = 0)"
      by blast
  qed
  have n: "(\<forall>p a. heap w p = Some a \<longrightarrow>
              (timeout a \<noteq> 0 \<longleftrightarrow> wait_state w a = Some AwaitingMtuInfo
                                   \<or> wait_state w a = Some AwaitingFeatureInfo)
            \<and> (timeout a = 0 \<longleftrightarrow> wait_state w a = Some Queued
                                   \<or> wait_state w a = Some AwaitingConnect)
            \<and> (timer_active w p a \<longleftrightarrow> timeout a \<noteq> 0)
            \<and> (timeout a = 0 \<longrightarrow>
                  (\<forall>tid t. timers w tid = Some t \<and> t_removed t = 0 \<longrightarrow> t_data t \<noteq> p)))
        \<and> (\<forall>tid t. timers w tid = Some t \<and> t_removed t = 0 \<longrightarrow>
              (\<exists>a w'. heap w (t_data t) = Some a \<and> timeout a = tid
                  \<and> (wait_state w a = Some AwaitingMtuInfo
                       \<or> wait_state w a = Some AwaitingFeatureInfo)
                  \<and> step ca s2b w (Timeout_expired tid) = Some w'
                  \<and> torn_down (t_data t) a w'))"
    if nr: "nval_run ca s2b init_world es"
  proof -
    note inv = reachable_inv [OF assms nr]
    note i = world_invD [OF inv]
    have 1: "\<forall>p a. heap w p = Some a \<longrightarrow>
              (timeout a \<noteq> 0 \<longleftrightarrow> wait_state w a = Some AwaitingMtuInfo
                                   \<or> wait_state w a = Some AwaitingFeatureInfo)
            \<and> (timeout a = 0 \<longleftrightarrow> wait_state w a = Some Queued
                                   \<or> wait_state w a = Some AwaitingConnect)
            \<and> (timer_active w p a \<longleftrightarrow> timeout a \<noteq> 0)
            \<and> (timeout a = 0 \<longrightarrow>
                  (\<forall>tid t. timers w tid = Some t \<and> t_removed t = 0 \<longrightarrow> t_data t \<noteq> p))"
    proof (intro allI impI)
      fix p a assume hp: "heap w p = Some a"
      have a: "timeout a \<noteq> 0 \<longleftrightarrow> wait_state w a = Some AwaitingMtuInfo
                                   \<or> wait_state w a = Some AwaitingFeatureInfo"
        using wait_state_live [OF i(3) hp] by (cases "timeout a = 0") auto
      have b: "timeout a = 0 \<longleftrightarrow> wait_state w a = Some Queued
                                   \<or> wait_state w a = Some AwaitingConnect"
        using wait_state_live [OF i(3) hp] by (cases "timeout a = 0") auto
      have c: "timer_active w p a \<longleftrightarrow> timeout a \<noteq> 0" using timer_active_iff [OF i(3) hp] .
      have d: "timeout a = 0 \<longrightarrow>
                  (\<forall>tid t. timers w tid = Some t \<and> t_removed t = 0 \<longrightarrow> t_data t \<noteq> p)"
        using no_timer_for [OF i(5) hp] by blast
      show "(timeout a \<noteq> 0 \<longleftrightarrow> wait_state w a = Some AwaitingMtuInfo
                                   \<or> wait_state w a = Some AwaitingFeatureInfo)
            \<and> (timeout a = 0 \<longleftrightarrow> wait_state w a = Some Queued
                                   \<or> wait_state w a = Some AwaitingConnect)
            \<and> (timer_active w p a \<longleftrightarrow> timeout a \<noteq> 0)
            \<and> (timeout a = 0 \<longrightarrow>
                  (\<forall>tid t. timers w tid = Some t \<and> t_removed t = 0 \<longrightarrow> t_data t \<noteq> p))"
        by (rule conjI [OF a conjI [OF b conjI [OF c d]]])
    qed
    have 2: "\<forall>tid t. timers w tid = Some t \<and> t_removed t = 0 \<longrightarrow>
              (\<exists>a w'. heap w (t_data t) = Some a \<and> timeout a = tid
                  \<and> (wait_state w a = Some AwaitingMtuInfo
                       \<or> wait_state w a = Some AwaitingFeatureInfo)
                  \<and> step ca s2b w (Timeout_expired tid) = Some w'
                  \<and> torn_down (t_data t) a w')"
    proof (intro allI impI)
      fix tid t assume "timers w tid = Some t \<and> t_removed t = 0"
      then have t: "timers w tid = Some t" "t_removed t = 0" by simp_all
      from timeout_fires [OF inv t] obtain a w' where a: "heap w (t_data t) = Some a"
        "timeout a = tid" "tid \<noteq> 0" "timeout_dispatch tid w = Some w'"
        "teardown_rel False (t_data t) a w w'" by blast
      have ws: "wait_state w a = Some AwaitingMtuInfo \<or> wait_state w a = Some AwaitingFeatureInfo"
        using wait_state_live [OF i(3) a(1)] a(2,3) by auto
      have td: "torn_down (t_data t) a w'" using teardown_torn_down [OF inv a(5)] .
      show "\<exists>a w'. heap w (t_data t) = Some a \<and> timeout a = tid
                  \<and> (wait_state w a = Some AwaitingMtuInfo
                       \<or> wait_state w a = Some AwaitingFeatureInfo)
                  \<and> step ca s2b w (Timeout_expired tid) = Some w'
                  \<and> torn_down (t_data t) a w'"
        using a(1,2,4) ws td by (intro exI [of _ a] exI [of _ w']) simp
    qed
    show ?thesis by (rule conjI [OF 1 2])
  qed
  show ?thesis using 0 n by blast
qed

theorem C4_timeout_iff_info_wait_witness:
  "run ex_check_address ex_str2ba init_world [ex_start1, ex_connected] = Some ex_world
   \<and> nval_run ex_check_address ex_str2ba init_world [ex_start1, ex_connected]
   \<and> heap ex_world 100 = Some ex_audit
   \<and> timeout ex_audit = 7
   \<and> wait_state ex_world ex_audit = Some AwaitingMtuInfo
   \<and> timer_active ex_world 100 ex_audit
   \<and> step ex_check_address ex_str2ba ex_world (Timeout_expired 7) = Some ex_w_expired
   \<and> torn_down 100 ex_audit ex_w_expired
   \<and> run ex_check_address ex_str2ba init_world [] = Some init_world
   \<and> start_env_fresh ex_env1 init_world
   \<and> audit_remote_device ex_check_address ex_str2ba ex_msg ex_idle ex_env1 init_world
       = Some (Method_return, ex_w1)
   \<and> timers ex_w1 = timers init_world
   \<and> heap ex_w1 = (heap init_world)(100 \<mapsto> ex_audit0) \<and> timeout ex_audit0 = 0"
proof -
  have h: "heap ex_world 100 = Some ex_audit" "timeout ex_audit = 7"
    by (simp_all add: ex_defs)
  have t: "timers ex_world 7 = Some \<lparr>t_data = 100, t_removed = 0\<rparr>
      \<and> t_removed \<lparr>t_data = 100, t_removed = 0\<rparr> = 0"
    by (simp add: ex_defs)
  have s: "step ex_check_address ex_str2ba ex_world (Timeout_expired 7) = Some ex_w_expired"
    using ex_step_expired by (simp add: ex_timeout_def)
  note c = C4_timeout_iff_info_wait [OF ex_run3, THEN conjunct2, rule_format, OF ex_nval_run3]
  from c [THEN conjunct1, rule_format, OF h(1)] h(2)
  have 1: "wait_state ex_world ex_audit = Some AwaitingMtuInfo
      \<or> wait_state ex_world ex_audit = Some AwaitingFeatureInfo"
    and 2: "timer_active ex_world 100 ex_audit" by simp_all
  have 3: "wait_state ex_world ex_audit = Some AwaitingMtuInfo"
    using 1 by (simp add: ex_defs wait_state_def)
  from c [THEN conjunct2, rule_format, OF t] s h(1)
  have 4: "torn_down 100 ex_audit ex_w_expired" by auto
  have r0: "run ex_check_address ex_str2ba init_world [] = Some init_world" by simp
  have e: "start_env_fresh ex_env1 init_world"
    by (simp add: ex_defs start_env_fresh_def)
  have a: "audit_remote_device ex_check_address ex_str2ba ex_msg ex_idle ex_env1 init_world
       = Some (Method_return, ex_w1)"
    by (simp add: ex_defs run_defs prim_defs)
  from C4_timeout_iff_info_wait [OF r0, THEN conjunct1, rule_format, OF conjI [OF e a]]
  have 5: "timers ex_w1 = timers init_world" by simp
  have 6: "heap ex_w1 = (heap init_world)(100 \<mapsto> ex_audit0) \<and> timeout ex_audit0 = 0"
    by (simp add: ex_defs)
  show ?thesis using ex_run3 ex_nval_run3 h 2 3 s 4 r0 e a 5 6 by simp
qed

subsection \<open>No handler touches a freed record\<close>

text \<open>In a world reached by a run with \<open>nval_run\<close>, every event that the main loop can
  deliver with the condition that \<open>nval_exact\<close> allows is handled: no handler dereferences
  a freed record or an unknown channel.\<close>

lemma slist_find_defined:
  "(\<And>l. l \<in> set ls \<Longrightarrow> h l \<noteq> None) \<Longrightarrow> slist_find_audit h ls b \<noteq> None"
  by (induction ls) (auto split: option.splits)

lemma start_defined:
  assumes inv: "world_inv w" and fr: "start_env_fresh env w"
  shows "audit_remote_device ca s2b msg d env w \<noteq> None"
proof -
  note i = world_invD [OF inv]
  have live: "\<And>l. l \<in> set (audits w) \<Longrightarrow> heap w l \<noteq> None"
    using registry_mem [OF i(1)] by auto
  have ip: "audit_in_progress (store p a0 (emit e w)) \<noteq> None" if "malloc_audit env = Some p"
    for p a0 e
  proof -
    have "heap w p = None" using fr that by (simp add: start_env_fresh_def)
    then have "p \<notin> set (audits w)" using registry_fresh [OF i(1)] by simp
    then have "audit_in_progress (store p a0 (emit e w)) = audit_in_progress w"
      by (simp add: audit_in_progress_def store_def emit_def in_progress_upd)
    then show ?thesis using in_progress_true [OF live] by (simp add: audit_in_progress_def)
  qed
  show ?thesis
  proof (cases "malloc_audit env")
    case None
    then show ?thesis
      by (simp add: audit_remote_device_def Let_def audit_new_def split: option.splits)
  next
    case (Some p)
    show ?thesis
    proof (cases "msg_address msg")
      case None
      then show ?thesis by (simp add: audit_remote_device_def)
    next
      case s: (Some s)
      from ip [OF Some] obtain g where g: "audit_in_progress
          (store p \<lparr>addr = s2b s, adapter_path = take (PATH_MAX - 1) (msg_path msg),
                    requestor = msg_sender msg, io = None, io_id = 0, timeout = 0,
                    state = AUDIT_STATE_MTU, got_mtu = False, got_mask = False, mtu = 0,
                    mask = 0\<rparr> (emit Pending_remote_name_cancel w)) = Some g"
        by blast
      have h: "heap (store p a0 w0) p = Some a0" for a0 w0 by (simp add: store_def)
      show ?thesis
        using Some s g h
        by (cases g) (simp_all add: audit_remote_device_def Let_def audit_new_def)
    qed
  qed
qed

lemma cancel_defined:
  assumes inv: "world_inv w"
  shows "cancel_audit_remote_device ca s2b msg reply_ok w \<noteq> None"
proof -
  note i = world_invD [OF inv]
  have live: "\<And>l. l \<in> set (audits w) \<Longrightarrow> heap w l \<noteq> None"
    using registry_mem [OF i(1)] by auto
  have f: "slist_find_audit (heap w) (audits w) b \<noteq> None" for b
    using slist_find_defined [OF live] by simp
  have g: "heap w p \<noteq> None" if "slist_find_audit (heap w) (audits w) b = Some (Some p)" for b p
    using slist_find_some [OF that] by auto
  show ?thesis
  proof (cases "msg_address msg")
    case None
    then show ?thesis by (simp add: cancel_audit_remote_device_def)
  next
    case (Some s)
    from f [of "s2b s"] obtain r where r: "slist_find_audit (heap w) (audits w) (s2b s) = Some r"
      by blast
    show ?thesis
    proof (cases r)
      case None
      then show ?thesis using Some r by (simp add: cancel_audit_remote_device_def)
    next
      case p: (Some p)
      from g [of "s2b s" p] r p obtain a where "heap w p = Some a" by blast
      then show ?thesis
        using Some r p by (simp add: cancel_audit_remote_device_def Let_def)
    qed
  qed
qed

lemma io_defined:
  assumes inv: "world_inv w" and d: "deliverable w (Io_ready wid cond env)"
    and ne: "nval_exact w (Io_ready wid cond env)"
  shows "io_dispatch wid cond env w \<noteq> None"
proof -
  note i = world_invD [OF inv]
  from d obtain wt where wt: "watches w wid = Some wt" "w_removed wt = 0"
    and fr: "io_env_fresh env w"
    by (auto split: option.splits)
  from watch_active [OF i(4) wt] obtain c where c: "channels w (w_chan wt) = Some c" by auto
  have nv: "(cond AND G_IO_NVAL \<noteq> 0) = (ch_closes c \<noteq> 0)"
    using ne wt(1) c by simp
  have cb: "run_callback (w_func wt) env (w_chan wt) cond (w_data wt) w \<noteq> None"
  proof (cases "cond AND G_IO_NVAL \<noteq> 0")
    case True
    then show ?thesis
      by (cases "w_func wt")
        (simp_all add: run_callback_def l2raw_connect_complete_def l2raw_data_callback_def)
  next
    case False
    then have cl: "ch_closes c = 0" using nv by simp
    from watch_active [OF i(4) wt] c cl obtain a where a: "heap w (w_data wt) = Some a"
      "io a = Some (w_chan wt)" by auto
    show ?thesis
    proof (cases "w_func wt")
      case CB_connect_complete
      then show ?thesis
        using False a c
        by (auto simp: run_callback_def l2raw_connect_complete_def Let_def)
    next
      case CB_data_callback
      have "channels (snd (clear_timeout (w_data wt) a w)) (w_chan wt) = Some c"
        using c by (simp add: clear_timeout_def prim_defs split: option.splits)
      then show ?thesis
        using CB_data_callback False a
        by (auto simp: run_callback_def l2raw_data_callback_def
              split: prod.splits option.splits audit_state.splits)
    qed
  qed
  then show ?thesis
    using wt fr by (auto simp: io_dispatch_def)
qed

lemma exit_defined:
  assumes inv: "world_inv w" and d: "(name, p) \<in> set (listeners w)"
  shows "name_dispatch name p w \<noteq> None"
proof -
  note i = world_invD [OF inv]
  from listener_live [OF i(7) d] obtain a where "heap w p = Some a" by auto
  then show ?thesis using d by (simp add: name_dispatch_def audit_requestor_exited_def Let_def)
qed

lemma step_defined:
  assumes inv: "world_inv w" and d: "deliverable w e" and ne: "nval_exact w e"
  shows "\<exists>w'. step ca s2b w e = Some w'"
proof (cases e)
  case (AuditRemoteDevice msg dd env)
  then show ?thesis using start_defined [OF inv, of env ca s2b msg dd] d by auto
next
  case (CancelAuditRemoteDevice msg reply_ok)
  then show ?thesis using cancel_defined [OF inv, of ca s2b msg reply_ok] by auto
next
  case (Io_ready wid cond env)
  then show ?thesis using io_defined [OF inv, of wid cond env] d ne by auto
next
  case (Timeout_expired tid)
  then obtain t where "timers w tid = Some t" "t_removed t = 0"
    using d by (auto split: option.splits)
  from timeout_fires [OF inv this] show ?thesis using Timeout_expired by auto
next
  case (Requestor_exited name p)
  then show ?thesis using exit_defined [OF inv, of name p] d by auto
qed

lemma reachable_step_defined:
  assumes "run ca s2b init_world es = Some w" and "nval_run ca s2b init_world es"
    and "deliverable w e" and "nval_exact w e"
  shows "\<exists>w'. step ca s2b w e = Some w'"
  using step_defined [OF reachable_inv [OF assms(1,2)] assms(3,4)] .

subsection \<open>Queued records\<close>

text \<open>Along a run with \<open>nval_run\<close> a record without channel is left exactly as it is by
  every event, unless the event is a cancel or a requestor exit that tears it down
  (\<open>queued_step\<close>, \<open>queued_run\<close>). In every reachable world, whatever the conditions that
  watches are dispatched with, no event gives a channel to a record that has none
  (\<open>queued_no_channel\<close>).\<close>

lemma queued_step:
  assumes inv: "world_inv w" and hp: "heap w p = Some a" and q: "io a = None"
    and ne: "nval_exact w e" and st: "step ca s2b w e = Some w'"
  shows "heap w' p = Some a \<or> (cancel_or_exit e \<and> torn_down p a w')"
proof -
  have td: "heap w' p = Some a \<or> torn_down p a w'" if "teardown_rel direct r b w w'"
    for direct r b
  proof (cases "r = p")
    case True
    then have "b = a" using that hp by (simp add: teardown_rel_def)
    then show ?thesis using teardown_torn_down [OF inv that] True by simp
  next
    case False
    then show ?thesis using that hp by (simp add: teardown_rel_def)
  qed
  have td_io: "heap w' p = Some a" if "teardown_rel direct r b w w'" "io b \<noteq> None"
    for direct r b
  proof -
    have "r \<noteq> p" using that hp q by (auto simp: teardown_rel_def)
    then show ?thesis using that hp by (simp add: teardown_rel_def)
  qed
  show ?thesis
  proof (cases e)
    case (AuditRemoteDevice msg d env)
    then obtain r where "start_env_fresh env w"
      "audit_remote_device ca s2b msg d env w = Some (r, w')"
      using st by (auto split: if_splits)
    from step_start [OF world_invD(1) [OF inv] this] have "heap w' p = Some a"
    proof
      assume "same_registry w w'"
      then show ?thesis using hp by (simp add: same_registry_def)
    next
      assume "\<exists>pa aa s. started_rel pa aa w w' \<and> requestor aa = msg_sender msg
          \<and> msg_address msg = Some s \<and> addr aa = s2b s \<and> r = Method_return
          \<and> (io aa = None \<longleftrightarrow> audit_in_progress w = Some True)
          \<and> (io aa = None \<longrightarrow> io_id aa = 0)"
      then obtain r b where "started_rel r b w w'" by blast
      then have "heap w r = None" "heap w' = (heap w)(r \<mapsto> b)" by (simp_all add: started_rel_def)
      then show ?thesis using hp by auto
    qed
    then show ?thesis ..
  next
    case (CancelAuditRemoteDevice msg reply_ok)
    then obtain r where "cancel_audit_remote_device ca s2b msg reply_ok w = Some (r, w')"
      using st by auto
    from step_cancel [OF this] have "heap w' p = Some a \<or> torn_down p a w'"
    proof
      assume "same_registry w w'"
      then show ?thesis using hp by (simp add: same_registry_def)
    next
      assume "\<exists>pa aa s. teardown_rel False pa aa w w' \<and> pa \<in> set (audits w)
          \<and> requestor aa = msg_sender msg \<and> msg_address msg = Some s \<and> addr aa = s2b s"
      then obtain r b where "teardown_rel False r b w w'" by blast
      from td [OF this] show ?thesis .
    qed
    then show ?thesis using CancelAuditRemoteDevice by auto
  next
    case (Io_ready wid cond env)
    then have "nval_exact w (Io_ready wid cond env)"
      and "io_dispatch wid cond env w = Some w'" using st ne by simp_all
    from step_io [OF inv this] have "heap w' p = Some a"
    proof
      assume "nval_rel wid w w'"
      then show ?thesis using hp by (simp add: nval_rel_def)
    next
      assume "\<exists>pa aa. heap w pa = Some aa \<and> io aa \<noteq> None \<and> io_id aa = wid
          \<and> (teardown_rel True pa aa w w' \<or> connected_rel pa aa w w' \<or> mtu_rel pa aa w w')"
      then obtain r b where b: "heap w r = Some b" "io b \<noteq> None"
        and c: "teardown_rel True r b w w' \<or> connected_rel r b w w' \<or> mtu_rel r b w w'"
        by blast
      have rp: "r \<noteq> p" using b hp q by auto
      from c show ?thesis
      proof (elim disjE)
        assume "teardown_rel True r b w w'"
        from td_io [OF this b(2)] show ?thesis .
      next
        assume "connected_rel r b w w'"
        then obtain b' where "heap w' = (heap w)(r \<mapsto> b')" by (auto simp: connected_rel_def)
        then show ?thesis using rp hp by simp
      next
        assume "mtu_rel r b w w'"
        then obtain b' where "heap w' = (heap w)(r \<mapsto> b')" by (auto simp: mtu_rel_def)
        then show ?thesis using rp hp by simp
      qed
    qed
    then show ?thesis ..
  next
    case (Timeout_expired tid)
    then have "timeout_dispatch tid w = Some w'" using st by simp
    from step_timer [OF inv this] obtain r b where "teardown_rel False r b w w'" "io b \<noteq> None"
      by blast
    from td_io [OF this] show ?thesis ..
  next
    case (Requestor_exited name r)
    then have "name_dispatch name r w = Some w'" using st by simp
    from step_exit [OF inv this] obtain b where "teardown_rel False r b w w'" by blast
    from td [OF this] show ?thesis using Requestor_exited by auto
  qed
qed

lemma queued_run:
  assumes "world_inv w" and "heap w p = Some a" and "io a = None"
    and "run ca s2b w es = Some w'" and "\<forall>e\<in>set es. \<not> cancel_or_exit e"
    and "nval_run ca s2b w es"
  shows "heap w' p = Some a \<and> p \<in> set (audits w')"
  using assms
proof (induction es arbitrary: w)
  case Nil
  then show ?case using registry_live [OF world_invD(1)] by simp
next
  case (Cons e es)
  from Cons.prems(4) obtain w1 where 1: "step ca s2b w e = Some w1"
    and 2: "run ca s2b w1 es = Some w'"
    by (auto split: option.splits)
  from Cons.prems(6) 1 have ne: "nval_exact w e" and nr: "nval_run ca s2b w1 es" by simp_all
  have i1: "world_inv w1" using step_inv [OF Cons.prems(1) ne 1] .
  have nce: "\<not> cancel_or_exit e" and rest: "\<forall>e\<in>set es. \<not> cancel_or_exit e"
    using Cons.prems(5) by simp_all
  from queued_step [OF Cons.prems(1,2,3) ne 1] nce have h1: "heap w1 p = Some a" by simp
  from Cons.IH [OF i1 h1 Cons.prems(3) 2 rest nr] show ?case .
qed

lemma queued_no_channel:
  assumes "run ca s2b init_world es = Some w" and "heap w p = Some a" and "io a = None"
    and "step ca s2b w e = Some w'"
  shows "heap w' p = None \<or> (\<exists>a'. heap w' p = Some a' \<and> io a' = None)"
proof -
  note r = reachable_registry [OF assms(1)]
  from step_registry [OF r(1) assms(4)] consider
    (same) "heap w' = heap w"
    | (new) q b where "heap w q = None" "heap w' = (heap w)(q \<mapsto> b)"
    | (free) q where "heap w' = (heap w)(q := None)"
    | (upd) q b b' where "heap w q = Some b" "io b' = io b" "heap w' = (heap w)(q \<mapsto> b')"
    unfolding registry_rel_def by blast
  then show ?thesis
  proof cases
    case same
    then show ?thesis using assms(2,3) by simp
  next
    case new
    then have "q \<noteq> p" using assms(2) by auto
    then show ?thesis using new assms(2,3) by simp
  next
    case free
    then show ?thesis using assms(2,3) by (cases "q = p") simp_all
  next
    case upd
    then show ?thesis using assms(2,3) by (cases "q = p") simp_all
  qed
qed

subsection \<open>A watch that outlives its record\<close>

text \<open>The teardown on timeout, cancel and requestor exit frees the record and leaves its
  watch registered, with the address of the freed record as user data. In the session
  below, after the timeout of the first probe, the next connect gets descriptor 5 again and
  a later start is queued in a record allocated at the freed address 100. A hangup on
  descriptor 5 is then reported to the watch that was left behind.\<close>

lemma ex_stale_not_nval: "\<not> nval_exact ex_w4 ex_stale_hup"
  by (simp add: ex_defs G_IO_HUP_def G_IO_NVAL_def)

lemma ex_stale_closes_twice: "channel_counts ex_w_stale 200 = Some (2, 1)"
  by (simp add: ex_defs channel_counts_def)

lemma ex_stale_arms_timer:
  "map_option (\<lambda>w'. map_option (\<lambda>a. (io a, timeout a, wait_state w' a)) (heap w' 100))
     (step ex_check_address ex_str2ba ex_w4
        (Io_ready 2 G_IO_IN (ex_io_env_mtu\<lparr>new_timeout := 9, new_io_watch := 5\<rparr>)))
   = Some (Some (None, 9, Some Queued))"
  by (simp add: ex_defs ex_io_env_mtu_def run_defs prim_defs wait_state_def info_req_bytes
        ex_rsp_defs handle_mtu_response_def)

text \<open>C10: the code does not keep a queued record inert until a cancel or the exit of its
  requestor. After the five events of the session the record at 100 is queued (no channel,
  no watch, no timeout) while the record at 101 holds the channel. The hangup reported to
  the watch 2, which the timeout of the first probe left registered with user data 100,
  runs the block \<open>failed\<close> of \<open>l2raw_data_callback\<close> on the queued record: it is freed and
  taken out of the registry and its listener is removed, and the event is neither a cancel
  nor a requestor exit.\<close>

theorem C10_stale_watch_frees_queued_probe:
  "run ex_check_address ex_str2ba init_world
     [ex_start1, ex_connected, ex_timeout, ex_start3, ex_start4] = Some ex_w4
   \<and> holds_connection ex_w4 101
   \<and> heap ex_w4 100 = Some ex_queued \<and> 100 \<in> set (audits ex_w4)
   \<and> io ex_queued = None \<and> io_id ex_queued = 0 \<and> timeout ex_queued = 0
   \<and> watches ex_w4 2
       = Some \<lparr>w_chan = 200, w_func = CB_data_callback, w_data = 100, w_removed = 0\<rparr>
   \<and> \<not> cancel_or_exit ex_stale_hup
   \<and> step ex_check_address ex_str2ba ex_w4 ex_stale_hup = Some ex_w_stale
   \<and> heap ex_w_stale 100 = None \<and> audits ex_w_stale = [101]
   \<and> listeners ex_w_stale = [('':1.7'', 101)]"
proof -
  have "holds_connection ex_w4 101
   \<and> heap ex_w4 100 = Some ex_queued \<and> 100 \<in> set (audits ex_w4)
   \<and> io ex_queued = None \<and> io_id ex_queued = 0 \<and> timeout ex_queued = 0
   \<and> watches ex_w4 2
       = Some \<lparr>w_chan = 200, w_func = CB_data_callback, w_data = 100, w_removed = 0\<rparr>
   \<and> \<not> cancel_or_exit ex_stale_hup
   \<and> heap ex_w_stale 100 = None \<and> audits ex_w_stale = [101]
   \<and> listeners ex_w_stale = [('':1.7'', 101)]"
    by (simp add: ex_defs holds_connection_def)
  then show ?thesis using ex_run4 ex_step_stale by simp
qed

subsection \<open>Release of the resources\<close>

lemma nval_nonzero [simp]: "G_IO_NVAL \<noteq> 0"
  by (simp add: G_IO_NVAL_def)

lemma nval_release:
  assumes inv: "world_inv w" and wt: "watches w wid = Some wt" "w_removed wt = 0"
    and c: "channels w (w_chan wt) = Some c" "ch_closes c \<noteq> 0"
    and fr: "io_env_fresh env w"
  shows "\<exists>w'. io_dispatch wid G_IO_NVAL env w = Some w'
     \<and> channel_counts w' (w_chan wt) = Some (1, 1) \<and> watch_count w' wid = Some 1
     \<and> heap w' = heap w \<and> audits w' = audits w \<and> timers w' = timers w
     \<and> listeners w' = listeners w"
proof -
  note i = world_invD [OF inv]
  have cl: "ch_closes c = 1" using channel_le [OF i(6) c(1)] c(2) by simp
  from watch_active [OF i(4) wt] c(1) have un: "ch_unrefs c = 0" by auto
  have cb: "run_callback (w_func wt) env (w_chan wt) G_IO_NVAL (w_data wt) w
      = Some (False, g_io_channel_unref (w_chan wt) w)"
    by (cases "w_func wt")
      (simp_all add: run_callback_def l2raw_connect_complete_def l2raw_data_callback_def)
  have d: "io_dispatch wid G_IO_NVAL env w
      = Some (watch_released wid (g_io_channel_unref (w_chan wt) w))"
    using wt c fr cb by (simp add: io_dispatch_def)
  show ?thesis
    using d wt c cl un
    by (simp add: channel_counts_def watch_count_def watch_released_def g_io_channel_unref_def)
qed

lemma removal_step:
  assumes inv: "world_inv w" and ne: "nval_exact w e" and st: "step ca s2b w e = Some w'"
    and hp: "heap w p = Some a" and gone: "p \<notin> set (audits w')"
  shows "teardown_rel (io_event e) p a w w'"
proof -
  note i = world_invD [OF inv]
  have pin: "p \<in> set (audits w)" using registry_live [OF i(1) hp] .
  have td: "teardown_rel direct p a w w'" if "teardown_rel direct r b w w'" for direct r b
  proof -
    from that have A: "audits w' = remove1 r (audits w)" and hr: "heap w r = Some b"
      by (simp_all add: teardown_rel_def)
    have "r = p" using A pin gone by (cases "r = p") auto
    then show ?thesis using that hr hp by simp
  qed
  show ?thesis
  proof (cases e)
    case (AuditRemoteDevice msg d env)
    then obtain r where "start_env_fresh env w"
      "audit_remote_device ca s2b msg d env w = Some (r, w')"
      using st by (auto split: if_splits)
    from step_start [OF world_invD(1) [OF inv] this] have "p \<in> set (audits w')"
      using pin by (auto simp: same_registry_def started_rel_def)
    then show ?thesis using gone by simp
  next
    case (CancelAuditRemoteDevice msg reply_ok)
    then obtain r where "cancel_audit_remote_device ca s2b msg reply_ok w = Some (r, w')"
      using st by auto
    from step_cancel [OF this] have "teardown_rel False p a w w'"
    proof
      assume "same_registry w w'"
      then show ?thesis using pin gone by (simp add: same_registry_def)
    next
      assume "\<exists>pa aa s. teardown_rel False pa aa w w' \<and> pa \<in> set (audits w)
          \<and> requestor aa = msg_sender msg \<and> msg_address msg = Some s \<and> addr aa = s2b s"
      then obtain r b where "teardown_rel False r b w w'" by blast
      from td [OF this] show ?thesis .
    qed
    then show ?thesis using CancelAuditRemoteDevice by simp
  next
    case (Io_ready wid cond env)
    then have "nval_exact w (Io_ready wid cond env)"
      and "io_dispatch wid cond env w = Some w'" using st ne by simp_all
    from step_io [OF inv this] have "teardown_rel True p a w w'"
    proof
      assume "nval_rel wid w w'"
      then show ?thesis using pin gone by (simp add: nval_rel_def)
    next
      assume "\<exists>pa aa. heap w pa = Some aa \<and> io aa \<noteq> None \<and> io_id aa = wid
          \<and> (teardown_rel True pa aa w w' \<or> connected_rel pa aa w w' \<or> mtu_rel pa aa w w')"
      then obtain r b where
        c: "teardown_rel True r b w w' \<or> connected_rel r b w w' \<or> mtu_rel r b w w'"
        by blast
      from c show ?thesis
      proof (elim disjE)
        assume "teardown_rel True r b w w'"
        from td [OF this] show ?thesis .
      next
        assume "connected_rel r b w w'"
        then show ?thesis using pin gone by (simp add: connected_rel_def)
      next
        assume "mtu_rel r b w w'"
        then show ?thesis using pin gone by (simp add: mtu_rel_def)
      qed
    qed
    then show ?thesis using Io_ready by simp
  next
    case (Timeout_expired tid)
    then have "timeout_dispatch tid w = Some w'" using st by simp
    from step_timer [OF inv this] obtain r b where "teardown_rel False r b w w'" by blast
    from td [OF this] show ?thesis using Timeout_expired by simp
  next
    case (Requestor_exited name r)
    then have "name_dispatch name r w = Some w'" using st by simp
    from step_exit [OF inv this] obtain b where "teardown_rel False r b w w'" by blast
    from td [OF this] show ?thesis using Requestor_exited by simp
  qed
qed

lemma teardown_counts_direct:
  assumes inv: "world_inv w" and td: "teardown_rel True p a w w'" and io: "io a = Some ch"
  shows "channel_counts w' ch = Some (1, 1) \<and> watch_count w' (io_id a) = Some 1"
proof -
  note i = world_invD [OF inv]
  from td have hp: "heap w p = Some a"
    and C: "channels w' = channels (g_io_channel_unref ch (g_io_channel_close ch w))"
    and W: "watches w' = watches (watch_released (io_id a) w)"
    using io by (simp_all add: teardown_rel_def)
  from audit_chan [OF i(3) hp io] obtain c where c: "channels w ch = Some c" "ch_closes c = 0"
    "ch_unrefs c = 0" by auto
  from audit_watch [OF i(3) hp io] obtain wt where wt: "watches w (io_id a) = Some wt"
    "w_removed wt = 0" by auto
  show ?thesis
    using C W c wt
    by (simp add: channel_counts_def watch_count_def watch_released_def g_io_channel_unref_def
          g_io_channel_close_def)
qed

lemma teardown_counts_deferred:
  assumes inv: "world_inv w" and td: "teardown_rel False p a w w'" and io: "io a = Some ch"
  shows "channel_counts w' ch = Some (1, 0) \<and> watch_count w' (io_id a) = Some 0
     \<and> (\<exists>wt c. watches w' (io_id a) = Some wt \<and> w_removed wt = 0 \<and> w_chan wt = ch
            \<and> channels w' ch = Some c \<and> ch_closes c \<noteq> 0)"
proof -
  note i = world_invD [OF inv]
  from td have hp: "heap w p = Some a"
    and C: "channels w' = channels (g_io_channel_close ch w)"
    and W: "watches w' = watches w"
    using io by (simp_all add: teardown_rel_def)
  from audit_chan [OF i(3) hp io] obtain c where c: "channels w ch = Some c" "ch_closes c = 0"
    "ch_unrefs c = 0" by auto
  from audit_watch [OF i(3) hp io] obtain wt where wt: "watches w (io_id a) = Some wt"
    "w_removed wt = 0" "w_chan wt = ch" by auto
  show ?thesis
    using C W c wt
    by (simp add: channel_counts_def watch_count_def g_io_channel_close_def)
qed

lemma removal_releases:
  assumes inv: "world_inv w" and ne: "nval_exact w e" and st: "step ca s2b w e = Some w'"
    and hp: "heap w p = Some a" and gone: "p \<notin> set (audits w')"
  shows "torn_down p a w'"
    and "io_event e \<Longrightarrow> \<exists>ch. io a = Some ch \<and> channel_counts w' ch = Some (1, 1)
            \<and> watch_count w' (io_id a) = Some 1"
    and "\<not> io_event e \<Longrightarrow> io a = Some ch \<Longrightarrow>
           channel_counts w' ch = Some (1, 0) \<and> watch_count w' (io_id a) = Some 0"
    and "\<not> io_event e \<Longrightarrow> io a = Some ch \<Longrightarrow> io_env_fresh env w' \<Longrightarrow>
           \<exists>w''. step ca s2b w' (Io_ready (io_id a) G_IO_NVAL env) = Some w''
              \<and> channel_counts w'' ch = Some (1, 1) \<and> watch_count w'' (io_id a) = Some 1
              \<and> heap w'' = heap w' \<and> audits w'' = audits w'"
proof -
  note td = removal_step [OF inv ne st hp gone]
  note inv' = step_inv [OF inv ne st]
  show "torn_down p a w'" using teardown_torn_down [OF inv td] .
  show "\<exists>ch. io a = Some ch \<and> channel_counts w' ch = Some (1, 1)
            \<and> watch_count w' (io_id a) = Some 1" if e: "io_event e"
  proof -
    from td e have t: "teardown_rel True p a w w'" by simp
    then obtain ch where io: "io a = Some ch" by (auto simp: teardown_rel_def)
    from teardown_counts_direct [OF inv t io] io show ?thesis by simp
  qed
  show "channel_counts w' ch = Some (1, 0) \<and> watch_count w' (io_id a) = Some 0"
    if e: "\<not> io_event e" and io: "io a = Some ch"
  proof -
    from td e have t: "teardown_rel False p a w w'" by simp
    from teardown_counts_deferred [OF inv t io] show ?thesis by simp
  qed
  show "\<exists>w''. step ca s2b w' (Io_ready (io_id a) G_IO_NVAL env) = Some w''
              \<and> channel_counts w'' ch = Some (1, 1) \<and> watch_count w'' (io_id a) = Some 1
              \<and> heap w'' = heap w' \<and> audits w'' = audits w'"
    if e: "\<not> io_event e" and io: "io a = Some ch" and fr: "io_env_fresh env w'"
  proof -
    from td e have t: "teardown_rel False p a w w'" by simp
    from teardown_counts_deferred [OF inv t io] obtain wt c where
      wt: "watches w' (io_id a) = Some wt" "w_removed wt = 0" and wc: "w_chan wt = ch"
      and c: "channels w' ch = Some c" "ch_closes c \<noteq> 0" by blast
    from nval_release [OF inv' wt _ _ fr, of c] c wc show ?thesis by auto
  qed
qed

lemma data_fails:
  assumes hp: "heap w p = Some a" and nn: "cond AND G_IO_NVAL = 0"
    and c: "channels w ch = Some c"
    and f: "cond AND (G_IO_ERR OR G_IO_HUP) \<noteq> 0 \<or> recv_result env = None
      \<or> state a = AUDIT_STATE_FEATURES \<or> send_rc env < 0"
  shows "\<exists>w1. l2raw_data_callback env ch cond p w = Some (False, w1)
     \<and> audits w1 = remove1 p (audits w)"
proof -
  obtain a1 wc where ct: "clear_timeout p a w = (a1, wc)" by (cases "clear_timeout p a w")
  from clear_timeout_frame [OF ct] have fr: "a1 = a\<lparr>timeout := 0\<rparr>" "channels wc = channels w"
    "audits wc = audits w" by simp_all
  have s: "state a1 = state a" using fr(1) by simp
  have cw: "channels wc ch = Some c" using fr(2) c by simp
  note S = l2raw_data_callback_def nn hp ct cw
  have r: "\<exists>w1. Some (l2raw_data_callback_failed ch p a' w0) = Some (False, w1)
      \<and> audits w1 = remove1 p (audits w)" if "audits w0 = audits w" for a' w0
    using that
    by (intro exI [of _ "snd (l2raw_data_callback_failed ch p a' w0)"])
      (simp add: failed_registry prod_eq_iff)
  show ?thesis
  proof (cases "cond AND (G_IO_ERR OR G_IO_HUP) \<noteq> 0")
    case True
    then show ?thesis using r [of wc a1] fr(3) by (simp add: S)
  next
    case ne: False
    show ?thesis
    proof (cases "recv_result env")
      case None
      then show ?thesis
        using ne r [of "emit (Error ''Can't receive info response: %s (%d)'') wc" a1] fr(3)
        by (simp add: S emit_def)
    next
      case (Some bs)
      let ?rsp = "drop L2CAP_CMD_HDR_SIZE (recv_buf bs)"
      show ?thesis
      proof (cases "state a")
        case AUDIT_STATE_FEATURES
        then show ?thesis
          using ne Some s fr(3)
            r [of "emits (snd (handle_features_response a1 ?rsp))
                     (store p (fst (handle_features_response a1 ?rsp)) wc)"
                  "fst (handle_features_response a1 ?rsp)"]
          by (simp add: S data_state_features_def Let_def emits_def store_def)
      next
        case AUDIT_STATE_MTU
        then have sf: "send_rc env < 0" using f ne Some by simp
        show ?thesis
          using ne Some s fr(3) AUDIT_STATE_MTU sf
            r [of "emit (Error ''Can't send info request:'')
                     (emit (Send (ch_fd c) (info_req 0x0002))
                        (emits (snd (handle_mtu_response a1 ?rsp))
                           (store p (fst (handle_mtu_response a1 ?rsp)) wc)))"
                  "fst (handle_mtu_response a1 ?rsp)"]
          by (simp add: S data_state_mtu_def Let_def emits_def emit_def store_def)
      qed
    qed
  qed
qed

lemma connect_fails:
  assumes hp: "heap w p = Some a" and nn: "cond AND G_IO_NVAL = 0"
    and c: "channels w ch = Some c"
    and f: "cond AND (G_IO_ERR OR G_IO_HUP) \<noteq> 0 \<or> getsockopt_rc env < 0
      \<or> so_error env \<noteq> 0 \<or> send_rc env < 0"
  shows "\<exists>w1. l2raw_connect_complete env ch cond p w = Some (False, w1)
     \<and> audits w1 = remove1 p (audits w)"
proof -
  note S = l2raw_connect_complete_def nn hp c
  have r: "\<exists>w1. Some (l2raw_connect_complete_failed ch p a w0) = Some (False, w1)
      \<and> audits w1 = remove1 p (audits w)" if "audits w0 = audits w" for w0
    using that
    by (intro exI [of _ "snd (l2raw_connect_complete_failed ch p a w0)"])
      (simp add: failed_registry prod_eq_iff)
  show ?thesis
  proof (cases "cond AND (G_IO_ERR OR G_IO_HUP) \<noteq> 0")
    case True
    then show ?thesis
      using r [of "emit (Error ''Error on raw l2cap socket'') w"] by (simp add: S emit_def)
  next
    case ne: False
    show ?thesis
    proof (cases "getsockopt_rc env < 0")
      case True
      then show ?thesis
        using ne r [of "emit (Error ''Can't get socket error: %s (%d)'') w"]
        by (simp add: S emit_def)
    next
      case g: False
      show ?thesis
      proof (cases "so_error env \<noteq> 0")
        case True
        then show ?thesis
          using ne g r [of "emit (Error ''l2raw_connect failed: %s (%d)'') w"]
          by (simp add: S emit_def)
      next
        case so: False
        then have sf: "send_rc env < 0" using f ne g by simp
        show ?thesis
          using ne g so sf
            r [of "emit (Error ''Can't send info request: %s (%d)'')
                     (emit (Send (ch_fd c) (info_req 0x0001))
                        (emit (Debug ''AuditRemoteDevice: connected'') w))"]
          by (simp add: S Let_def emit_def)
      qed
    qed
  qed
qed

lemma terminal_removes:
  assumes inv: "world_inv w" and hp: "heap w p = Some a" and t: "terminal ca s2b w p a e"
  shows "nval_exact w e \<and> (\<exists>w'. step ca s2b w e = Some w' \<and> p \<notin> set (audits w'))"
proof -
  note i = world_invD [OF inv]
  have gone: "p \<notin> set (remove1 p (audits w))" using registry_distinct [OF i(1)] by simp
  show ?thesis
  proof (cases e)
    case (AuditRemoteDevice msg d env)
    then show ?thesis using t by simp
  next
    case (CancelAuditRemoteDevice msg reply_ok)
    then obtain s where s: "msg_address msg = Some s" "0 \<le> ca s"
      "slist_find_audit (heap w) (audits w) (s2b s) = Some (Some p)"
      "requestor a = msg_sender msg"
      using t by (auto split: option.splits)
    have "\<exists>r w'. cancel_audit_remote_device ca s2b msg reply_ok w = Some (r, w')
        \<and> audits w' = remove1 p (audits w)"
      using s hp by (simp add: cancel_audit_remote_device_def Let_def prim_defs split: option.splits)
    then show ?thesis using CancelAuditRemoteDevice gone by auto
  next
    case (Io_ready wid cond env)
    then obtain ch wt0 where io: "io a = Some ch" and wid: "wid = io_id a"
      and fr: "io_env_fresh env w" and nn: "cond AND G_IO_NVAL = 0"
      and w0: "watches w wid = Some wt0"
      using t by (auto split: option.splits)
    from audit_watch [OF i(3) hp io] w0 wid have wt: "w_chan wt0 = ch" "w_data wt0 = p"
      "w_removed wt0 = 0" by auto
    from audit_chan [OF i(3) hp io] obtain c where c: "channels w ch = Some c" "ch_closes c = 0"
      by auto
    have ne: "nval_exact w e" using Io_ready w0 wt(1) c nn by simp
    have "\<exists>w1. run_callback (w_func wt0) env ch cond p w = Some (False, w1)
        \<and> audits w1 = remove1 p (audits w)"
    proof (cases "w_func wt0")
      case CB_connect_complete
      then have "cond AND (G_IO_ERR OR G_IO_HUP) \<noteq> 0 \<or> getsockopt_rc env < 0
          \<or> so_error env \<noteq> 0 \<or> send_rc env < 0"
        using t Io_ready w0 by simp
      from connect_fails [OF hp nn c(1) this] show ?thesis
        using CB_connect_complete by (simp add: run_callback_def)
    next
      case CB_data_callback
      then have "cond AND (G_IO_ERR OR G_IO_HUP) \<noteq> 0 \<or> recv_result env = None
          \<or> state a = AUDIT_STATE_FEATURES \<or> send_rc env < 0"
        using t Io_ready w0 by simp
      from data_fails [OF hp nn c(1) this] show ?thesis
        using CB_data_callback by (simp add: run_callback_def)
    qed
    then obtain w1 where "run_callback (w_func wt0) env ch cond p w = Some (False, w1)"
      "audits w1 = remove1 p (audits w)" by blast
    then have "io_dispatch wid cond env w = Some (watch_released wid w1)"
      "audits (watch_released wid w1) = remove1 p (audits w)"
      using w0 wt fr by (simp_all add: io_dispatch_def released_registry)
    then show ?thesis using ne Io_ready gone by simp
  next
    case (Timeout_expired tid)
    then have tid: "tid \<noteq> 0" "tid = timeout a" using t by simp_all
    from audit_timer [OF i(3) hp] tid obtain tm where tm: "timers w tid = Some tm"
      "t_data tm = p" "t_removed tm = 0" by auto
    from timeout_fires [OF inv tm(1,3)] tm(2) obtain b w' where
      "timeout_dispatch tid w = Some w'" "teardown_rel False p b w w'" by auto
    then have "timeout_dispatch tid w = Some w'" "audits w' = remove1 p (audits w)"
      by (simp_all add: teardown_rel_def)
    then show ?thesis using Timeout_expired gone by simp
  next
    case (Requestor_exited name q)
    then have q: "q = p" "name = requestor a" using t by simp_all
    have "p \<in> set (audits w)" using registry_live [OF i(1) hp] .
    then have "p \<in> snd ` set (listeners w)" using listener_map [OF i(7)] by (metis set_map)
    then obtain n where n: "(n, p) \<in> set (listeners w)" by auto
    from listener_live [OF i(7) n] hp have "n = requestor a" by auto
    then have m: "(name, p) \<in> set (listeners w)" using n q by simp
    from exit_defined [OF inv m] obtain w' where w': "name_dispatch name p w = Some w'" by auto
    from step_exit [OF inv w'] have "audits w' = remove1 p (audits w)"
      by (auto simp: teardown_rel_def)
    then show ?thesis using Requestor_exited q w' gone by simp
  qed
qed

text \<open>C1 as stated does not hold: when the response timeout expires, the record is freed
  and removed from the registry and its channel is closed, but the watch of the record is
  still registered and the reference to the channel has not been dropped.\<close>

theorem C1_timeout_keeps_watch_counterexample:
  "run ex_check_address ex_str2ba init_world [ex_start1, ex_connected, ex_timeout]
     = Some ex_w_expired
   \<and> audits ex_w_expired = [] \<and> heap ex_w_expired 100 = None
   \<and> channel_counts ex_w_expired 200 = Some (1, 0)
   \<and> watch_count ex_w_expired 2 = Some 0"
proof -
  have e: "run ex_check_address ex_str2ba ex_world [ex_timeout] = Some ex_w_expired"
    using ex_step_expired by simp
  have "run ex_check_address ex_str2ba init_world ([ex_start1, ex_connected] @ [ex_timeout])
     = Some ex_w_expired"
    by (simp only: run_append ex_run3 option.case e)
  then have r: "run ex_check_address ex_str2ba init_world [ex_start1, ex_connected, ex_timeout]
     = Some ex_w_expired"
    by (simp only: append.simps)
  have c: "audits ex_w_expired = [] \<and> heap ex_w_expired 100 = None
      \<and> channel_counts ex_w_expired 200 = Some (1, 0)
      \<and> watch_count ex_w_expired 2 = Some 0"
    by (simp add: ex_defs channel_counts_def watch_count_def)
  show ?thesis by (rule conjI [OF r c])
qed

text \<open>C1, amended: the following holds in every world reached while the main loop has
  reported \<open>G_IO_NVAL\<close> to a watch exactly when its channel was closed. No channel is closed
  or unreferenced twice, no watch and no timeout is released twice, every live record is
  registered, every listener and every active timeout belongs to a registered record, and
  every channel whose reference has not been dropped is either open and held by a live
  record or closed with an active watch on it, whose \<open>G_IO_NVAL\<close> dispatch drops the
  reference and releases the watch. Every terminal event of a record (the expiry of its
  timeout, a cancel for its address by its requestor when \<open>slist_find\<close> returns this
  record, the exit of its requestor, an error, hangup or failed
  call in one of its callbacks, the completion of the feature exchange) is handled and
  takes the record out of the registry, frees it, removes its listener, closes its channel
  once and releases its timeout once. When the event is an I/O callback, the reference to
  the channel is dropped and the watch released in the same step. When it is a timeout, a
  cancel or a requestor exit, the teardown only closes the channel: the watch stays
  registered and the reference stays held until \<open>G_IO_NVAL\<close> is reported to the watch,
  whose callback then drops the reference and releases the watch.\<close>

theorem C1_teardown_releases:
  assumes "run ca s2b init_world es = Some w" and "nval_run ca s2b init_world es"
  shows "(\<forall>ch c. channels w ch = Some c \<longrightarrow> ch_closes c \<le> 1 \<and> ch_unrefs c \<le> ch_closes c)
     \<and> (\<forall>wid wt. watches w wid = Some wt \<longrightarrow> w_removed wt \<le> 1)
     \<and> (\<forall>tid t. timers w tid = Some t \<longrightarrow> t_removed t \<le> 1)
     \<and> (\<forall>p a. heap w p = Some a \<longrightarrow> p \<in> set (audits w))
     \<and> (\<forall>n p. (n, p) \<in> set (listeners w) \<longrightarrow> p \<in> set (audits w))
     \<and> (\<forall>tid t. timers w tid = Some t \<and> t_removed t = 0 \<longrightarrow>
          (\<exists>a. heap w (t_data t) = Some a \<and> timeout a = tid))
     \<and> (\<forall>ch c. channels w ch = Some c \<and> ch_unrefs c = 0 \<longrightarrow>
          (if ch_closes c = 0 then \<exists>p a. heap w p = Some a \<and> io a = Some ch
           else \<exists>wid wt. watches w wid = Some wt \<and> w_removed wt = 0 \<and> w_chan wt = ch))
     \<and> (\<forall>wid wt. watches w wid = Some wt \<and> w_removed wt = 0 \<longrightarrow>
          (\<exists>c. channels w (w_chan wt) = Some c \<and> ch_unrefs c = 0
             \<and> (if ch_closes c = 0
                 then \<exists>a. heap w (w_data wt) = Some a \<and> io a = Some (w_chan wt)
                          \<and> io_id a = wid
                 else \<forall>env. io_env_fresh env w \<longrightarrow>
                        (\<exists>w'. step ca s2b w (Io_ready wid G_IO_NVAL env) = Some w'
                           \<and> channel_counts w' (w_chan wt) = Some (1, 1)
                           \<and> watch_count w' wid = Some 1))))
     \<and> (\<forall>p a e. heap w p = Some a \<and> terminal ca s2b w p a e \<longrightarrow>
          (\<exists>w'. step ca s2b w e = Some w' \<and> p \<notin> set (audits w') \<and> torn_down p a w'
             \<and> (\<forall>ch. io a = Some ch \<longrightarrow>
                  (if io_event e
                   then channel_counts w' ch = Some (1, 1) \<and> watch_count w' (io_id a) = Some 1
                   else channel_counts w' ch = Some (1, 0) \<and> watch_count w' (io_id a) = Some 0
                     \<and> (\<forall>env. io_env_fresh env w' \<longrightarrow>
                           (\<exists>w''. step ca s2b w' (Io_ready (io_id a) G_IO_NVAL env) = Some w''
                              \<and> channel_counts w'' ch = Some (1, 1)
                              \<and> watch_count w'' (io_id a) = Some 1
                              \<and> heap w'' = heap w' \<and> audits w'' = audits w'))))))"
proof -
  note inv = reachable_inv [OF assms]
  note i = world_invD [OF inv]
  have 1: "\<forall>ch c. channels w ch = Some c \<longrightarrow> ch_closes c \<le> 1 \<and> ch_unrefs c \<le> ch_closes c"
    using channel_le [OF i(6)] by blast
  have 2: "\<forall>wid wt. watches w wid = Some wt \<longrightarrow> w_removed wt \<le> 1"
    using watch_le [OF i(4)] by blast
  have 3: "\<forall>tid t. timers w tid = Some t \<longrightarrow> t_removed t \<le> 1"
    using timer_le [OF i(5)] by blast
  have 4: "\<forall>p a. heap w p = Some a \<longrightarrow> p \<in> set (audits w)"
    using registry_live [OF i(1)] by blast
  have 5: "\<forall>n p. (n, p) \<in> set (listeners w) \<longrightarrow> p \<in> set (audits w)"
    using listener_live [OF i(7)] registry_live [OF i(1)] by blast
  have 6: "\<forall>tid t. timers w tid = Some t \<and> t_removed t = 0 \<longrightarrow>
          (\<exists>a. heap w (t_data t) = Some a \<and> timeout a = tid)"
    using timer_active [OF i(5)] by blast
  have 7: "\<forall>ch c. channels w ch = Some c \<and> ch_unrefs c = 0 \<longrightarrow>
          (if ch_closes c = 0 then \<exists>p a. heap w p = Some a \<and> io a = Some ch
           else \<exists>wid wt. watches w wid = Some wt \<and> w_removed wt = 0 \<and> w_chan wt = ch)"
  proof (intro allI impI)
    fix ch c assume h: "channels w ch = Some c \<and> ch_unrefs c = 0"
    show "if ch_closes c = 0 then \<exists>p a. heap w p = Some a \<and> io a = Some ch
           else \<exists>wid wt. watches w wid = Some wt \<and> w_removed wt = 0 \<and> w_chan wt = ch"
    proof (cases "ch_closes c = 0")
      case True
      then show ?thesis using channel_open [OF i(6), of ch c] h by simp
    next
      case False
      then have "ch_closes c = 1" using channel_le [OF i(6), of ch c] h by simp
      then show ?thesis using channel_closed [OF i(6), of ch c] h by simp
    qed
  qed
  have 8: "\<forall>wid wt. watches w wid = Some wt \<and> w_removed wt = 0 \<longrightarrow>
          (\<exists>c. channels w (w_chan wt) = Some c \<and> ch_unrefs c = 0
             \<and> (if ch_closes c = 0
                 then \<exists>a. heap w (w_data wt) = Some a \<and> io a = Some (w_chan wt)
                          \<and> io_id a = wid
                 else \<forall>env. io_env_fresh env w \<longrightarrow>
                        (\<exists>w'. step ca s2b w (Io_ready wid G_IO_NVAL env) = Some w'
                           \<and> channel_counts w' (w_chan wt) = Some (1, 1)
                           \<and> watch_count w' wid = Some 1)))"
  proof (intro allI impI)
    fix wid wt assume "watches w wid = Some wt \<and> w_removed wt = 0"
    then have wt: "watches w wid = Some wt" "w_removed wt = 0" by simp_all
    from watch_active [OF i(4) wt] obtain c where c0: "channels w (w_chan wt) = Some c
      \<and> ch_unrefs c = 0
      \<and> (ch_closes c = 0 \<longrightarrow>
            (\<exists>a. heap w (w_data wt) = Some a \<and> io a = Some (w_chan wt) \<and> io_id a = wid))" ..
    then have c: "channels w (w_chan wt) = Some c" "ch_unrefs c = 0"
      and o: "ch_closes c = 0 \<longrightarrow>
                (\<exists>a. heap w (w_data wt) = Some a \<and> io a = Some (w_chan wt) \<and> io_id a = wid)"
      by simp_all
    have n: "\<forall>env. io_env_fresh env w \<longrightarrow>
                        (\<exists>w'. step ca s2b w (Io_ready wid G_IO_NVAL env) = Some w'
                           \<and> channel_counts w' (w_chan wt) = Some (1, 1)
                           \<and> watch_count w' wid = Some 1)" if "ch_closes c \<noteq> 0"
    proof (intro allI impI)
      fix env assume "io_env_fresh env w"
      from nval_release [OF inv wt c(1) that this]
      show "\<exists>w'. step ca s2b w (Io_ready wid G_IO_NVAL env) = Some w'
                           \<and> channel_counts w' (w_chan wt) = Some (1, 1)
                           \<and> watch_count w' wid = Some 1" by auto
    qed
    show "\<exists>c. channels w (w_chan wt) = Some c \<and> ch_unrefs c = 0
             \<and> (if ch_closes c = 0
                 then \<exists>a. heap w (w_data wt) = Some a \<and> io a = Some (w_chan wt)
                          \<and> io_id a = wid
                 else \<forall>env. io_env_fresh env w \<longrightarrow>
                        (\<exists>w'. step ca s2b w (Io_ready wid G_IO_NVAL env) = Some w'
                           \<and> channel_counts w' (w_chan wt) = Some (1, 1)
                           \<and> watch_count w' wid = Some 1))"
      using c o n by (intro exI [of _ c]) (cases "ch_closes c = 0"; simp)
  qed
  have 9: "\<forall>p a e. heap w p = Some a \<and> terminal ca s2b w p a e \<longrightarrow>
          (\<exists>w'. step ca s2b w e = Some w' \<and> p \<notin> set (audits w') \<and> torn_down p a w'
             \<and> (\<forall>ch. io a = Some ch \<longrightarrow>
                  (if io_event e
                   then channel_counts w' ch = Some (1, 1) \<and> watch_count w' (io_id a) = Some 1
                   else channel_counts w' ch = Some (1, 0) \<and> watch_count w' (io_id a) = Some 0
                     \<and> (\<forall>env. io_env_fresh env w' \<longrightarrow>
                           (\<exists>w''. step ca s2b w' (Io_ready (io_id a) G_IO_NVAL env) = Some w''
                              \<and> channel_counts w'' ch = Some (1, 1)
                              \<and> watch_count w'' (io_id a) = Some 1
                              \<and> heap w'' = heap w' \<and> audits w'' = audits w')))))"
  proof (intro allI impI)
    fix p a e
    assume "heap w p = Some a \<and> terminal ca s2b w p a e"
    then have hp: "heap w p = Some a" and t: "terminal ca s2b w p a e" by simp_all
    from terminal_removes [OF inv hp t] obtain w' where ne: "nval_exact w e"
      and st: "step ca s2b w e = Some w'" and gone: "p \<notin> set (audits w')" by blast
    note r = removal_releases [OF inv ne st hp gone]
    have b: "\<forall>ch. io a = Some ch \<longrightarrow>
                (if io_event e
                 then channel_counts w' ch = Some (1, 1) \<and> watch_count w' (io_id a) = Some 1
                 else channel_counts w' ch = Some (1, 0) \<and> watch_count w' (io_id a) = Some 0
                   \<and> (\<forall>env. io_env_fresh env w' \<longrightarrow>
                         (\<exists>w''. step ca s2b w' (Io_ready (io_id a) G_IO_NVAL env) = Some w''
                            \<and> channel_counts w'' ch = Some (1, 1)
                            \<and> watch_count w'' (io_id a) = Some 1
                            \<and> heap w'' = heap w' \<and> audits w'' = audits w')))"
    proof (intro allI impI)
      fix ch assume io: "io a = Some ch"
      show "if io_event e
                 then channel_counts w' ch = Some (1, 1) \<and> watch_count w' (io_id a) = Some 1
                 else channel_counts w' ch = Some (1, 0) \<and> watch_count w' (io_id a) = Some 0
                   \<and> (\<forall>env. io_env_fresh env w' \<longrightarrow>
                         (\<exists>w''. step ca s2b w' (Io_ready (io_id a) G_IO_NVAL env) = Some w''
                            \<and> channel_counts w'' ch = Some (1, 1)
                            \<and> watch_count w'' (io_id a) = Some 1
                            \<and> heap w'' = heap w' \<and> audits w'' = audits w'))"
      proof (cases "io_event e")
        case True
        then show ?thesis using r(2) io by auto
      next
        case False
        have "\<forall>env. io_env_fresh env w' \<longrightarrow>
                         (\<exists>w''. step ca s2b w' (Io_ready (io_id a) G_IO_NVAL env) = Some w''
                            \<and> channel_counts w'' ch = Some (1, 1)
                            \<and> watch_count w'' (io_id a) = Some 1
                            \<and> heap w'' = heap w' \<and> audits w'' = audits w')"
          using r(4) [OF False io] by blast
        then show ?thesis using False r(3) [OF False io] by simp
      qed
    qed
    show "\<exists>w'. step ca s2b w e = Some w' \<and> p \<notin> set (audits w') \<and> torn_down p a w'
             \<and> (\<forall>ch. io a = Some ch \<longrightarrow>
                  (if io_event e
                   then channel_counts w' ch = Some (1, 1) \<and> watch_count w' (io_id a) = Some 1
                   else channel_counts w' ch = Some (1, 0) \<and> watch_count w' (io_id a) = Some 0
                     \<and> (\<forall>env. io_env_fresh env w' \<longrightarrow>
                           (\<exists>w''. step ca s2b w' (Io_ready (io_id a) G_IO_NVAL env) = Some w''
                              \<and> channel_counts w'' ch = Some (1, 1)
                              \<and> watch_count w'' (io_id a) = Some 1
                              \<and> heap w'' = heap w' \<and> audits w'' = audits w'))))"
      using st gone r(1) b by (intro exI [of _ w']) simp
  qed
  show ?thesis by (rule conjI [OF 1 conjI [OF 2 conjI [OF 3 conjI [OF 4 conjI [OF 5 conjI [OF 6 conjI [OF 7 conjI [OF 8 9]]]]]]]])
qed

theorem C1_teardown_releases_witness:
  "run ex_check_address ex_str2ba init_world [ex_start1, ex_connected] = Some ex_world
   \<and> nval_run ex_check_address ex_str2ba init_world [ex_start1, ex_connected]
   \<and> heap ex_world 100 = Some ex_audit \<and> io ex_audit = Some 200 \<and> io_id ex_audit = 2
   \<and> terminal ex_check_address ex_str2ba ex_world 100 ex_audit ex_timeout
   \<and> step ex_check_address ex_str2ba ex_world ex_timeout = Some ex_w_expired
   \<and> 100 \<notin> set (audits ex_w_expired)
   \<and> torn_down 100 ex_audit ex_w_expired
   \<and> channel_counts ex_w_expired 200 = Some (1, 0) \<and> watch_count ex_w_expired 2 = Some 0
   \<and> step ex_check_address ex_str2ba ex_w_expired ex_nval = Some ex_w_released
   \<and> channel_counts ex_w_released 200 = Some (1, 1) \<and> watch_count ex_w_released 2 = Some 1
   \<and> terminal ex_check_address ex_str2ba ex_world 100 ex_audit ex_hangup
   \<and> step ex_check_address ex_str2ba ex_world ex_hangup = Some ex_w_hungup
   \<and> 100 \<notin> set (audits ex_w_hungup)
   \<and> torn_down 100 ex_audit ex_w_hungup
   \<and> channel_counts ex_w_hungup 200 = Some (1, 1) \<and> watch_count ex_w_hungup 2 = Some 1"
proof -
  have h: "heap ex_world 100 = Some ex_audit" "io ex_audit = Some 200" "io_id ex_audit = 2"
    by (simp_all add: ex_defs)
  have g: "100 \<notin> set (audits ex_w_expired)" "100 \<notin> set (audits ex_w_hungup)"
    by (simp_all add: ex_defs)
  have e: "\<not> io_event ex_timeout" "io_event ex_hangup"
    by (simp_all add: ex_defs)
  have f: "io_env_fresh ex_io_env_late ex_w_expired"
    by (simp add: ex_defs io_env_fresh_def)
  have t: "terminal ex_check_address ex_str2ba ex_world 100 ex_audit ex_timeout"
    "terminal ex_check_address ex_str2ba ex_world 100 ex_audit ex_hangup"
    by (simp_all add: ex_defs io_env_fresh_def G_IO_HUP_def G_IO_NVAL_def G_IO_ERR_def)
  note c = C1_teardown_releases [OF ex_run3 ex_nval_run3, THEN conjunct2, THEN conjunct2,
      THEN conjunct2, THEN conjunct2, THEN conjunct2, THEN conjunct2, THEN conjunct2,
      THEN conjunct2, rule_format]
  from c [OF conjI [OF h(1) t(1)]] ex_step_expired
  have c1: "torn_down 100 ex_audit ex_w_expired
     \<and> (\<forall>ch. io ex_audit = Some ch \<longrightarrow>
          (if io_event ex_timeout
           then channel_counts ex_w_expired ch = Some (1, 1)
              \<and> watch_count ex_w_expired (io_id ex_audit) = Some 1
           else channel_counts ex_w_expired ch = Some (1, 0)
              \<and> watch_count ex_w_expired (io_id ex_audit) = Some 0
              \<and> (\<forall>env. io_env_fresh env ex_w_expired \<longrightarrow>
                   (\<exists>w''. step ex_check_address ex_str2ba ex_w_expired
                             (Io_ready (io_id ex_audit) G_IO_NVAL env) = Some w''
                      \<and> channel_counts w'' ch = Some (1, 1)
                      \<and> watch_count w'' (io_id ex_audit) = Some 1
                      \<and> heap w'' = heap ex_w_expired \<and> audits w'' = audits ex_w_expired))))"
    by auto
  from c [OF conjI [OF h(1) t(2)]] ex_step_hungup
  have c2: "torn_down 100 ex_audit ex_w_hungup
     \<and> (\<forall>ch. io ex_audit = Some ch \<longrightarrow>
          (if io_event ex_hangup
           then channel_counts ex_w_hungup ch = Some (1, 1)
              \<and> watch_count ex_w_hungup (io_id ex_audit) = Some 1
           else channel_counts ex_w_hungup ch = Some (1, 0)
              \<and> watch_count ex_w_hungup (io_id ex_audit) = Some 0
              \<and> (\<forall>env. io_env_fresh env ex_w_hungup \<longrightarrow>
                   (\<exists>w''. step ex_check_address ex_str2ba ex_w_hungup
                             (Io_ready (io_id ex_audit) G_IO_NVAL env) = Some w''
                      \<and> channel_counts w'' ch = Some (1, 1)
                      \<and> watch_count w'' (io_id ex_audit) = Some 1
                      \<and> heap w'' = heap ex_w_hungup \<and> audits w'' = audits ex_w_hungup))))"
    by auto
  have 1: "torn_down 100 ex_audit ex_w_expired" using c1 by simp
  have 2: "channel_counts ex_w_expired 200 = Some (1, 0) \<and> watch_count ex_w_expired 2 = Some 0"
    using c1 [THEN conjunct2, rule_format, OF h(2)] e(1) h(3) by simp
  have 3: "channel_counts ex_w_released 200 = Some (1, 1) \<and> watch_count ex_w_released 2 = Some 1"
    using c1 [THEN conjunct2, rule_format, OF h(2)] e(1) h(3) f ex_step_released
    by (auto simp: ex_nval_def)
  have 4: "torn_down 100 ex_audit ex_w_hungup" using c2 by simp
  have 5: "channel_counts ex_w_hungup 200 = Some (1, 1) \<and> watch_count ex_w_hungup 2 = Some 1"
    using c2 [THEN conjunct2, rule_format, OF h(2)] e(2) h(3) by simp
  show ?thesis
    using ex_run3 ex_nval_run3 h t g ex_step_expired 1 2 ex_step_released 3 ex_step_hungup 4 5
    by simp
qed

end
